theory Spec2Isabelle
  imports Main "HOL-Library.Signed_Division"
begin

section \<open>The secp256k1 scalar-multiplication core\<close>

text \<open>
  A shallow embedding of the two source files. JavaScript \<open>bigint\<close> is \<open>int\<close>;
  \<open>a / b\<close> and \<open>a % b\<close> on \<open>bigint\<close> truncate towards zero, which is
  \<open>sdiv\<close> and \<open>smod\<close>; \<open>n & 1n\<close> and \<open>n >> 1n\<close> work on the two's complement
  representation, as \<open>AND\<close> and \<open>drop_bit\<close> on \<open>int\<close> do. Every \<open>throw\<close> is the
  \<open>Inl\<close> branch of a sum.
\<close>

unbundle bit_operations_syntax

subsection \<open>Curve parameters\<close>

definition CURVE_P :: int where
  "CURVE_P = 2 ^ 256 - 2 ^ 32 - 977"

definition CURVE_n :: int where
  "CURVE_n = 2 ^ 256 - 432420386565659656852420866394968145599"

definition CURVE_Gx :: int where
  "CURVE_Gx = 55066263022277343669578718895168534326250603453777594175500187360389116729240"

definition CURVE_Gy :: int where
  "CURVE_Gy = 32670510020758816978083085130507043184471273380659243275938904335757337482424"

subsection \<open>Errors\<close>

text \<open>
  \<open>ExpectedPositive\<close> is \<open>Error('invert: expected positive integers')\<close>,
  \<open>DoesNotExist\<close> is \<open>Error('invert: does not exist')\<close>, \<open>RangeError\<close> is the
  division by zero of \<open>a % 0n\<close>, and \<open>TypeError\<close> is the read of a field of
  \<open>undefined\<close>.
\<close>

datatype error = ExpectedPositive | DoesNotExist | RangeError | TypeError

subsection \<open>Field arithmetic (the same text in both files)\<close>

text \<open>\<open>mod(a, b)\<close>; every caller passes \<open>b \<noteq> 0\<close> or checks it first.\<close>

definition mod_js :: "int \<Rightarrow> int \<Rightarrow> int" where
  "mod_js a b = (let result = a smod b in if result \<ge> 0 then result else b + result)"

text \<open>\<open>mod(a)\<close> with the default second argument.\<close>

definition modP :: "int \<Rightarrow> int" where
  "modP a = mod_js a CURVE_P"

text \<open>The loop of \<open>egcd\<close> on the variables \<open>a, b, x, y, u, v\<close>.\<close>

function egcd_loop :: "int \<Rightarrow> int \<Rightarrow> int \<Rightarrow> int \<Rightarrow> int \<Rightarrow> int \<Rightarrow> int \<times> int \<times> int" where
  "egcd_loop a b x y u v =
     (if a \<noteq> 0 then
        (let q = b sdiv a;
             r = b smod a;
             m = x - u * q;
             n = y - v * q
         in egcd_loop r a u v m n)
      else (b, x, y))"
  by pat_completeness auto
termination
proof (relation "measure (\<lambda>(a, b, x, y, u, v). nat \<bar>a\<bar>)")
  show "wf (measure (\<lambda>(a, b, x, y, u, v). nat \<bar>a\<bar>))" by simp
next
  fix a b x y u v :: int and q r m n :: int
  assume a: "a \<noteq> 0" and r: "r = b smod a"
  have "\<bar>b smod a\<bar> = \<bar>b\<bar> mod \<bar>a\<bar>"
    using a by (cases "b = 0") (simp_all add: signed_modulo_int_def abs_mult)
  also have "\<dots> < \<bar>a\<bar>" using a by simp
  finally show "((r, a, u, v, m, n), (a, b, x, y, u, v)) \<in> measure (\<lambda>(a, b, x, y, u, v). nat \<bar>a\<bar>)"
    using r by simp
qed

declare egcd_loop.simps [simp del]

definition egcd :: "int \<Rightarrow> int \<Rightarrow> int \<times> int \<times> int" where
  "egcd a b = egcd_loop a b 0 1 1 0"

subsection \<open>\<open>src/unnamed/part_000\<close>\<close>

definition invert :: "int \<Rightarrow> int \<Rightarrow> error + int" where
  "invert number modulus =
     (if number = 0 \<or> modulus \<le> 0 then Inl ExpectedPositive
      else (case egcd (mod_js number modulus) modulus of
              (g, x, _) \<Rightarrow> if g \<noteq> 1 then Inl DoesNotExist else Inr (mod_js x modulus)))"

datatype Point = Point (Px: int) (Py: int)

datatype JacobianPoint = JacobianPoint (Jx: int) (Jy: int) (Jz: int)

definition Point_ZERO :: Point where
  "Point_ZERO = Point 0 0"

definition Point_double :: "Point \<Rightarrow> error + Point" where
  "Point_double this =
     (let X1 = Px this; Y1 = Py this in
      case invert (2 * Y1) CURVE_P of
        Inl e \<Rightarrow> Inl e
      | Inr i \<Rightarrow>
          (let lam = modP (3 * X1 ^ 2 * i);
               X3 = modP (lam * lam - 2 * X1);
               Y3 = modP (lam * (X1 - X3) - Y1)
           in Inr (Point X3 Y3)))"

definition Point_add :: "Point \<Rightarrow> Point \<Rightarrow> error + Point" where
  "Point_add this other =
     (let X1 = Px this; Y1 = Py this; X2 = Px other; Y2 = Py other in
      if X1 = 0 \<or> Y1 = 0 then Inr other
      else if X2 = 0 \<or> Y2 = 0 then Inr this
      else if X1 = X2 \<and> Y1 = Y2 then Point_double this
      else if X1 = X2 \<and> Y1 = - Y2 then Inr Point_ZERO
      else
        (case invert (X2 - X1) CURVE_P of
           Inl e \<Rightarrow> Inl e
         | Inr i \<Rightarrow>
             (let lam = modP ((Y2 - Y1) * i);
                  X3 = modP (lam * lam - X1 - X2);
                  Y3 = modP (lam * (X1 - X3) - Y1)
              in Inr (Point X3 Y3))))"

text \<open>The \<open>while (n > 0n)\<close> loop of \<open>multiplyDA\<close> on the variables \<open>n, p, d\<close>.\<close>

function multiplyDA_loop :: "int \<Rightarrow> Point \<Rightarrow> Point \<Rightarrow> error + Point" where
  "multiplyDA_loop n p d =
     (if n > 0 then
        (case (if n AND 1 \<noteq> 0 then Point_add p d else Inr p) of
           Inl e \<Rightarrow> Inl e
         | Inr p' \<Rightarrow>
             (case Point_double d of
                Inl e \<Rightarrow> Inl e
              | Inr d' \<Rightarrow> multiplyDA_loop (drop_bit 1 n) p' d'))
      else Inr p)"
  by pat_completeness auto
termination
  by (relation "measure (\<lambda>(n, p, d). nat n)") (auto simp: drop_bit_eq_div)

declare multiplyDA_loop.simps [simp del]

definition multiplyDA :: "Point \<Rightarrow> int \<Rightarrow> error + Point" where
  "multiplyDA this n = multiplyDA_loop n Point_ZERO this"

definition G :: Point where
  "G = Point CURVE_Gx CURVE_Gy"

definition getPublicKey :: "int \<Rightarrow> error + Point" where
  "getPublicKey privKey = multiplyDA G privKey"

text \<open>
  The module-level variables \<open>precomputes\<close> and \<open>precomputesJ\<close>: \<open>None\<close> is
  \<open>undefined\<close>. An array is truthy even when empty, so \<open>if (precomputes)\<close> is
  the test for \<open>Some\<close>.
\<close>

record cache =
  precomputes :: "Point list option"
  precomputesJ :: "JacobianPoint list option"


text \<open>
  The \<open>for\<close> loop of \<open>getPrecomputes\<close>; the first argument counts the iterations
  left, \<open>256 - i\<close>. The array is the module variable, so the entries pushed before a
  \<open>throw\<close> of \<open>double\<close> stay in it.
\<close>

fun getPrecomputes_loop :: "nat \<Rightarrow> Point \<Rightarrow> Point list \<Rightarrow> error option \<times> Point list" where
  "getPrecomputes_loop 0 dbl arr = (None, arr)"
| "getPrecomputes_loop (Suc k) dbl arr =
     (case Point_double dbl of
        Inl e \<Rightarrow> (Some e, arr @ [dbl])
      | Inr dbl' \<Rightarrow> getPrecomputes_loop k dbl' (arr @ [dbl]))"

definition getPrecomputes :: "Point \<Rightarrow> cache \<Rightarrow> (error + Point list) \<times> cache" where
  "getPrecomputes this s =
     (case precomputes s of
        Some arr \<Rightarrow> (Inr arr, s)
      | None \<Rightarrow>
          (case getPrecomputes_loop 256 this [] of
             (None, arr) \<Rightarrow> (Inr arr, s\<lparr>precomputes := Some arr\<rparr>)
           | (Some e, arr) \<Rightarrow> (Inl e, s\<lparr>precomputes := Some arr\<rparr>)))"

text \<open>
  The \<open>for\<close> loop of \<open>multiplyCT\<close>. The first argument counts the iterations left,
  the list is the table from index \<open>i\<close> on. Past the end of the array \<open>dbls[i]\<close> is
  \<open>undefined\<close>, and \<open>add\<close> throws a \<open>TypeError\<close> when it reads \<open>b.x\<close>.
\<close>

fun multiplyCT_loop :: "nat \<Rightarrow> Point list \<Rightarrow> int \<Rightarrow> Point \<Rightarrow> Point \<Rightarrow> error + Point" where
  "multiplyCT_loop 0 dbls n p f = Inr p"
| "multiplyCT_loop (Suc k) [] n p f = Inl TypeError"
| "multiplyCT_loop (Suc k) (dbl # dbls) n p f =
     (if n AND 1 = 1 then
        (case Point_add p dbl of
           Inl e \<Rightarrow> Inl e
         | Inr p' \<Rightarrow> multiplyCT_loop k dbls (drop_bit 1 n) p' f)
      else
        (case Point_add f dbl of
           Inl e \<Rightarrow> Inl e
         | Inr f' \<Rightarrow> multiplyCT_loop k dbls (drop_bit 1 n) p f'))"

definition multiplyCT :: "Point \<Rightarrow> int \<Rightarrow> cache \<Rightarrow> (error + Point) \<times> cache" where
  "multiplyCT this n s =
     (case getPrecomputes this s of
        (Inl e, s') \<Rightarrow> (Inl e, s')
      | (Inr dbls, s') \<Rightarrow> (multiplyCT_loop 256 dbls n Point_ZERO Point_ZERO, s'))"

subsubsection \<open>Jacobian points\<close>

definition JacobianPoint_ZERO :: JacobianPoint where
  "JacobianPoint_ZERO = JacobianPoint 0 1 0"

definition JacobianPoint_BASE :: JacobianPoint where
  "JacobianPoint_BASE = JacobianPoint CURVE_Gx CURVE_Gy 1"

text \<open>The \<open>instanceof\<close> guards of \<open>fromAffine\<close> and \<open>add\<close> hold by typing.\<close>

definition fromAffine :: "Point \<Rightarrow> JacobianPoint" where
  "fromAffine p = JacobianPoint (Px p) (Py p) 1"



definition JacobianPoint_double :: "JacobianPoint \<Rightarrow> JacobianPoint" where
  "JacobianPoint_double this =
     (let X1 = Jx this; Y1 = Jy this; Z1 = Jz this;
          A = X1 ^ 2;
          B = Y1 ^ 2;
          C = B ^ 2;
          D = 2 * ((X1 + B) ^ 2 - A - C);
          E = 3 * A;
          F = E ^ 2;
          X3 = modP (F - 2 * D);
          Y3 = modP (E * (D - X3) - 8 * C);
          Z3 = modP (2 * Y1 * Z1)
      in JacobianPoint X3 Y3 Z3)"

definition JacobianPoint_add :: "JacobianPoint \<Rightarrow> JacobianPoint \<Rightarrow> JacobianPoint" where
  "JacobianPoint_add this other =
     (let X1 = Jx this; Y1 = Jy this; Z1 = Jz this;
          X2 = Jx other; Y2 = Jy other; Z2 = Jz other in
      if X2 = 0 \<or> Y2 = 0 then this
      else if X1 = 0 \<or> Y1 = 0 then other
      else
        (let Z1Z1 = Z1 ^ 2;
             Z2Z2 = Z2 ^ 2;
             U1 = X1 * Z2Z2;
             U2 = X2 * Z1Z1;
             S1 = Y1 * Z2 * Z2Z2;
             S2 = Y2 * Z1 * Z1Z1;
             H = modP (U2 - U1);
             r = modP (S2 - S1) in
         if H = 0 then
           (if r = 0 then JacobianPoint_double this else JacobianPoint_ZERO)
         else
           (let HH = modP (H ^ 2);
                HHH = modP (H * HH);
                V = U1 * HH;
                X3 = modP (r ^ 2 - HHH - 2 * V);
                Y3 = modP (r * (V - X3) - S1 * HHH);
                Z3 = modP (Z1 * Z2 * H)
            in JacobianPoint X3 Y3 Z3)))"

text \<open>The loop of \<open>getPrecomputesJ\<close>; \<open>double\<close> on Jacobian points never throws.\<close>

fun getPrecomputesJ_loop :: "nat \<Rightarrow> JacobianPoint \<Rightarrow> JacobianPoint list \<Rightarrow> JacobianPoint list" where
  "getPrecomputesJ_loop 0 dbl arr = arr"
| "getPrecomputesJ_loop (Suc k) dbl arr =
     getPrecomputesJ_loop k (JacobianPoint_double dbl) (arr @ [dbl])"

definition getPrecomputesJ :: "Point \<Rightarrow> cache \<Rightarrow> JacobianPoint list \<times> cache" where
  "getPrecomputesJ this s =
     (case precomputesJ s of
        Some arr \<Rightarrow> (arr, s)
      | None \<Rightarrow>
          (let arr = getPrecomputesJ_loop 256 (fromAffine this) []
           in (arr, s\<lparr>precomputesJ := Some arr\<rparr>)))"



subsection \<open>\<open>src/secp256k1.ts\<close>\<close>

text \<open>
  The affine-only file. \<open>mod\<close> and \<open>egcd\<close> are the same text as above. \<open>invert\<close>
  tests \<open>number <= 0n\<close> where the other file tests \<open>modulo <= 0n\<close>, so a zero
  \<open>modulo\<close> reaches \<open>a % 0n\<close>, which throws a \<open>RangeError\<close>; and \<open>add\<close> reduces
  \<open>Y2 - Y1\<close> before the product instead of the product.
\<close>

definition ts_invert :: "int \<Rightarrow> int \<Rightarrow> error + int" where
  "ts_invert number modulus =
     (if number = 0 \<or> number \<le> 0 then Inl ExpectedPositive
      else if modulus = 0 then Inl RangeError
      else (case egcd (mod_js number modulus) modulus of
              (g, x, _) \<Rightarrow> if g \<noteq> 1 then Inl DoesNotExist else Inr (mod_js x modulus)))"

definition ts_Point_double :: "Point \<Rightarrow> error + Point" where
  "ts_Point_double this =
     (let X1 = Px this; Y1 = Py this in
      case ts_invert (2 * Y1) CURVE_P of
        Inl e \<Rightarrow> Inl e
      | Inr i \<Rightarrow>
          (let lam = modP (3 * X1 ^ 2 * i);
               X3 = modP (lam * lam - 2 * X1);
               Y3 = modP (lam * (X1 - X3) - Y1)
           in Inr (Point X3 Y3)))"

definition ts_Point_add :: "Point \<Rightarrow> Point \<Rightarrow> error + Point" where
  "ts_Point_add this other =
     (let X1 = Px this; Y1 = Py this; X2 = Px other; Y2 = Py other in
      if X1 = 0 \<or> Y1 = 0 then Inr other
      else if X2 = 0 \<or> Y2 = 0 then Inr this
      else if X1 = X2 \<and> Y1 = Y2 then ts_Point_double this
      else if X1 = X2 \<and> Y1 = - Y2 then Inr Point_ZERO
      else
        (case ts_invert (X2 - X1) CURVE_P of
           Inl e \<Rightarrow> Inl e
         | Inr i \<Rightarrow>
             (let lam = modP (Y2 - Y1) * i;
                  X3 = modP (lam * lam - X1 - X2);
                  Y3 = modP (lam * (X1 - X3) - Y1)
              in Inr (Point X3 Y3))))"

function ts_multiplyDA_loop :: "int \<Rightarrow> Point \<Rightarrow> Point \<Rightarrow> error + Point" where
  "ts_multiplyDA_loop n p d =
     (if n > 0 then
        (case (if n AND 1 \<noteq> 0 then ts_Point_add p d else Inr p) of
           Inl e \<Rightarrow> Inl e
         | Inr p' \<Rightarrow>
             (case ts_Point_double d of
                Inl e \<Rightarrow> Inl e
              | Inr d' \<Rightarrow> ts_multiplyDA_loop (drop_bit 1 n) p' d'))
      else Inr p)"
  by pat_completeness auto
termination
  by (relation "measure (\<lambda>(n, p, d). nat n)") (auto simp: drop_bit_eq_div)

declare ts_multiplyDA_loop.simps [simp del]

definition ts_multiplyDA :: "Point \<Rightarrow> int \<Rightarrow> error + Point" where
  "ts_multiplyDA this n = ts_multiplyDA_loop n Point_ZERO this"

definition ts_getPublicKey :: "int \<Rightarrow> error + Point" where
  "ts_getPublicKey privKey = ts_multiplyDA G privKey"

subsection \<open>Auxiliary notions\<close>

text \<open>
  The states of the Jacobian table that the program reaches: the variable is unset, or
  holds the 256 entries of a finished \<open>getPrecomputesJ\<close>.
\<close>

definition precomputesJ_built :: "cache \<Rightarrow> bool" where
  "precomputesJ_built s = (case precomputesJ s of None \<Rightarrow> True | Some arr \<Rightarrow> length arr = 256)"

text \<open>
  The points of the curve \<open>y\<^sup>2 = x\<^sup>3 + 7\<close> over the field of \<open>P\<close> elements, with
  both coordinates reduced. The sentinel \<open>(0, 0)\<close> is not one of them.
\<close>

definition on_curve :: "Point \<Rightarrow> bool" where
  "on_curve p \<longleftrightarrow>
     0 \<le> Px p \<and> Px p < CURVE_P \<and> 0 \<le> Py p \<and> Py p < CURVE_P
     \<and> (Py p ^ 2 - Px p ^ 3 - 7) mod CURVE_P = 0"

text \<open>
  A table of successive doublings of \<open>d\<close>: each entry is the \<open>double\<close> of the one
  before, and the \<open>double\<close> of every entry returns.
\<close>

fun doublings :: "Point \<Rightarrow> Point list \<Rightarrow> bool" where
  "doublings d [] = True"
| "doublings d (x # xs) =
     (x = d \<and> (case Point_double d of Inl e \<Rightarrow> False | Inr d' \<Rightarrow> doublings d' xs))"

subsection \<open>Primality and its certificates\<close>

text \<open>
  The inverse exists for every nonzero residue because \<open>P\<close> is prime. Primality is
  stated without a library of primes: every number in \<open>(0, p)\<close> is coprime to \<open>p\<close>.
\<close>

definition prime_int :: "int \<Rightarrow> bool" where
  "prime_int p \<longleftrightarrow> 1 < p \<and> (\<forall>a. 0 < a \<and> a < p \<longrightarrow> coprime a p)"

text \<open>
  A power \<open>a ^ e mod N\<close> with a large exponent is checked step by step along the bits
  of \<open>e\<close>: each step squares (and multiplies by \<open>a\<close> on a set bit) and reduces with a
  given quotient \<open>q\<close>, for the modulus \<open>N = pk - c\<close>. A step whose remainder leaves
  \<open>[0, N)\<close> fails.
\<close>

datatype step = Sq int | SqMul int

definition check_range :: "int \<Rightarrow> int \<Rightarrow> int option" where
  "check_range N r = (if 0 \<le> r \<and> r < N then Some r else None)"

definition reduce_cert :: "int \<Rightarrow> int \<Rightarrow> int \<Rightarrow> int \<Rightarrow> int \<Rightarrow> int option" where
  "reduce_cert N pk c t q = check_range N (t + q * c - q * pk)"

fun run_steps :: "int \<Rightarrow> int \<Rightarrow> int \<Rightarrow> int \<Rightarrow> int \<times> int \<Rightarrow> step list \<Rightarrow> (int \<times> int) option" where
  "run_steps N pk c a (v, e) [] = Some (v, e)"
| "run_steps N pk c a (v, e) (Sq q # ss) =
     (case reduce_cert N pk c (v ^ 2) q of
        None \<Rightarrow> None
      | Some r \<Rightarrow> run_steps N pk c a (r, 2 * e) ss)"
| "run_steps N pk c a (v, e) (SqMul q # ss) =
     (case reduce_cert N pk c (v ^ 2 * a) q of
        None \<Rightarrow> None
      | Some r \<Rightarrow> run_steps N pk c a (r, 2 * e + 1) ss)"

text \<open>Trial division from \<open>k\<close> up to the square root of \<open>n\<close>.\<close>

function no_divisor_from :: "int \<Rightarrow> int \<Rightarrow> bool" where
  "no_divisor_from n k =
     (if n < k * k then True
      else if n mod k = 0 then False
      else no_divisor_from n (k + 1))"
  by pat_completeness auto
termination
proof (relation "measure (\<lambda>(n, k). nat (n + 1 - k))")
  show "wf (measure (\<lambda>(n, k). nat (n + 1 - k)))" by simp
next
  fix n k :: int
  assume "\<not> n < k * k"
  then have "k * k \<le> n" by simp
  moreover have "k \<le> k * k"
    by (cases "k \<le> 0") (auto simp: mult_le_cancel_left1 mult_nonneg_nonpos2 intro: order_trans)
  ultimately have "k \<le> n" by simp
  then show "((n, k + 1), (n, k)) \<in> measure (\<lambda>(n, k). nat (n + 1 - k))" by simp
qed

declare no_divisor_from.simps [simp del]

section \<open>Field arithmetic\<close>

lemma smod_eq_mod_nonneg: "0 \<le> (a::int) \<Longrightarrow> 0 \<le> b \<Longrightarrow> a smod b = a mod b"
  by (simp add: signed_modulo_int_def sgn_if)

lemma sdiv_eq_div_nonneg: "0 \<le> (a::int) \<Longrightarrow> 0 \<le> b \<Longrightarrow> a sdiv b = a div b"
  by (simp add: signed_divide_int_def sgn_if)

lemma mod_js_eq_mod: "0 < b \<Longrightarrow> mod_js a b = a mod b"
proof -
  assume b: "0 < b"
  show ?thesis
  proof (cases "0 \<le> a")
    case True
    then show ?thesis using b by (simp add: mod_js_def smod_eq_mod_nonneg)
  next
    case False
    then have a: "a < 0" by simp
    have s: "a smod b = - ((- a) mod b)"
      using a b by (simp add: signed_modulo_int_def sgn_if)
    show ?thesis
    proof (cases "(- a) mod b = 0")
      case True
      then have "a mod b = 0" by (simp add: mod_eq_0_iff_dvd)
      with True s show ?thesis by (simp add: mod_js_def)
    next
      case False
      have "0 \<le> (- a) mod b" using b by simp
      with False have "0 < (- a) mod b" by simp
      moreover have "a mod b = b - (- a) mod b"
        using False zmod_zminus1_eq_if [of "- a" b] by simp
      ultimately show ?thesis using s by (simp add: mod_js_def)
    qed
  qed
qed

lemma CURVE_P_pos: "0 < CURVE_P"
  by (simp add: CURVE_P_def)

lemma modP_eq_mod: "modP a = a mod CURVE_P"
  by (simp add: modP_def mod_js_eq_mod CURVE_P_pos)

lemma egcd_loop_bezout:
  "egcd_loop a b x y u v = (g, x', y') \<Longrightarrow> a0 * u + b0 * v = a \<Longrightarrow> a0 * x + b0 * y = b
   \<Longrightarrow> a0 * x' + b0 * y' = g"
proof (induction a b x y u v rule: egcd_loop.induct)
  case (1 a b x y u v)
  show ?case
  proof (cases "a = 0")
    case True
    with "1.prems" show ?thesis by (simp add: egcd_loop.simps)
  next
    case False
    let ?q = "b sdiv a"
    have r: "b smod a = b - ?q * a"
      by (simp add: minus_sdiv_mult_eq_smod)
    have step: "egcd_loop (b smod a) a u v (x - u * ?q) (y - v * ?q) = (g, x', y')"
      using "1.prems"(1) False by (subst (asm) egcd_loop.simps) (simp add: Let_def)
    have "a0 * (x - u * ?q) + b0 * (y - v * ?q) = (a0 * x + b0 * y) - (a0 * u + b0 * v) * ?q"
      by (simp add: algebra_simps)
    also have "\<dots> = b - ?q * a"
      by (simp only: "1.prems"(2,3) mult.commute)
    finally have inv: "a0 * (x - u * ?q) + b0 * (y - v * ?q) = b smod a"
      by (simp only: r)
    show ?thesis
      using "1.IH" [OF False refl refl refl refl step inv "1.prems"(2)] .
  qed
qed

lemma egcd_bezout: "egcd a b = (g, x, y) \<Longrightarrow> a * x + b * y = g"
  using egcd_loop_bezout [of a b 0 1 1 0 g x y a b] by (simp add: egcd_def)

lemma egcd_loop_gcd:
  "egcd_loop a b x y u v = (g, x', y') \<Longrightarrow> \<bar>g\<bar> = gcd a b"
proof (induction a b x y u v rule: egcd_loop.induct)
  case (1 a b x y u v)
  show ?case
  proof (cases "a = 0")
    case True
    with "1.prems" show ?thesis by (simp add: egcd_loop.simps)
  next
    case False
    let ?q = "b sdiv a"
    have r: "b smod a = b - ?q * a"
      by (simp add: minus_sdiv_mult_eq_smod)
    have step: "egcd_loop (b smod a) a u v (x - u * ?q) (y - v * ?q) = (g, x', y')"
      using "1.prems"(1) False by (subst (asm) egcd_loop.simps) (simp add: Let_def)
    have "\<bar>g\<bar> = gcd (b smod a) a"
      using "1.IH" [OF False refl refl refl refl step] .
    also have "\<dots> = gcd (b - ?q * a) a" by (simp only: r)
    also have "\<dots> = gcd a (- ?q * a + b)" by (simp add: gcd.commute algebra_simps)
    also have "\<dots> = gcd a b" by (rule gcd_add_mult)
    finally show ?thesis .
  qed
qed

lemma egcd_loop_nonneg:
  "egcd_loop a b x y u v = (g, x', y') \<Longrightarrow> 0 \<le> a \<Longrightarrow> 0 \<le> b \<Longrightarrow> 0 \<le> g"
proof (induction a b x y u v rule: egcd_loop.induct)
  case (1 a b x y u v)
  show ?case
  proof (cases "a = 0")
    case True
    with "1.prems" show ?thesis by (simp add: egcd_loop.simps)
  next
    case False
    let ?q = "b sdiv a"
    have step: "egcd_loop (b smod a) a u v (x - u * ?q) (y - v * ?q) = (g, x', y')"
      using "1.prems"(1) False by (subst (asm) egcd_loop.simps) (simp add: Let_def)
    have "0 \<le> b smod a"
      using "1.prems"(2,3) False by (simp add: smod_eq_mod_nonneg)
    then show ?thesis
      using "1.IH" [OF False refl refl refl refl step] "1.prems"(2) by simp
  qed
qed

lemma egcd_gcd: "0 \<le> a \<Longrightarrow> 0 \<le> b \<Longrightarrow> egcd a b = (g, x, y) \<Longrightarrow> g = gcd a b"
  using egcd_loop_gcd [of a b 0 1 1 0 g x y] egcd_loop_nonneg [of a b 0 1 1 0 g x y]
  by (simp add: egcd_def)

lemma invert_unfold:
  "invert v m =
     (if v = 0 \<or> m \<le> 0 then Inl ExpectedPositive
      else if gcd (v mod m) m \<noteq> 1 then Inl DoesNotExist
      else Inr (fst (snd (egcd (v mod m) m)) mod m))"
proof (cases "v = 0 \<or> m \<le> 0")
  case True
  then show ?thesis by (auto simp: invert_def)
next
  case False
  then have m: "0 < m" and v: "v \<noteq> 0" by simp_all
  obtain g x y where e: "egcd (v mod m) m = (g, x, y)"
    by (cases "egcd (v mod m) m") auto
  have "0 \<le> v mod m" using m by simp
  then have g: "g = gcd (v mod m) m"
    using egcd_gcd [OF _ _ e] m by simp
  show ?thesis
    using m v e g by (simp add: invert_def mod_js_eq_mod)
qed

lemma invert_Inr:
  assumes "invert v m = Inr i"
  shows "0 \<le> i \<and> i < m \<and> (v * i) mod m = 1 mod m"
proof -
  from assms have m: "0 < m" and c: "gcd (v mod m) m = 1"
    and i: "i = fst (snd (egcd (v mod m) m)) mod m"
    by (auto simp: invert_unfold split: if_splits)
  obtain g x y where e: "egcd (v mod m) m = (g, x, y)"
    by (cases "egcd (v mod m) m") auto
  have "0 \<le> v mod m" using m by simp
  then have g: "g = 1"
    using egcd_gcd [OF _ _ e] m c by simp
  have b: "(v mod m) * x + m * y = 1"
    using egcd_bezout [OF e] g by simp
  have "(v * i) mod m = ((v mod m) * (x mod m)) mod m"
    using i e by (simp add: mod_mult_left_eq)
  also have "\<dots> = ((v mod m) * x) mod m"
    by (simp add: mod_mult_right_eq)
  also have "\<dots> = ((v mod m) * x + m * y) mod m"
    by simp
  also have "\<dots> = 1 mod m"
    by (simp only: b)
  finally show ?thesis using i m by simp
qed

lemma invert_Inl_iff:
  "isl (invert v m) \<longleftrightarrow> v = 0 \<or> m \<le> 0 \<or> gcd (v mod m) m \<noteq> 1"
  by (simp add: invert_unfold)

lemma invert_certificate:
  assumes v: "v \<noteq> 0" and j: "0 \<le> j" "j < m" and c: "(v * j) mod m = 1"
  shows "invert v m = Inr j"
proof -
  have m: "0 < m" using j by simp
  have m1: "1 mod m = 1"
    using c m by (metis mod_mod_trivial)
  let ?d = "gcd (v mod m) m"
  have "?d dvd v mod m" "?d dvd m" by simp_all
  then have "?d dvd v" using dvd_mod_iff [of ?d m v] by simp
  then have "?d dvd v * j" by simp
  with \<open>?d dvd m\<close> have "?d dvd (v * j) mod m" by (simp add: dvd_mod_iff)
  then have "?d dvd 1" using c by simp
  then have d: "?d = 1" by simp
  then obtain i where i: "invert v m = Inr i"
    using v m by (simp add: invert_unfold)
  from invert_Inr [OF i] have ir: "0 \<le> i" "i < m" and ic: "(v * i) mod m = 1"
    using m1 by simp_all
  have "i mod m = (i * ((v * j) mod m)) mod m" using c by simp
  also have "\<dots> = (((v * i) mod m) * j) mod m"
    by (simp add: mod_mult_right_eq mod_mult_left_eq mult_ac)
  also have "\<dots> = j mod m" using ic by simp
  finally have "i = j" using ir j by simp
  with i show ?thesis by simp
qed

lemma mod_certificate: "x = q * m + r \<Longrightarrow> 0 \<le> r \<Longrightarrow> r < m \<Longrightarrow> x mod m = (r::int)"
  by simp

section \<open>The affine group law\<close>

subsection \<open>Adding the opposite point\<close>

lemma CURVE_P_odd: "odd CURVE_P"
  by (simp add: CURVE_P_def)

lemma Point_add_opposite_raises:
  assumes "0 < x" "x < CURVE_P" "0 < y" "y < CURVE_P"
  shows "Point_add (Point x y) (Point x (modP (- y))) = Inl ExpectedPositive"
proof -
  have "(- y) mod CURVE_P = CURVE_P - y"
    using assms zmod_zminus1_eq_if [of y CURVE_P] by simp
  then have m: "modP (- y) = CURVE_P - y" by (simp add: modP_eq_mod)
  have "2 * y \<noteq> CURVE_P"
    using CURVE_P_odd by (metis dvd_triv_left)
  then have "CURVE_P - y \<noteq> 0" "y \<noteq> CURVE_P - y" "y \<noteq> - (CURVE_P - y)"
    using assms by simp_all
  then show ?thesis
    using assms by (simp add: m Point_add_def invert_def)
qed

lemma ts_Point_add_opposite_raises:
  assumes "0 < x" "x < CURVE_P" "0 < y" "y < CURVE_P"
  shows "ts_Point_add (Point x y) (Point x (modP (- y))) = Inl ExpectedPositive"
proof -
  have "(- y) mod CURVE_P = CURVE_P - y"
    using assms zmod_zminus1_eq_if [of y CURVE_P] by simp
  then have m: "modP (- y) = CURVE_P - y" by (simp add: modP_eq_mod)
  have "2 * y \<noteq> CURVE_P"
    using CURVE_P_odd by (metis dvd_triv_left)
  then have "CURVE_P - y \<noteq> 0" "y \<noteq> CURVE_P - y" "y \<noteq> - (CURVE_P - y)"
    using assms by simp_all
  then show ?thesis
    using assms by (simp add: m ts_Point_add_def ts_invert_def)
qed

lemma G_bounds: "0 < CURVE_Gx" "CURVE_Gx < CURVE_P" "0 < CURVE_Gy" "CURVE_Gy < CURVE_P"
  by (simp_all add: CURVE_Gx_def CURVE_Gy_def CURVE_P_def)

text \<open>
  Claim C2. The spec has \<open>P.add((x, -y mod P))\<close> return the identity \<open>(0, 0)\<close>.
  In both files \<open>add\<close> tests \<open>Y1 === -Y2\<close> on the unreduced negation, which no
  two coordinates in \<open>(0, P)\<close> satisfy; the call falls through to \<open>invert(0)\<close>,
  which throws. Evaluated at the generator and its opposite \<open>(Gx, P - Gy)\<close>.
\<close>

theorem add_opposite_of_G_raises:
  "Point_add G (Point CURVE_Gx (modP (- CURVE_Gy))) = Inl ExpectedPositive
   \<and> ts_Point_add G (Point CURVE_Gx (modP (- CURVE_Gy))) = Inl ExpectedPositive"
  unfolding G_def
  using Point_add_opposite_raises [OF G_bounds] ts_Point_add_opposite_raises [OF G_bounds]
  by simp

subsection \<open>Adding a point to itself\<close>

lemma Point_add_self: "Px p \<noteq> 0 \<Longrightarrow> Py p \<noteq> 0 \<Longrightarrow> Point_add p p = Point_double p"
  by (simp add: Point_add_def)

lemma modP_0: "modP 0 = 0"
  by (simp add: modP_eq_mod)

lemma JacobianPoint_add_self:
  "Jx p \<noteq> 0 \<Longrightarrow> Jy p \<noteq> 0 \<Longrightarrow> JacobianPoint_add p p = JacobianPoint_double p"
  by (simp add: JacobianPoint_add_def modP_0)

text \<open>
  Claim C8, as amended. For a point whose \<open>x\<close> and \<open>y\<close> are both nonzero, affine or
  Jacobian, \<open>P.add(P)\<close> is \<open>P.double()\<close>: the identity tests fail and the equality
  test delegates to \<open>double\<close>.
\<close>

theorem add_self_is_double:
  "(Px p \<noteq> 0 \<and> Py p \<noteq> 0 \<longrightarrow> Point_add p p = Point_double p)
   \<and> (Jx q \<noteq> 0 \<and> Jy q \<noteq> 0 \<longrightarrow> JacobianPoint_add q q = JacobianPoint_double q)"
  by (simp add: Point_add_self JacobianPoint_add_self)

theorem add_self_is_double_witness:
  "Px G \<noteq> 0 \<and> Py G \<noteq> 0 \<and> Point_add G G = Point_double G
   \<and> Jx JacobianPoint_BASE \<noteq> 0 \<and> Jy JacobianPoint_BASE \<noteq> 0
   \<and> JacobianPoint_add JacobianPoint_BASE JacobianPoint_BASE = JacobianPoint_double JacobianPoint_BASE"
  using add_self_is_double [of G JacobianPoint_BASE]
  by (simp add: G_def JacobianPoint_BASE_def CURVE_Gx_def CURVE_Gy_def)

lemma Point_add_ZERO_ZERO: "Point_add Point_ZERO Point_ZERO = Inr Point_ZERO"
  by (simp add: Point_add_def Point_ZERO_def)

lemma Point_double_ZERO: "Point_double Point_ZERO = Inl ExpectedPositive"
  by (simp add: Point_double_def Point_ZERO_def invert_def)

lemma JacobianPoint_add_ZERO_ZERO:
  "JacobianPoint_add JacobianPoint_ZERO JacobianPoint_ZERO = JacobianPoint_ZERO"
  by (simp add: JacobianPoint_add_def JacobianPoint_ZERO_def)

lemma JacobianPoint_double_ZERO:
  "JacobianPoint_double JacobianPoint_ZERO = JacobianPoint 0 (CURVE_P - 8) 0"
proof -
  have "(- 8) mod CURVE_P = CURVE_P - 8"
    using zmod_zminus1_eq_if [of 8 CURVE_P] by (simp add: CURVE_P_def)
  then show ?thesis
    by (simp add: JacobianPoint_double_def JacobianPoint_ZERO_def modP_eq_mod)
qed

text \<open>
  Claim C8, as stated, fails at the identity sentinels: \<open>add\<close> returns the sentinel by
  its first test, while the affine \<open>double\<close> of \<open>(0, 0)\<close> throws from \<open>invert(0)\<close>
  and the Jacobian \<open>double\<close> of \<open>(0, 1, 0)\<close> is \<open>(0, P - 8, 0)\<close>.
\<close>

theorem add_self_at_identity:
  "Point_add Point_ZERO Point_ZERO \<noteq> Point_double Point_ZERO
   \<and> JacobianPoint_add JacobianPoint_ZERO JacobianPoint_ZERO \<noteq> JacobianPoint_double JacobianPoint_ZERO"
  by (simp add: Point_add_ZERO_ZERO Point_double_ZERO JacobianPoint_add_ZERO_ZERO
      JacobianPoint_double_ZERO) (simp add: JacobianPoint_ZERO_def CURVE_P_def)

section \<open>The accumulators of \<open>multiplyDA\<close> stay on the curve\<close>

lemma double_identity:
  fixes x y l :: int
  shows "(l * (x - (l * l - 2 * x)) - y) ^ 2 - (l * l - 2 * x) ^ 3 - 7
         = (y ^ 2 - x ^ 3 - 7) - (2 * y * l - 3 * x ^ 2) * (3 * x - l * l)"
  by algebra

lemma add_identity:
  fixes x1 y1 x2 y2 l :: int
  shows "(x2 - x1) * ((l * (x1 - (l * l - x1 - x2)) - y1) ^ 2 - (l * l - x1 - x2) ^ 3 - 7)
         = (x2 - (l * l - x1 - x2)) * (y1 ^ 2 - x1 ^ 3 - 7)
           + ((l * l - x1 - x2) - x1)
             * ((y2 ^ 2 - x2 ^ 3 - 7) + 2 * y2 * (l * (x2 - x1) - (y2 - y1))
                + (l * (x2 - x1) - (y2 - y1)) ^ 2)"
  by algebra

lemma mod_eq_0_cong:
  fixes a b m :: int
  assumes "a mod m = b mod m" "b mod m = 0"
  shows "a mod m = 0"
  using assms by simp

text \<open>The curve equation seen through reduced values.\<close>

lemma curve_eq_cong:
  fixes x y X Y m :: int
  assumes "x mod m = X mod m" "y mod m = Y mod m"
  shows "(y ^ 2 - x ^ 3 - 7) mod m = (Y ^ 2 - X ^ 3 - 7) mod m"
proof -
  have "(y ^ 2) mod m = (Y ^ 2) mod m"
    using assms(2) by (metis power_mod)
  moreover have "(x ^ 3) mod m = (X ^ 3) mod m"
    using assms(1) by (metis power_mod)
  ultimately show ?thesis
    by (metis mod_diff_cong)
qed

lemma double_closed:
  fixes x y i m :: int
  assumes c: "(y ^ 2 - x ^ 3 - 7) mod m = 0"
    and i: "(2 * y * i) mod m = 1 mod m"
  defines "lam \<equiv> (3 * x ^ 2 * i) mod m"
  defines "X3 \<equiv> (lam * lam - 2 * x) mod m"
  defines "Y3 \<equiv> (lam * (x - X3) - y) mod m"
  shows "(Y3 ^ 2 - X3 ^ 3 - 7) mod m = 0"
proof -
  let ?X = "lam * lam - 2 * x"
  let ?Y = "lam * (x - ?X) - y"
  have x3: "X3 mod m = ?X mod m" by (simp add: X3_def)
  have "Y3 mod m = (lam * (x - X3) - y) mod m" by (simp add: Y3_def)
  also have "\<dots> = (lam * (x - ?X) - y) mod m"
    unfolding X3_def by (intro mod_diff_cong mod_mult_cong refl) simp_all
  finally have y3: "Y3 mod m = ?Y mod m" .
  have d: "(2 * y * lam - 3 * x ^ 2) mod m = 0"
  proof -
    have "(2 * y * lam) mod m = (2 * y * (3 * x ^ 2 * i)) mod m"
      unfolding lam_def by (simp add: mod_mult_right_eq)
    also have "\<dots> = ((2 * y * i) * (3 * x ^ 2)) mod m" by (simp add: mult_ac)
    also have "\<dots> = ((1 mod m) * (3 * x ^ 2)) mod m"
      using i by (metis mod_mult_left_eq)
    also have "\<dots> = (3 * x ^ 2) mod m" by (simp add: mod_mult_left_eq)
    finally show ?thesis by (simp add: mod_eq_0_iff_dvd mod_eq_dvd_iff)
  qed
  have "(Y3 ^ 2 - X3 ^ 3 - 7) mod m = (?Y ^ 2 - ?X ^ 3 - 7) mod m"
    by (rule curve_eq_cong [OF x3 y3])
  also have "\<dots> = ((y ^ 2 - x ^ 3 - 7) - (2 * y * lam - 3 * x ^ 2) * (3 * x - lam * lam)) mod m"
    by (simp only: double_identity)
  also have "\<dots> = 0"
    using c d by (simp add: mod_eq_0_iff_dvd)
  finally show ?thesis .
qed

lemma add_closed:
  fixes x1 y1 x2 y2 i m :: int
  assumes c1: "(y1 ^ 2 - x1 ^ 3 - 7) mod m = 0"
    and c2: "(y2 ^ 2 - x2 ^ 3 - 7) mod m = 0"
    and i: "((x2 - x1) * i) mod m = 1 mod m"
  defines "lam \<equiv> ((y2 - y1) * i) mod m"
  defines "X3 \<equiv> (lam * lam - x1 - x2) mod m"
  defines "Y3 \<equiv> (lam * (x1 - X3) - y1) mod m"
  shows "(Y3 ^ 2 - X3 ^ 3 - 7) mod m = 0"
proof -
  let ?h = "x2 - x1"
  let ?X = "lam * lam - x1 - x2"
  let ?Y = "lam * (x1 - ?X) - y1"
  let ?d = "lam * ?h - (y2 - y1)"
  let ?T = "?Y ^ 2 - ?X ^ 3 - 7"
  have x3: "X3 mod m = ?X mod m" by (simp add: X3_def)
  have "Y3 mod m = (lam * (x1 - X3) - y1) mod m" by (simp add: Y3_def)
  also have "\<dots> = (lam * (x1 - ?X) - y1) mod m"
    unfolding X3_def by (intro mod_diff_cong mod_mult_cong refl) simp_all
  finally have y3: "Y3 mod m = ?Y mod m" .
  have "(lam * ?h) mod m = (((y2 - y1) * i) * ?h) mod m"
    unfolding lam_def by (simp add: mod_mult_left_eq)
  also have "\<dots> = ((?h * i) * (y2 - y1)) mod m" by (simp add: mult_ac)
  also have "\<dots> = ((1 mod m) * (y2 - y1)) mod m"
    using i by (metis mod_mult_left_eq)
  also have "\<dots> = (y2 - y1) mod m" by (simp add: mod_mult_left_eq)
  finally have d: "m dvd ?d" by (simp add: mod_eq_dvd_iff)
  have m1: "m dvd (y1 ^ 2 - x1 ^ 3 - 7)" and m2: "m dvd (y2 ^ 2 - x2 ^ 3 - 7)"
    using c1 c2 by (simp_all add: mod_eq_0_iff_dvd)
  have d2: "m dvd ?d ^ 2"
    using d by (simp add: power2_eq_square)
  have rhs: "m dvd (x2 - ?X) * (y1 ^ 2 - x1 ^ 3 - 7)
          + (?X - x1) * ((y2 ^ 2 - x2 ^ 3 - 7) + 2 * y2 * ?d + ?d ^ 2)"
    using m1 m2 d d2 by (intro dvd_add dvd_mult) simp_all
  have "?h * ?T = (x2 - ?X) * (y1 ^ 2 - x1 ^ 3 - 7)
          + (?X - x1) * ((y2 ^ 2 - x2 ^ 3 - 7) + 2 * y2 * ?d + ?d ^ 2)"
    by (rule add_identity)
  with rhs have hT: "m dvd ?h * ?T"
    by simp
  have "m dvd ?h * i - 1"
    using i by (simp add: mod_eq_dvd_iff)
  then obtain k where k: "?h * i - 1 = m * k" by (rule dvdE)
  have "gcd ?h m dvd ?h * i - m * k" by simp
  then have "gcd ?h m dvd 1" using k by (simp add: algebra_simps)
  then have "coprime ?h m" by (simp add: coprime_iff_gcd_eq_1)
  then have "m dvd ?T"
    using hT by (simp add: coprime_commute coprime_dvd_mult_right_iff)
  then have t: "?T mod m = 0" by (simp add: mod_eq_0_iff_dvd)
  have "(Y3 ^ 2 - X3 ^ 3 - 7) mod m = ?T mod m"
    by (rule curve_eq_cong [OF x3 y3])
  with t show ?thesis by simp
qed

lemma Point_double_on_curve:
  assumes "on_curve p" "Point_double p = Inr q"
  shows "on_curve q"
proof -
  obtain i where i: "invert (2 * Py p) CURVE_P = Inr i"
    using assms(2) by (auto simp: Point_double_def Let_def split: sum.splits)
  have ic: "(2 * Py p * i) mod CURVE_P = 1 mod CURVE_P"
    using invert_Inr [OF i] by simp
  have q: "q = Point ((((3 * Px p ^ 2 * i) mod CURVE_P) * ((3 * Px p ^ 2 * i) mod CURVE_P) - 2 * Px p) mod CURVE_P)
      ((((3 * Px p ^ 2 * i) mod CURVE_P) * (Px p - (((3 * Px p ^ 2 * i) mod CURVE_P) * ((3 * Px p ^ 2 * i) mod CURVE_P) - 2 * Px p) mod CURVE_P) - Py p) mod CURVE_P)"
    using assms(2) by (simp add: Point_double_def Let_def i modP_eq_mod)
  have c: "(Py p ^ 2 - Px p ^ 3 - 7) mod CURVE_P = 0"
    using assms(1) by (simp add: on_curve_def)
  show ?thesis
    unfolding q on_curve_def using double_closed [OF c ic] CURVE_P_pos by simp
qed

lemma Point_add_on_curve:
  assumes "on_curve p" "on_curve d" "Point_add p d = Inr r"
  shows "on_curve r"
proof -
  let ?X1 = "Px p" and ?Y1 = "Py p" and ?X2 = "Px d" and ?Y2 = "Py d"
  have nn: "0 \<le> ?Y1" "0 \<le> ?Y2"
    using assms(1,2) by (simp_all add: on_curve_def)
  consider (a) "?X1 = 0 \<or> ?Y1 = 0"
    | (b) "\<not> (?X1 = 0 \<or> ?Y1 = 0)" "?X2 = 0 \<or> ?Y2 = 0"
    | (c) "\<not> (?X1 = 0 \<or> ?Y1 = 0)" "\<not> (?X2 = 0 \<or> ?Y2 = 0)" "?X1 = ?X2 \<and> ?Y1 = ?Y2"
    | (d) "\<not> (?X1 = 0 \<or> ?Y1 = 0)" "\<not> (?X2 = 0 \<or> ?Y2 = 0)" "\<not> (?X1 = ?X2 \<and> ?Y1 = ?Y2)"
    by blast
  then show ?thesis
  proof cases
    case a
    then have "r = d" using assms(3) by (auto simp: Point_add_def)
    with assms(2) show ?thesis by simp
  next
    case b
    then have "r = p" using assms(3) by (auto simp: Point_add_def)
    with assms(1) show ?thesis by simp
  next
    case c
    then have "Point_double p = Inr r" using assms(3) by (auto simp: Point_add_def)
    then show ?thesis by (rule Point_double_on_curve [OF assms(1)])
  next
    case d
    have no: "\<not> (?X1 = ?X2 \<and> ?Y1 = - ?Y2)"
      using d(1,2) nn by auto
    obtain i where i: "invert (?X2 - ?X1) CURVE_P = Inr i"
      using assms(3) d no by (auto simp: Point_add_def Let_def split: sum.splits)
    have ic: "((?X2 - ?X1) * i) mod CURVE_P = 1 mod CURVE_P"
      using invert_Inr [OF i] by simp
    have r: "r = Point ((((?Y2 - ?Y1) * i) mod CURVE_P * (((?Y2 - ?Y1) * i) mod CURVE_P) - ?X1 - ?X2) mod CURVE_P)
        ((((?Y2 - ?Y1) * i) mod CURVE_P * (?X1 - (((?Y2 - ?Y1) * i) mod CURVE_P * (((?Y2 - ?Y1) * i) mod CURVE_P) - ?X1 - ?X2) mod CURVE_P) - ?Y1) mod CURVE_P)"
      using assms(3) d no by (simp add: Point_add_def Let_def i modP_eq_mod)
    have c1: "(?Y1 ^ 2 - ?X1 ^ 3 - 7) mod CURVE_P = 0"
      and c2: "(?Y2 ^ 2 - ?X2 ^ 3 - 7) mod CURVE_P = 0"
      using assms(1,2) by (simp_all add: on_curve_def)
    show ?thesis
      unfolding r on_curve_def using add_closed [OF c1 c2 ic] CURVE_P_pos by simp
  qed
qed

lemma Point_add_ZERO_left: "Point_add Point_ZERO d = Inr d"
  by (simp add: Point_add_def Point_ZERO_def)

lemma not_on_curve_ZERO: "\<not> on_curve Point_ZERO"
  by (simp add: on_curve_def Point_ZERO_def CURVE_P_def)

lemma multiplyDA_loop_on_curve:
  "multiplyDA_loop n p d = Inr R \<Longrightarrow> on_curve d
   \<Longrightarrow> on_curve p \<or> (p = Point_ZERO \<and> 0 < n) \<Longrightarrow> on_curve R"
proof (induction n p d rule: multiplyDA_loop.induct)
  case (1 n p d)
  show ?case
  proof (cases "0 < n")
    case False
    then have "R = p" using "1.prems"(1) by (simp add: multiplyDA_loop.simps)
    with False "1.prems"(3) show ?thesis by auto
  next
    case True
    let ?a = "if n AND 1 \<noteq> 0 then Point_add p d else Inr p"
    obtain p' where p': "?a = Inr p'"
      using "1.prems"(1) True
      by (subst (asm) multiplyDA_loop.simps) (auto split: sum.splits)
    obtain d' where d': "Point_double d = Inr d'"
      using "1.prems"(1) True p'
      by (subst (asm) multiplyDA_loop.simps) (auto split: sum.splits)
    have rec: "multiplyDA_loop (drop_bit 1 n) p' d' = Inr R"
      using "1.prems"(1) True p' d'
      by (subst (asm) multiplyDA_loop.simps) simp
    have od': "on_curve d'"
      using Point_double_on_curve [OF "1.prems"(2) d'] .
    have "on_curve p' \<or> (p' = Point_ZERO \<and> 0 < drop_bit 1 n)"
    proof (cases "n AND 1 \<noteq> 0")
      case True
      then have a: "Point_add p d = Inr p'" using p' by simp
      show ?thesis
      proof (cases "on_curve p")
        case True
        then show ?thesis using Point_add_on_curve [OF _ "1.prems"(2) a] by simp
      next
        case False
        then have "p = Point_ZERO" using "1.prems"(3) by simp
        then have "p' = d" using a by (simp add: Point_add_ZERO_left)
        then show ?thesis using "1.prems"(2) by simp
      qed
    next
      case False
      then have pp: "p' = p" using p' by simp
      from False have "even n" by (simp add: and_one_eq even_iff_mod_2_eq_zero)
      with True have "0 < n div 2" by presburger
      then show ?thesis using pp "1.prems"(3) by (auto simp: drop_bit_eq_div)
    qed
    then show ?thesis
      using "1.IH" [OF True p' d' rec od'] by simp
  qed
qed

lemma multiplyDA_not_identity:
  assumes "0 < n" "on_curve this"
  shows "multiplyDA this n \<noteq> Inr Point_ZERO"
proof
  assume "multiplyDA this n = Inr Point_ZERO"
  then have "on_curve Point_ZERO"
    using multiplyDA_loop_on_curve [of n Point_ZERO this Point_ZERO] assms
    by (simp add: multiplyDA_def)
  then show False by (simp add: not_on_curve_ZERO)
qed

lemma G_on_curve: "on_curve G"
proof -
  have "CURVE_Gy ^ 2 - CURVE_Gx ^ 3 - 7
        = (- 1442042049659660869506300006036683750029629333882594701370927246876626245108435922902327776681700708714008192087431130951749952236093997894375239788520937) * CURVE_P + 0"
    by (simp only: CURVE_Gx_def CURVE_Gy_def CURVE_P_def power_numeral pow.simps sqr.simps
        arith_simps rel_simps simp_thms add_0_right)
  then have "(CURVE_Gy ^ 2 - CURVE_Gx ^ 3 - 7) mod CURVE_P = 0"
    by (rule mod_certificate) (simp_all add: CURVE_P_def)
  then show ?thesis
    using G_bounds by (simp add: on_curve_def G_def)
qed

text \<open>
  Claim C3. The spec has \<open>multiplyDA\<close> on the generator and the order \<open>n\<close> return
  the identity \<open>(0, 0)\<close>. It cannot: every accumulator of a positive scalar is a
  point of the curve, which \<open>(0, 0)\<close> is not, and the one branch of \<open>add\<close> that
  returns \<open>Point.ZERO\<close> is the test \<open>Y1 === -Y2\<close> that reduced coordinates never
  pass. The last \<open>add\<close> of the run meets opposite points and throws instead.
\<close>

theorem multiplyDA_order_not_identity: "multiplyDA G CURVE_n \<noteq> Inr Point_ZERO"
  by (rule multiplyDA_not_identity [OF _ G_on_curve]) (simp add: CURVE_n_def)

section \<open>The two files\<close>

lemma invert_minus_one: "invert (- 1) CURVE_P = Inr (CURVE_P - 1)"
proof (rule invert_certificate)
  show "(- 1) * (CURVE_P - 1) mod CURVE_P = 1"
    by (simp add: CURVE_P_def)
qed (simp_all add: CURVE_P_def)

text \<open>
  Claim C4. \<open>invert\<close> is to return the inverse of every value whose residue is
  invertible, negative ones included. The copy in \<open>src/secp256k1.ts\<close> throws on every
  negative value; at \<open>-1\<close> the other copy returns \<open>P - 1\<close>, which is the inverse.
\<close>

theorem ts_invert_rejects_negative:
  "ts_invert (- 1) CURVE_P = Inl ExpectedPositive \<and> invert (- 1) CURVE_P = Inr (CURVE_P - 1)
   \<and> ((- 1) * (CURVE_P - 1)) mod CURVE_P = 1"
  by (simp add: ts_invert_def invert_minus_one) (simp add: CURVE_P_def)

text \<open>
  Where the argument of \<open>invert\<close> is positive the two files agree: on \<open>double\<close> of a
  point with \<open>y \<ge> 0\<close>, and on \<open>add\<close> when moreover \<open>X1 \<le> X2\<close>. The unreduced
  \<open>lam\<close> of \<open>src/secp256k1.ts\<close> is reduced by the \<open>mod\<close> that follows.
\<close>

lemma ts_invert_eq: "0 < v \<Longrightarrow> 0 < m \<Longrightarrow> ts_invert v m = invert v m"
  by (simp add: ts_invert_def invert_def)

lemma ts_Point_double_eq: "0 \<le> Py p \<Longrightarrow> ts_Point_double p = Point_double p"
proof (cases "Py p = 0")
  case True
  then show ?thesis
    by (simp add: ts_Point_double_def Point_double_def ts_invert_def invert_def)
next
  case False
  assume "0 \<le> Py p"
  with False have "0 < 2 * Py p" by simp
  then have "ts_invert (2 * Py p) CURVE_P = invert (2 * Py p) CURVE_P"
    using CURVE_P_pos by (rule ts_invert_eq)
  then show ?thesis
    by (simp add: ts_Point_double_def Point_double_def)
qed

lemma ts_Point_add_eq:
  assumes "0 \<le> Py p" "Px p \<le> Px q"
  shows "ts_Point_add p q = Point_add p q"
proof (cases "Px p = Px q")
  case True
  then have "ts_invert (Px q - Px p) CURVE_P = Inl ExpectedPositive"
    "invert (Px q - Px p) CURVE_P = Inl ExpectedPositive"
    by (simp_all add: ts_invert_def invert_def)
  then show ?thesis
    using True ts_Point_double_eq [OF assms(1)]
    by (simp add: ts_Point_add_def Point_add_def Let_def)
next
  case False
  with assms(2) have "0 < Px q - Px p" by simp
  then have i: "ts_invert (Px q - Px p) CURVE_P = invert (Px q - Px p) CURVE_P"
    using CURVE_P_pos by (rule ts_invert_eq)
  have eq: "modP (modP d * i * (modP d * i) - a - b) = modP (modP (d * i) * modP (d * i) - a - b)"
    "modP (modP d * i * (a - X) - c) = modP (modP (d * i) * (a - X) - c)" for d i a b c X
  proof -
    have l: "(modP d * i) mod CURVE_P = modP (d * i) mod CURVE_P"
      by (simp add: modP_eq_mod mod_mult_left_eq)
    show "modP (modP d * i * (modP d * i) - a - b) = modP (modP (d * i) * modP (d * i) - a - b)"
      unfolding modP_eq_mod [of "modP d * i * (modP d * i) - a - b"]
        modP_eq_mod [of "modP (d * i) * modP (d * i) - a - b"]
      by (intro mod_diff_cong mod_mult_cong l refl)
    show "modP (modP d * i * (a - X) - c) = modP (modP (d * i) * (a - X) - c)"
      unfolding modP_eq_mod [of "modP d * i * (a - X) - c"]
        modP_eq_mod [of "modP (d * i) * (a - X) - c"]
      by (intro mod_diff_cong mod_mult_cong l refl)
  qed
  show ?thesis
    using ts_Point_double_eq [OF assms(1)]
    by (simp add: ts_Point_add_def Point_add_def i Let_def eq split: sum.splits)
qed

text \<open>
  Claim C5. The two files do not compute the same \<open>add\<close>: when \<open>X2 < X1\<close> the call
  \<open>invert(X2 - X1)\<close> throws in \<open>src/secp256k1.ts\<close> and returns in the other file.
\<close>

theorem ts_Point_add_differs:
  "ts_Point_add (Point 2 1) (Point 1 1) = Inl ExpectedPositive
   \<and> Point_add (Point 2 1) (Point 1 1) = Inr (Point (CURVE_P - 3) (CURVE_P - 1))"
proof -
  have "(- 3) mod CURVE_P = CURVE_P - 3" "(- 1) mod CURVE_P = CURVE_P - 1"
    by (simp_all add: CURVE_P_def)
  then show ?thesis
    by (simp add: ts_Point_add_def ts_invert_def Point_add_def invert_minus_one modP_eq_mod)
qed

section \<open>Scalar one\<close>

lemma invert_2Gy:
  "invert (2 * CURVE_Gy) CURVE_P
   = Inr 83174505189910067536517124096019359197644205712500122884473429251812128958118"
proof (rule invert_certificate)
  have "2 * CURVE_Gy * 83174505189910067536517124096019359197644205712500122884473429251812128958118
     = 46935045790725648649267782968500640161152285907695229854005833192632722118801 * CURVE_P + 1"
    by (simp add: CURVE_Gy_def CURVE_P_def)
  then show "2 * CURVE_Gy * 83174505189910067536517124096019359197644205712500122884473429251812128958118
     mod CURVE_P = 1"
    by (rule mod_certificate) (simp_all add: CURVE_P_def)
qed (simp_all add: CURVE_Gy_def CURVE_P_def)

lemma Point_double_G: "\<exists>d. Point_double G = Inr d"
  by (simp add: Point_double_def G_def invert_2Gy Let_def)

text \<open>
  Claim C6. \<open>getPublicKey(1)\<close> is exactly \<open>(Gx, Gy)\<close>: the one iteration adds the
  generator to \<open>Point.ZERO\<close>, and the doubling that follows does not throw.
\<close>

theorem getPublicKey_one:
  "getPublicKey 1 = Inr (Point 55066263022277343669578718895168534326250603453777594175500187360389116729240
     32670510020758816978083085130507043184471273380659243275938904335757337482424)"
proof -
  obtain d where d: "Point_double G = Inr d"
    using Point_double_G by blast
  have a: "Point_add Point_ZERO G = Inr G"
    by (simp add: Point_add_def Point_ZERO_def)
  have "multiplyDA_loop 1 Point_ZERO G = multiplyDA_loop 0 G d"
    by (subst multiplyDA_loop.simps) (simp add: a d)
  also have "\<dots> = Inr G"
    by (simp add: multiplyDA_loop.simps)
  finally show ?thesis
    by (simp add: getPublicKey_def multiplyDA_def G_def CURVE_Gx_def CURVE_Gy_def)
qed

section \<open>\<open>multiplyPreCTJ\<close> on scalars that are zero modulo the order\<close>

lemma length_getPrecomputesJ_loop:
  "length (getPrecomputesJ_loop k dbl arr) = length arr + k"
  by (induction k arbitrary: dbl arr) simp_all



lemma getPrecomputesJ_built:
  "precomputesJ_built s \<Longrightarrow> precomputesJ_built (snd (getPrecomputesJ this s))"
  by (simp add: getPrecomputesJ_def precomputesJ_built_def length_getPrecomputesJ_loop Let_def
      split: option.splits)











section \<open>\<open>multiplyCT\<close> against \<open>multiplyDA\<close>\<close>

text \<open>
  Where \<open>multiplyCT\<close> returns, \<open>multiplyDA\<close> returns the same point: the table
  holds the doublings \<open>multiplyDA\<close> computes, and the result accumulator takes the
  same additions. The converse fails where the discarded accumulator throws.
\<close>

lemma getPrecomputes_loop_doublings:
  "getPrecomputes_loop k d arr = (None, arr')
   \<Longrightarrow> \<exists>t. arr' = arr @ t \<and> length t = k \<and> doublings d t"
proof (induction k arbitrary: d arr)
  case 0
  then show ?case by simp
next
  case (Suc k)
  from Suc.prems obtain d' where d': "Point_double d = Inr d'"
    and rec: "getPrecomputes_loop k d' (arr @ [d]) = (None, arr')"
    by (auto split: sum.splits)
  from Suc.IH [OF rec] obtain t where t: "arr' = (arr @ [d]) @ t" "length t = k" "doublings d' t"
    by blast
  then have "arr' = arr @ (d # t) \<and> length (d # t) = Suc k \<and> doublings d (d # t)"
    using d' by simp
  then show ?case by blast
qed

lemma multiplyCT_loop_zero:
  "multiplyCT_loop k dbls 0 p f = Inr R \<Longrightarrow> R = p"
proof (induction k arbitrary: dbls f)
  case 0
  then show ?case by simp
next
  case (Suc k)
  then show ?case
    by (cases dbls) (auto split: sum.splits)
qed

lemma and_one_cases: "(n::int) AND 1 = 0 \<or> n AND 1 = 1"
  by (simp add: and_one_eq) presburger

lemma multiplyCT_loop_multiplyDA_loop:
  "doublings d dbls \<Longrightarrow> 0 \<le> n \<Longrightarrow> n < 2 ^ k \<Longrightarrow> multiplyCT_loop k dbls n p f = Inr R
   \<Longrightarrow> multiplyDA_loop n p d = Inr R"
proof (induction k arbitrary: d dbls n p f)
  case 0
  then have "n = 0" by simp
  with "0.prems"(4) show ?case by (simp add: multiplyDA_loop.simps)
next
  case (Suc k)
  show ?case
  proof (cases "n = 0")
    case True
    with Suc.prems(4) have "R = p" by (simp add: multiplyCT_loop_zero)
    with True show ?thesis by (simp add: multiplyDA_loop.simps)
  next
    case False
    with Suc.prems(2) have pos: "0 < n" by simp
    obtain x rest where dbls: "dbls = x # rest"
      using Suc.prems(4) by (cases dbls) auto
    from Suc.prems(1) dbls obtain d' where x: "x = d" and d': "Point_double d = Inr d'"
      and ch: "doublings d' rest"
      by (auto split: sum.splits)
    have n2: "0 \<le> drop_bit 1 n" "drop_bit 1 n < 2 ^ k"
      using Suc.prems(2,3) by (simp_all add: drop_bit_eq_div)
    show ?thesis
    proof (cases "n AND 1 = 1")
      case True
      from Suc.prems(4) dbls x True obtain p' where a: "Point_add p d = Inr p'"
        and rec: "multiplyCT_loop k rest (drop_bit 1 n) p' f = Inr R"
        by (auto split: sum.splits)
      have "multiplyDA_loop (drop_bit 1 n) p' d' = Inr R"
        using Suc.IH [OF ch n2 rec] .
      then show ?thesis
        using pos True a d' by (subst multiplyDA_loop.simps) simp
    next
      case False
      then have z: "n AND 1 = 0" using and_one_cases [of n] by simp
      from Suc.prems(4) dbls x False obtain f' where
        rec: "multiplyCT_loop k rest (drop_bit 1 n) p f' = Inr R"
        by (auto split: sum.splits)
      have "multiplyDA_loop (drop_bit 1 n) p d' = Inr R"
        using Suc.IH [OF ch n2 rec] .
      then show ?thesis
        using pos z d' by (subst multiplyDA_loop.simps) simp
    qed
  qed
qed

lemma multiplyCT_returns_multiplyDA:
  assumes "precomputes s = None" "0 \<le> n" "n < 2 ^ 256"
    and "fst (multiplyCT this n s) = Inr R"
  shows "multiplyDA this n = Inr R"
proof -
  from assms(1,4) obtain arr where g: "getPrecomputes_loop 256 this [] = (None, arr)"
    and l: "multiplyCT_loop 256 arr n Point_ZERO Point_ZERO = Inr R"
    by (auto simp: multiplyCT_def getPrecomputes_def split: prod.splits option.splits sum.splits)
  from getPrecomputes_loop_doublings [OF g] have "doublings this arr" by simp
  then show ?thesis
    using multiplyCT_loop_multiplyDA_loop [OF _ assms(2,3) l] by (simp add: multiplyDA_def)
qed


section \<open>Zero scalar\<close>

text \<open>
  Claim C10. \<open>getPublicKey(0)\<close> returns the affine identity sentinel \<open>(0, 0)\<close> and
  raises nothing: the loop of \<open>multiplyDA\<close> is not entered and the accumulator is
  still \<open>Point.ZERO\<close>.
\<close>

theorem getPublicKey_zero: "getPublicKey 0 = Inr (Point 0 0)"
  by (simp add: getPublicKey_def multiplyDA_def multiplyDA_loop.simps Point_ZERO_def)

section \<open>The field prime is prime\<close>

subsection \<open>Divisors of a number with a large factored part of \<open>N - 1\<close>\<close>

lemma prime_int_coprime:
  assumes "prime_int q" "\<not> q dvd d"
  shows "coprime q d"
proof -
  have q: "1 < q" using assms(1) by (simp add: prime_int_def)
  have "d mod q \<noteq> 0" using assms(2) by (simp add: mod_eq_0_iff_dvd)
  moreover have "0 \<le> d mod q" "d mod q < q" using q by simp_all
  ultimately have "coprime (d mod q) q"
    using assms(1) by (simp add: prime_int_def)
  then have "gcd q (d mod q) = 1" by (simp add: coprime_iff_gcd_eq_1 gcd.commute)
  moreover have "gcd d q = gcd q (d mod q)" by (rule gcd_red_int)
  ultimately have "gcd q d = 1" by (simp add: gcd.commute)
  then show ?thesis by (simp add: coprime_iff_gcd_eq_1)
qed

lemma prime_int_distinct_coprime:
  assumes "prime_int p" "prime_int q" "p \<noteq> q"
  shows "coprime p q"
proof (cases "p < q")
  case True
  then show ?thesis using assms by (simp add: prime_int_def)
next
  case False
  then have "q < p" using assms(3) by simp
  then have "coprime q p" using assms by (simp add: prime_int_def)
  then show ?thesis by (simp add: coprime_commute)
qed

lemma prime_int_coprime_prod_list:
  assumes "prime_int q" "\<forall>p\<in>set qs. prime_int p" "q \<notin> set qs"
  shows "coprime q (prod_list qs)"
  using assms(2,3)
proof (induction qs)
  case Nil
  show ?case by simp
next
  case (Cons p qs)
  then have "coprime q p" "coprime q (prod_list qs)"
    using prime_int_distinct_coprime [OF assms(1), of p] by auto
  then show ?case by simp
qed

lemma prime_ints_prod_dvd:
  assumes "\<forall>p\<in>set qs. prime_int p" "distinct qs" "\<forall>p\<in>set qs. p dvd d"
  shows "prod_list qs dvd d"
  using assms
proof (induction qs)
  case Nil
  show ?case by simp
next
  case (Cons p qs)
  then have "prod_list qs dvd d" "p dvd d" by simp_all
  moreover have "coprime p (prod_list qs)"
    using prime_int_coprime_prod_list [of p qs] Cons.prems by simp
  ultimately show ?case by (simp add: divides_mult)
qed

text \<open>The order of \<open>a\<close> modulo \<open>r\<close> divides every exponent that sends \<open>a\<close> to \<open>1\<close>.\<close>

lemma least_exponent_dvd:
  fixes a r :: int and d e :: nat
  assumes d: "0 < d" "a ^ d mod r = 1"
    and least: "\<And>k. 0 < k \<Longrightarrow> k < d \<Longrightarrow> a ^ k mod r \<noteq> 1"
    and e: "a ^ e mod r = 1"
  shows "d dvd e"
proof -
  have r1: "1 mod r = 1" using d(2) by (metis mod_mod_trivial)
  have "a ^ e = (a ^ d) ^ (e div d) * a ^ (e mod d)"
    by (simp add: power_mult [symmetric] power_add [symmetric])
  then have "a ^ e mod r = ((a ^ d mod r) ^ (e div d) mod r * (a ^ (e mod d) mod r)) mod r"
    by (simp add: mod_mult_eq power_mod)
  then have "a ^ (e mod d) mod r = 1"
    using d(2) e r1 by simp
  moreover have "e mod d < d" using d(1) by simp
  ultimately have "\<not> 0 < e mod d" using least by blast
  then show ?thesis by (simp add: mod_eq_0_iff_dvd)
qed

lemma exponent_multiple:
  fixes a r :: int and d e :: nat
  assumes "a ^ d mod r = 1" "d dvd e"
  shows "a ^ e mod r = 1"
proof -
  have r1: "1 mod r = 1" using assms(1) by (metis mod_mod_trivial)
  from assms(2) obtain k where "e = d * k" by (rule dvdE)
  then have "a ^ e mod r = (a ^ d mod r) ^ k mod r"
    by (simp add: power_mult power_mod)
  then show ?thesis using assms(1) r1 by simp
qed

lemma least_exponent_le:
  fixes a r :: int and d :: nat
  assumes r: "0 < r" and d: "0 < d" "a ^ d mod r = 1"
    and least: "\<And>k. 0 < k \<Longrightarrow> k < d \<Longrightarrow> a ^ k mod r \<noteq> 1"
  shows "int d \<le> r"
proof -
  have r1: "1 mod r = 1" using d(2) by (metis mod_mod_trivial)
  have inj: "inj_on (\<lambda>j. a ^ j mod r) {0..<d}"
  proof (rule inj_onI)
    fix i j assume ij: "i \<in> {0..<d}" "j \<in> {0..<d}" "a ^ i mod r = a ^ j mod r"
    have aux: False if "i < j" "j < d" "a ^ i mod r = a ^ j mod r" for i j
    proof -
      have e1: "a ^ d = a ^ (d - i) * a ^ i"
        using that by (simp add: power_add [symmetric])
      have e2: "a ^ j = a ^ i * a ^ (j - i)"
        using that by (simp add: power_add [symmetric])
      have "a ^ (j - i) mod r = ((a ^ d mod r) * a ^ (j - i)) mod r"
        using d(2) by simp
      also have "\<dots> = (a ^ d * a ^ (j - i)) mod r"
        by (simp add: mod_mult_left_eq)
      also have "\<dots> = (a ^ (d - i) * a ^ j) mod r"
        by (simp only: e1 e2 mult.assoc)
      also have "\<dots> = (a ^ (d - i) * (a ^ j mod r)) mod r"
        by (simp add: mod_mult_right_eq)
      also have "\<dots> = (a ^ (d - i) * (a ^ i mod r)) mod r"
        using that(3) by simp
      also have "\<dots> = (a ^ (d - i) * a ^ i) mod r"
        by (simp add: mod_mult_right_eq)
      also have "\<dots> = a ^ d mod r"
        by (simp only: e1)
      finally have "a ^ (j - i) mod r = 1" using d(2) by simp
      moreover have "0 < j - i" "j - i < d" using that by simp_all
      ultimately show False using least by blast
    qed
    show "i = j"
      using aux [of i j] aux [of j i] ij by (cases i j rule: linorder_cases) auto
  qed
  have "(\<lambda>j. a ^ j mod r) ` {0..<d} \<subseteq> {0..<r}"
    using r by auto
  then have "card ((\<lambda>j. a ^ j mod r) ` {0..<d}) \<le> card {0..<r}"
    by (intro card_mono) simp_all
  then have "d \<le> nat r"
    using inj by (simp add: card_image)
  then show ?thesis using r by simp
qed

lemma divisor_bound:
  fixes N a r :: int and qs :: "int list"
  assumes N: "1 < N"
    and primes: "\<forall>q\<in>set qs. prime_int q"
    and dist: "distinct qs"
    and fermat: "a ^ nat (N - 1) mod N = 1"
    and side: "\<forall>q\<in>set qs. q dvd N - 1 \<and> coprime (a ^ nat ((N - 1) div q) mod N - 1) N"
    and r: "1 < r" "r dvd N"
  shows "prod_list qs \<le> r"
proof -
  let ?e = "nat (N - 1)"
  have r1: "1 mod r = 1" using r(1) by simp
  have modr: "x mod N mod r = x mod r" for x
    using r(2) by (simp add: mod_mod_cancel)
  have e: "a ^ ?e mod r = 1"
    using modr [of "a ^ ?e"] fermat r1 by simp
  have epos: "0 < ?e" using N by simp
  define d where "d = (LEAST d. 0 < d \<and> a ^ d mod r = 1)"
  have ex: "0 < ?e \<and> a ^ ?e mod r = 1"
    using epos e by simp
  have "0 < d \<and> a ^ d mod r = 1"
    unfolding d_def using ex
    by (rule LeastI [of "\<lambda>d. 0 < d \<and> a ^ d mod r = 1" ?e])
  then have d: "0 < d" "a ^ d mod r = 1" by simp_all
  have least: "a ^ k mod r \<noteq> 1" if "0 < k" "k < d" for k
    using not_less_Least [of k "\<lambda>d. 0 < d \<and> a ^ d mod r = 1"] that
    unfolding d_def by blast
  have de: "d dvd ?e"
    using least_exponent_dvd [OF d least e] by blast
  have qd: "q dvd int d" if q: "q \<in> set qs" for q
  proof (rule ccontr)
    assume nq: "\<not> q dvd int d"
    define m where "m = nat ((N - 1) div q)"
    have pq: "prime_int q" using primes q by simp
    then have q1: "1 < q" by (simp add: prime_int_def)
    have qN: "q dvd N - 1" and cop: "coprime (a ^ m mod N - 1) N"
      using side q by (simp_all add: m_def)
    have "0 \<le> (N - 1) div q" using N q1 by (simp add: pos_imp_zdiv_nonneg_iff)
    then have "int m = (N - 1) div q" by (simp add: m_def)
    then have "q * int m = N - 1" using qN by simp
    moreover have "int ?e = N - 1" using N by simp
    ultimately have "int ?e = q * int m" by simp
    then have "int d dvd q * int m"
      using de by (metis of_nat_dvd_iff)
    moreover have "coprime (int d) q"
      using prime_int_coprime [OF pq nq] by (simp add: coprime_commute)
    ultimately have "int d dvd int m"
      by (simp add: coprime_dvd_mult_right_iff)
    then have "d dvd m" by (simp only: of_nat_dvd_iff)
    then have "a ^ m mod r = 1"
      using exponent_multiple [OF d(2)] by blast
    then have "(a ^ m mod N) mod r = 1"
      by (simp add: modr)
    moreover have "(a ^ m mod N - 1) mod r = ((a ^ m mod N) mod r - 1 mod r) mod r"
      by (simp only: mod_diff_eq)
    ultimately have "(a ^ m mod N - 1) mod r = 0"
      using r1 by simp
    then have "r dvd a ^ m mod N - 1" by (simp add: mod_eq_0_iff_dvd)
    with r(2) cop have "is_unit r"
      by (meson coprime_common_divisor)
    then show False using r(1) by simp
  qed
  have "prod_list qs dvd int d"
    using prime_ints_prod_dvd [OF primes dist] qd by blast
  then have "prod_list qs \<le> int d"
    using d(1) by (simp add: zdvd_imp_le)
  moreover have "int d \<le> r"
    using least_exponent_le [OF _ d least] r(1) by simp
  ultimately show ?thesis by simp
qed

lemma prime_ints_prod_pos:
  assumes "\<forall>q\<in>set qs. prime_int q"
  shows "0 < prod_list qs"
  using assms by (induction qs) (auto simp: prime_int_def)

theorem pocklington:
  fixes N a :: int and qs :: "int list"
  assumes N: "1 < N"
    and primes: "\<forall>q\<in>set qs. prime_int q"
    and dist: "distinct qs"
    and big: "N < prod_list qs * prod_list qs"
    and fermat: "a ^ nat (N - 1) mod N = 1"
    and side: "\<forall>q\<in>set qs. q dvd N - 1 \<and> coprime (a ^ nat ((N - 1) div q) mod N - 1) N"
  shows "prime_int N"
  unfolding prime_int_def
proof (intro conjI allI impI)
  show "1 < N" by (rule N)
next
  fix x assume x: "0 < x \<and> x < N"
  define F where "F = prod_list qs"
  define g where "g = gcd x N"
  define s where "s = N div g"
  have bound: "F \<le> r" if "1 < r" "r dvd N" for r
    unfolding F_def using divisor_bound [OF N primes dist fermat side that] .
  have F0: "0 < F"
    unfolding F_def using prime_ints_prod_pos [OF primes] .
  have gN: "g dvd N" by (simp add: g_def)
  then have gs: "g * s = N" by (simp add: s_def)
  have g0: "0 < g" using x by (simp add: g_def gcd_pos_int)
  have "g \<le> x" using x by (simp add: g_def gcd_le1_int)
  then have gl: "g < N" using x by linarith
  show "coprime x N"
  proof (rule ccontr)
    assume "\<not> coprime x N"
    then have "g \<noteq> 1" by (simp add: g_def coprime_iff_gcd_eq_1)
    with g0 have g1: "1 < g" by linarith
    have "0 < g * s" using N gs by linarith
    then have s0: "0 < s" using g0 by (simp add: zero_less_mult_iff)
    have "s \<noteq> 1" using gs gl by auto
    with s0 have s1: "1 < s" by linarith
    have "N = s * g" using gs by (simp add: mult.commute)
    then have sN: "s dvd N" by (rule dvdI)
    have "F * F \<le> g * s"
      using bound [OF g1 gN] bound [OF s1 sN] F0 g0 by (intro mult_mono) simp_all
    then have "F * F \<le> N" by (simp only: gs)
    moreover have "N < F * F" using big by (simp add: F_def)
    ultimately show False by linarith
  qed
qed

subsection \<open>Checking powers and small primes\<close>

lemma reduce_cert_mod:
  assumes "N = pk - c" "reduce_cert N pk c t q = Some r"
  shows "r = t mod N"
proof -
  from assms(2) have r: "r = t + q * c - q * pk" and b: "0 \<le> r" "r < N"
    by (auto simp: reduce_cert_def check_range_def split: if_splits)
  have "t = q * N + r"
    unfolding r assms(1) by (simp add: algebra_simps)
  then show ?thesis
    using b by simp
qed

lemma run_steps_power:
  assumes N: "N = pk - c"
  shows "run_steps N pk c a (v, e) ss = Some (w, e') \<Longrightarrow> 0 \<le> e \<Longrightarrow> v = a ^ nat e mod N
    \<Longrightarrow> w = a ^ nat e' mod N \<and> 0 \<le> e'"
proof (induction ss arbitrary: v e)
  case Nil
  then show ?case by auto
next
  case (Cons s ss)
  show ?case
  proof (cases s)
    case (Sq q)
    with Cons.prems(1) obtain r where r: "reduce_cert N pk c (v ^ 2) q = Some r"
      and rec: "run_steps N pk c a (r, 2 * e) ss = Some (w, e')"
      by (auto split: option.splits)
    have "r = (v ^ 2) mod N" using reduce_cert_mod [OF N r] .
    also have "\<dots> = ((a ^ nat e) ^ 2) mod N"
      by (simp add: Cons.prems(3) power_mod)
    also have "\<dots> = a ^ nat (2 * e) mod N"
      using Cons.prems(2) by (simp add: power_mult [symmetric] nat_mult_distrib mult.commute)
    finally show ?thesis
      using Cons.IH [OF rec] Cons.prems(2) by simp
  next
    case (SqMul q)
    with Cons.prems(1) obtain r where r: "reduce_cert N pk c (v ^ 2 * a) q = Some r"
      and rec: "run_steps N pk c a (r, 2 * e + 1) ss = Some (w, e')"
      by (auto split: option.splits)
    have "r = (v ^ 2 * a) mod N" using reduce_cert_mod [OF N r] .
    also have "\<dots> = ((v ^ 2) mod N * a) mod N"
      by (simp add: mod_mult_left_eq)
    also have "\<dots> = (((a ^ nat e) ^ 2) mod N * a) mod N"
      by (simp add: Cons.prems(3) power_mod)
    also have "\<dots> = ((a ^ nat e) ^ 2 * a) mod N"
      by (simp add: mod_mult_left_eq)
    also have "\<dots> = a ^ nat (2 * e + 1) mod N"
      using Cons.prems(2)
      by (simp add: power_mult [symmetric] nat_mult_distrib nat_add_distrib mult.commute)
    finally show ?thesis
      using Cons.IH [OF rec] Cons.prems(2) by simp
  qed
qed

lemma run_steps_from_one:
  assumes "N = pk - c" "1 < N" "run_steps N pk c a (1, 0) ss = Some (w, e)"
  shows "a ^ nat e mod N = w"
  using run_steps_power [OF assms(1,3)] assms(2) by simp

lemma run_steps_append:
  "run_steps N pk c a (v, e) (ss @ ts) =
     (case run_steps N pk c a (v, e) ss of None \<Rightarrow> None | Some ve \<Rightarrow> run_steps N pk c a ve ts)"
proof (induction ss arbitrary: v e)
  case Nil
  show ?case by simp
next
  case (Cons s ss)
  show ?case
    by (cases s) (simp_all add: Cons.IH split: option.splits)
qed

lemma coprime_certificate:
  fixes x N u v :: int
  assumes "u * x + v * N = 1"
  shows "coprime x N"
proof -
  have "gcd x N dvd u * x + v * N" by simp
  then have "gcd x N dvd 1" by (simp only: assms)
  then show ?thesis by (simp add: coprime_iff_gcd_eq_1)
qed

lemma no_divisor_from_correct:
  "no_divisor_from n k \<Longrightarrow> 2 \<le> k \<Longrightarrow> k \<le> d \<Longrightarrow> d * d \<le> n \<Longrightarrow> \<not> d dvd n"
proof (induction n k rule: no_divisor_from.induct)
  case (1 n k)
  have kk: "k * k \<le> n"
  proof -
    have "k * k \<le> d * d" using "1.prems"(2,3) by (intro mult_mono) simp_all
    with "1.prems"(4) show ?thesis by simp
  qed
  then have nk: "\<not> n < k * k" by simp
  have m: "n mod k \<noteq> 0"
    using "1.prems"(1) nk by (subst (asm) no_divisor_from.simps) (auto split: if_splits)
  have rec: "no_divisor_from n (k + 1)"
    using "1.prems"(1) nk m by (subst (asm) no_divisor_from.simps) simp
  show ?case
  proof (cases "d = k")
    case True
    with m show ?thesis by (simp add: mod_eq_0_iff_dvd)
  next
    case False
    with "1.prems"(3) have "k + 1 \<le> d" by simp
    then show ?thesis
      using "1.IH" [OF nk m rec] "1.prems"(2,4) by simp
  qed
qed

lemma prime_int_trial:
  assumes n: "1 < n" and t: "no_divisor_from n 2"
  shows "prime_int n"
  unfolding prime_int_def
proof (intro conjI allI impI)
  show "1 < n" by (rule n)
next
  fix x assume x: "0 < x \<and> x < n"
  define g where "g = gcd x n"
  define s where "s = n div g"
  have gN: "g dvd n" by (simp add: g_def)
  then have gs: "g * s = n" by (simp add: s_def)
  have g0: "0 < g" using x by (simp add: g_def gcd_pos_int)
  have "g \<le> x" using x by (simp add: g_def gcd_le1_int)
  then have gl: "g < n" using x by linarith
  show "coprime x n"
  proof (rule ccontr)
    assume "\<not> coprime x n"
    then have "g \<noteq> 1" by (simp add: g_def coprime_iff_gcd_eq_1)
    with g0 have g1: "2 \<le> g" by linarith
    have "0 < g * s" using n gs by linarith
    then have s0: "0 < s" using g0 by (simp add: zero_less_mult_iff)
    have "s \<noteq> 1" using gs gl by auto
    with s0 have s1: "2 \<le> s" by linarith
    have "n = s * g" using gs by (simp add: mult.commute)
    then have sN: "s dvd n" by (rule dvdI)
    show False
    proof (cases "g \<le> s")
      case True
      then have "g * g \<le> g * s" using g0 by (intro mult_left_mono) simp_all
      then have "g * g \<le> n" by (simp only: gs)
      then show False
        using no_divisor_from_correct [OF t _ g1] gN by simp
    next
      case False
      then have "s * s \<le> g * s" using s0 by (intro mult_right_mono) simp_all
      then have "s * s \<le> n" by (simp only: gs)
      then show False
        using no_divisor_from_correct [OF t _ s1] sN by simp
    qed
  qed
qed

lemma pocklington_side:
  fixes N a q m b u v E :: int
  assumes q: "prime_int q" and E: "E = N - 1" "E = q * m"
    and b: "a ^ nat m mod N = b" and c: "u * (b - 1) + v * N = 1"
  shows "q dvd N - 1 \<and> coprime (a ^ nat ((N - 1) div q) mod N - 1) N"
proof -
  have q0: "q \<noteq> 0" using q by (auto simp: prime_int_def)
  have "N - 1 = q * m" using E by simp
  then have "q dvd N - 1" and "(N - 1) div q = m"
    using q0 by simp_all
  moreover have "coprime (b - 1) N"
    using c by (rule coprime_certificate)
  ultimately show ?thesis
    using b by simp
qed

lemma pocklington_1:
  fixes N a E qaa maa baa uaa vaa :: int
  assumes "prime_int qaa"
    and "1 < N" "N < qaa * qaa"
    and "a ^ nat E mod N = 1" "E = N - 1"
    and "E = qaa * maa" "a ^ nat maa mod N = baa" "uaa * (baa - 1) + vaa * N = 1"
  shows "prime_int N"
proof (rule pocklington [where qs = "[qaa]" and a = a])
  show "\<forall>q\<in>set [qaa]. q dvd N - 1 \<and> coprime (a ^ nat ((N - 1) div q) mod N - 1) N"
    using pocklington_side [OF assms(1,5,6,7,8)] by simp
  show "a ^ nat (N - 1) mod N = 1"
    using assms(4) by (simp only: assms(5))
  show "1 < N" by (rule assms(2))
  show "\<forall>q\<in>set [qaa]. prime_int q" using assms(1) by simp
  show "distinct [qaa]" by simp
  show "N < prod_list [qaa] * prod_list [qaa]" using assms(3) by simp
qed

lemma pocklington_2:
  fixes N a E qaa maa baa uaa vaa qbb mbb bbb ubb vbb :: int
  assumes "prime_int qaa" "prime_int qbb" "qaa \<noteq> qbb"
    and "1 < N" "N < (qaa * qbb) * (qaa * qbb)"
    and "a ^ nat E mod N = 1" "E = N - 1"
    and "E = qaa * maa" "a ^ nat maa mod N = baa" "uaa * (baa - 1) + vaa * N = 1"
    and "E = qbb * mbb" "a ^ nat mbb mod N = bbb" "ubb * (bbb - 1) + vbb * N = 1"
  shows "prime_int N"
proof (rule pocklington [where qs = "[qaa, qbb]" and a = a])
  show "\<forall>q\<in>set [qaa, qbb]. q dvd N - 1 \<and> coprime (a ^ nat ((N - 1) div q) mod N - 1) N"
    using pocklington_side [OF assms(1,7,8,9,10)] pocklington_side [OF assms(2,7,11,12,13)]
    by simp
  show "a ^ nat (N - 1) mod N = 1"
    using assms(6) by (simp only: assms(7))
  show "1 < N" by (rule assms(4))
  show "\<forall>q\<in>set [qaa, qbb]. prime_int q" using assms(1,2) by simp
  show "distinct [qaa, qbb]" using assms(3) by simp
  show "N < prod_list [qaa, qbb] * prod_list [qaa, qbb]" using assms(5) by simp
qed

lemma pocklington_3:
  fixes N a E qaa maa baa uaa vaa qbb mbb bbb ubb vbb qcc mcc bcc ucc vcc :: int
  assumes "prime_int qaa" "prime_int qbb" "prime_int qcc" "qaa \<noteq> qbb" "qaa \<noteq> qcc" "qbb \<noteq> qcc"
    and "1 < N" "N < (qaa * qbb * qcc) * (qaa * qbb * qcc)"
    and "a ^ nat E mod N = 1" "E = N - 1"
    and "E = qaa * maa" "a ^ nat maa mod N = baa" "uaa * (baa - 1) + vaa * N = 1"
    and "E = qbb * mbb" "a ^ nat mbb mod N = bbb" "ubb * (bbb - 1) + vbb * N = 1"
    and "E = qcc * mcc" "a ^ nat mcc mod N = bcc" "ucc * (bcc - 1) + vcc * N = 1"
  shows "prime_int N"
proof (rule pocklington [where qs = "[qaa, qbb, qcc]" and a = a])
  show "\<forall>q\<in>set [qaa, qbb, qcc]. q dvd N - 1 \<and> coprime (a ^ nat ((N - 1) div q) mod N - 1) N"
    using pocklington_side [OF assms(1,10,11,12,13)] pocklington_side [OF assms(2,10,14,15,16)]
      pocklington_side [OF assms(3,10,17,18,19)]
    by simp
  show "a ^ nat (N - 1) mod N = 1"
    using assms(9) by (simp only: assms(10))
  show "1 < N" by (rule assms(7))
  show "\<forall>q\<in>set [qaa, qbb, qcc]. prime_int q" using assms(1,2,3) by simp
  show "distinct [qaa, qbb, qcc]" using assms(4,5,6) by simp
  show "N < prod_list [qaa, qbb, qcc] * prod_list [qaa, qbb, qcc]"
    using assms(8) by (simp add: mult.assoc)
qed

subsection \<open>The chain of primes below \<open>P\<close>\<close>

text \<open>
  Each prime \<open>N\<close> of the chain has prime factors of \<open>N - 1\<close> whose product exceeds
  the square root of \<open>N\<close>; the base is \<open>2\<close> throughout. The chain ends in the
  field prime \<open>2\<^sup>2\<^sup>5\<^sup>6 - 2\<^sup>3\<^sup>2 - 977\<close>.
\<close>

lemma prime_p_53: "prime_int 53"
  by (rule prime_int_trial) (simp_all add: no_divisor_from.simps)

lemma prime_p_29: "prime_int 29"
  by (rule prime_int_trial) (simp_all add: no_divisor_from.simps)

lemma prime_p_7: "prime_int 7"
  by (rule prime_int_trial) (simp_all add: no_divisor_from.simps)

lemma fermat_p27_1:
  "run_steps 107590001
     134217728
     26627727 2
     (1, 0)
     [SqMul 0, SqMul 0, Sq 0, Sq 0, SqMul 0, SqMul 20929452, Sq 25205767, SqMul 19391226,
      Sq 52732226, Sq 56857484, SqMul 97722414, SqMul 91968546, Sq 101317510, SqMul 85362192,
      SqMul 12124860, Sq 9877833, Sq 6117839, Sq 54011352, SqMul 155670417, Sq 85400649,
      SqMul 97580181, SqMul 96884406, SqMul 5082846, Sq 102568249, Sq 3903225, Sq 107589999, Sq 0]
   = Some (1, 107590000)"
  by (simp only: run_steps.simps reduce_cert_def check_range_def option.case if_True if_False
      simp_thms arith_simps rel_simps power_numeral pow.simps sqr.simps option.inject prod.inject
      numeral_plus_one one_plus_numeral one_add_one mult_zero_right add_0_left power_one mult_1_left mult_1_right
      cong: option.case_cong_weak if_weak_cong)

lemma fermat_p27: "2 ^ nat 107590000 mod 107590001 = (1::int)"
proof -
  have N: "107590001 = 134217728 - (26627727::int)"
    by simp
  have s0: "(1::int) = 2 ^ nat 0 mod 107590001 \<and> (0::int) \<le> 0"
    by simp
  note s1 = run_steps_power [OF N fermat_p27_1 conjunct2 [OF s0] conjunct1 [OF s0]]
  from conjunct1 [OF s1] show ?thesis by (rule sym)
qed

lemma side_p27_1_1:
  "run_steps 107590001
     134217728
     26627727 2
     (1, 0)
     [SqMul 0, SqMul 0, SqMul 0, SqMul 0, Sq 9, SqMul 206633841, SqMul 87389265, SqMul 208498670,
      SqMul 185234700, SqMul 53452562, Sq 4264316, Sq 18757964, SqMul 360479, SqMul 131384907,
      Sq 12485615, SqMul 76169807, SqMul 66366038, Sq 61850684, Sq 32832337, Sq 77112418,
      Sq 339838]
   = Some (26896163, 2030000)"
  by (simp only: run_steps.simps reduce_cert_def check_range_def option.case if_True if_False
      simp_thms arith_simps rel_simps power_numeral pow.simps sqr.simps option.inject prod.inject
      numeral_plus_one one_plus_numeral one_add_one mult_zero_right add_0_left power_one mult_1_left mult_1_right
      cong: option.case_cong_weak if_weak_cong)

lemma side_p27_1: "2 ^ nat 2030000 mod 107590001 = (26896163::int)"
proof -
  have N: "107590001 = 134217728 - (26627727::int)"
    by simp
  have s0: "(1::int) = 2 ^ nat 0 mod 107590001 \<and> (0::int) \<le> 0"
    by simp
  note s1 = run_steps_power [OF N side_p27_1_1 conjunct2 [OF s0] conjunct1 [OF s0]]
  from conjunct1 [OF s1] show ?thesis by (rule sym)
qed

lemma side_p27_2_1:
  "run_steps 107590001
     134217728
     26627727 2
     (1, 0)
     [SqMul 0, SqMul 0, SqMul 0, Sq 0, Sq 2, Sq 26360659, SqMul 51383560, Sq 68318081, Sq 2231563,
      SqMul 3126979, SqMul 70579310, SqMul 17850733, Sq 1180, Sq 9929352, Sq 94935105, Sq 69885122,
      SqMul 106079963, SqMul 138332429, Sq 34490598, Sq 1509913, Sq 56887639, Sq 83352379]
   = Some (68236646, 3710000)"
  by (simp only: run_steps.simps reduce_cert_def check_range_def option.case if_True if_False
      simp_thms arith_simps rel_simps power_numeral pow.simps sqr.simps option.inject prod.inject
      numeral_plus_one one_plus_numeral one_add_one mult_zero_right add_0_left power_one mult_1_left mult_1_right
      cong: option.case_cong_weak if_weak_cong)

lemma side_p27_2: "2 ^ nat 3710000 mod 107590001 = (68236646::int)"
proof -
  have N: "107590001 = 134217728 - (26627727::int)"
    by simp
  have s0: "(1::int) = 2 ^ nat 0 mod 107590001 \<and> (0::int) \<le> 0"
    by simp
  note s1 = run_steps_power [OF N side_p27_2_1 conjunct2 [OF s0] conjunct1 [OF s0]]
  from conjunct1 [OF s1] show ?thesis by (rule sym)
qed

lemma side_p27_3_1:
  "run_steps 107590001
     134217728
     26627727 2
     (1, 0)
     [SqMul 0, SqMul 0, SqMul 0, Sq 0, SqMul 4, Sq 105442637, SqMul 196109662, Sq 60479924,
      SqMul 162407896, Sq 29561622, Sq 17391012, Sq 1569278, Sq 744513, SqMul 167715956,
      SqMul 107927987, SqMul 164529316, Sq 32384372, Sq 17365501, Sq 3055692, SqMul 133002094,
      Sq 10942389, Sq 2222500, Sq 11022841, Sq 35636176]
   = Some (95730224, 15370000)"
  by (simp only: run_steps.simps reduce_cert_def check_range_def option.case if_True if_False
      simp_thms arith_simps rel_simps power_numeral pow.simps sqr.simps option.inject prod.inject
      numeral_plus_one one_plus_numeral one_add_one mult_zero_right add_0_left power_one mult_1_left mult_1_right
      cong: option.case_cong_weak if_weak_cong)

lemma side_p27_3: "2 ^ nat 15370000 mod 107590001 = (95730224::int)"
proof -
  have N: "107590001 = 134217728 - (26627727::int)"
    by simp
  have s0: "(1::int) = 2 ^ nat 0 mod 107590001 \<and> (0::int) \<le> 0"
    by simp
  note s1 = run_steps_power [OF N side_p27_3_1 conjunct2 [OF s0] conjunct1 [OF s0]]
  from conjunct1 [OF s1] show ?thesis by (rule sym)
qed

lemma prime_p27: "prime_int 107590001"
proof (rule pocklington_3
    [where N = "107590001"
       and a = 2
       and E = "107590000"
       and qaa = "53"
       and maa = "2030000"
       and baa = "26896163"
       and uaa = "- 31877030"
       and vaa = "7968861"
       and qbb = "29"
       and mbb = "3710000"
       and bbb = "68236646"
       and ubb = "- 7504781"
       and vbb = "4759746"
       and qcc = "7"
       and mcc = "15370000"
       and bcc = "95730224"
       and ucc = "4923006"
       and vcc = "- 4380337"])
  show "prime_int 53"
    by (rule prime_p_53)
  show "prime_int 29"
    by (rule prime_p_29)
  show "prime_int 7"
    by (rule prime_p_7)
  show "53 \<noteq> (29::int)"
    by simp
  show "53 \<noteq> (7::int)"
    by simp
  show "29 \<noteq> (7::int)"
    by simp
  show "1 < (107590001::int)"
    by simp
  show "107590001 < (53 * 29 * 7) * (53 * 29 * 7::int)"
    by simp
  show "2 ^ nat 107590000 mod 107590001 = (1::int)"
    by (rule fermat_p27)
  show "107590000 = 107590001 - (1::int)"
    by simp
  show "107590000 = 53 * (2030000::int)"
    by simp
  show "2 ^ nat 2030000 mod 107590001 = (26896163::int)"
    by (rule side_p27_1)
  show "(- 31877030) * (26896163 - 1) + 7968861 * 107590001 = (1::int)"
    by simp
  show "107590000 = 29 * (3710000::int)"
    by simp
  show "2 ^ nat 3710000 mod 107590001 = (68236646::int)"
    by (rule side_p27_2)
  show "(- 7504781) * (68236646 - 1) + 4759746 * 107590001 = (1::int)"
    by simp
  show "107590000 = 7 * (15370000::int)"
    by simp
  show "2 ^ nat 15370000 mod 107590001 = (95730224::int)"
    by (rule side_p27_3)
  show "4923006 * (95730224 - 1) + (- 4380337) * 107590001 = (1::int)"
    by simp
qed

lemma prime_p_419: "prime_int 419"
  by (rule prime_int_trial) (simp_all add: no_divisor_from.simps)

lemma fermat_p15_1:
  "run_steps 20113
     32768
     12655 2
     (1, 0)
     [SqMul 0, Sq 0, Sq 0, SqMul 0, SqMul 26, SqMul 181, Sq 1027, SqMul 36496, Sq 9578, Sq 7262,
      SqMul 11576, Sq 20111, Sq 0, Sq 0, Sq 0]
   = Some (1, 20112)"
  by (simp only: run_steps.simps reduce_cert_def check_range_def option.case if_True if_False
      simp_thms arith_simps rel_simps power_numeral pow.simps sqr.simps option.inject prod.inject
      numeral_plus_one one_plus_numeral one_add_one mult_zero_right add_0_left power_one mult_1_left mult_1_right
      cong: option.case_cong_weak if_weak_cong)

lemma fermat_p15: "2 ^ nat 20112 mod 20113 = (1::int)"
proof -
  have N: "20113 = 32768 - (12655::int)"
    by simp
  have s0: "(1::int) = 2 ^ nat 0 mod 20113 \<and> (0::int) \<le> 0"
    by simp
  note s1 = run_steps_power [OF N fermat_p15_1 conjunct2 [OF s0] conjunct1 [OF s0]]
  from conjunct1 [OF s1] show ?thesis by (rule sym)
qed

lemma side_p15_1_1:
  "run_steps 20113
     32768
     12655 2
     (1, 0)
     [SqMul 0, SqMul 0, Sq 0, Sq 0, Sq 834, Sq 439]
   = Some (15069, 48)"
  by (simp only: run_steps.simps reduce_cert_def check_range_def option.case if_True if_False
      simp_thms arith_simps rel_simps power_numeral pow.simps sqr.simps option.inject prod.inject
      numeral_plus_one one_plus_numeral one_add_one mult_zero_right add_0_left power_one mult_1_left mult_1_right
      cong: option.case_cong_weak if_weak_cong)

lemma side_p15_1: "2 ^ nat 48 mod 20113 = (15069::int)"
proof -
  have N: "20113 = 32768 - (12655::int)"
    by simp
  have s0: "(1::int) = 2 ^ nat 0 mod 20113 \<and> (0::int) \<le> 0"
    by simp
  note s1 = run_steps_power [OF N side_p15_1_1 conjunct2 [OF s0] conjunct1 [OF s0]]
  from conjunct1 [OF s1] show ?thesis by (rule sym)
qed

lemma prime_p15: "prime_int 20113"
proof (rule pocklington_1
    [where N = "20113"
       and a = 2
       and E = "20112"
       and qaa = "419"
       and maa = "48"
       and baa = "15069"
       and uaa = "- 3002"
       and vaa = "2249"])
  show "prime_int 419"
    by (rule prime_p_419)
  show "1 < (20113::int)"
    by simp
  show "20113 < 419 * (419::int)"
    by simp
  show "2 ^ nat 20112 mod 20113 = (1::int)"
    by (rule fermat_p15)
  show "20112 = 20113 - (1::int)"
    by simp
  show "20112 = 419 * (48::int)"
    by simp
  show "2 ^ nat 48 mod 20113 = (15069::int)"
    by (rule side_p15_1)
  show "(- 3002) * (15069 - 1) + 2249 * 20113 = (1::int)"
    by simp
qed

lemma fermat_p21_1:
  "run_steps 1206781
     2097152
     890371 2
     (1, 0)
     [SqMul 0, Sq 0, Sq 0, SqMul 0, Sq 0, Sq 56944, SqMul 482324, SqMul 675703, Sq 53929,
      SqMul 19810, Sq 340304, Sq 733473, SqMul 1630848, SqMul 2153, SqMul 1675605, SqMul 235042,
      SqMul 209445, SqMul 529964, SqMul 613559, Sq 1186609, Sq 1206779]
   = Some (1, 1206780)"
  by (simp only: run_steps.simps reduce_cert_def check_range_def option.case if_True if_False
      simp_thms arith_simps rel_simps power_numeral pow.simps sqr.simps option.inject prod.inject
      numeral_plus_one one_plus_numeral one_add_one mult_zero_right add_0_left power_one mult_1_left mult_1_right
      cong: option.case_cong_weak if_weak_cong)

lemma fermat_p21: "2 ^ nat 1206780 mod 1206781 = (1::int)"
proof -
  have N: "1206781 = 2097152 - (890371::int)"
    by simp
  have s0: "(1::int) = 2 ^ nat 0 mod 1206781 \<and> (0::int) \<le> 0"
    by simp
  note s1 = run_steps_power [OF N fermat_p21_1 conjunct2 [OF s0] conjunct1 [OF s0]]
  from conjunct1 [OF s1] show ?thesis by (rule sym)
qed

lemma side_p21_1_1:
  "run_steps 1206781
     2097152
     890371 2
     (1, 0)
     [SqMul 0, SqMul 0, SqMul 0, SqMul 0, Sq 889, Sq 691517]
   = Some (78448, 60)"
  by (simp only: run_steps.simps reduce_cert_def check_range_def option.case if_True if_False
      simp_thms arith_simps rel_simps power_numeral pow.simps sqr.simps option.inject prod.inject
      numeral_plus_one one_plus_numeral one_add_one mult_zero_right add_0_left power_one mult_1_left mult_1_right
      cong: option.case_cong_weak if_weak_cong)

lemma side_p21_1: "2 ^ nat 60 mod 1206781 = (78448::int)"
proof -
  have N: "1206781 = 2097152 - (890371::int)"
    by simp
  have s0: "(1::int) = 2 ^ nat 0 mod 1206781 \<and> (0::int) \<le> 0"
    by simp
  note s1 = run_steps_power [OF N side_p21_1_1 conjunct2 [OF s0] conjunct1 [OF s0]]
  from conjunct1 [OF s1] show ?thesis by (rule sym)
qed

lemma prime_p21: "prime_int 1206781"
proof (rule pocklington_1
    [where N = "1206781"
       and a = 2
       and E = "1206780"
       and qaa = "20113"
       and maa = "60"
       and baa = "78448"
       and uaa = "- 497422"
       and vaa = "32335"])
  show "prime_int 20113"
    by (rule prime_p15)
  show "1 < (1206781::int)"
    by simp
  show "1206781 < 20113 * (20113::int)"
    by simp
  show "2 ^ nat 1206780 mod 1206781 = (1::int)"
    by (rule fermat_p21)
  show "1206780 = 1206781 - (1::int)"
    by simp
  show "1206780 = 20113 * (60::int)"
    by simp
  show "2 ^ nat 60 mod 1206781 = (78448::int)"
    by (rule side_p21_1)
  show "(- 497422) * (78448 - 1) + 32335 * 1206781 = (1::int)"
    by simp
qed

lemma fermat_p23_1:
  "run_steps 7240687
     8388608
     1147921 2
     (1, 0)
     [SqMul 0, SqMul 0, Sq 0, SqMul 0, SqMul 18, SqMul 4169780, Sq 2104108, Sq 262171,
      SqMul 726217, SqMul 61823, SqMul 5191211, SqMul 556058, Sq 15610, SqMul 9962199,
      SqMul 145394, SqMul 2816177, SqMul 3943091, SqMul 9882717, Sq 3401502, SqMul 3974341,
      SqMul 204376, SqMul 13306153, Sq 0]
   = Some (1, 7240686)"
  by (simp only: run_steps.simps reduce_cert_def check_range_def option.case if_True if_False
      simp_thms arith_simps rel_simps power_numeral pow.simps sqr.simps option.inject prod.inject
      numeral_plus_one one_plus_numeral one_add_one mult_zero_right add_0_left power_one mult_1_left mult_1_right
      cong: option.case_cong_weak if_weak_cong)

lemma fermat_p23: "2 ^ nat 7240686 mod 7240687 = (1::int)"
proof -
  have N: "7240687 = 8388608 - (1147921::int)"
    by simp
  have s0: "(1::int) = 2 ^ nat 0 mod 7240687 \<and> (0::int) \<le> 0"
    by simp
  note s1 = run_steps_power [OF N fermat_p23_1 conjunct2 [OF s0] conjunct1 [OF s0]]
  from conjunct1 [OF s1] show ?thesis by (rule sym)
qed

lemma side_p23_1_1:
  "run_steps 7240687
     8388608
     1147921 2
     (1, 0)
     [SqMul 0, SqMul 0, Sq 0]
   = Some (64, 6)"
  by (simp only: run_steps.simps reduce_cert_def check_range_def option.case if_True if_False
      simp_thms arith_simps rel_simps power_numeral pow.simps sqr.simps option.inject prod.inject
      numeral_plus_one one_plus_numeral one_add_one mult_zero_right add_0_left power_one mult_1_left mult_1_right
      cong: option.case_cong_weak if_weak_cong)

lemma side_p23_1: "2 ^ nat 6 mod 7240687 = (64::int)"
proof -
  have N: "7240687 = 8388608 - (1147921::int)"
    by simp
  have s0: "(1::int) = 2 ^ nat 0 mod 7240687 \<and> (0::int) \<le> 0"
    by simp
  note s1 = run_steps_power [OF N side_p23_1_1 conjunct2 [OF s0] conjunct1 [OF s0]]
  from conjunct1 [OF s1] show ?thesis by (rule sym)
qed

lemma prime_p23: "prime_int 7240687"
proof (rule pocklington_1
    [where N = "7240687"
       and a = 2
       and E = "7240686"
       and qaa = "1206781"
       and maa = "6"
       and baa = "64"
       and uaa = "- 1494110"
       and vaa = "13"])
  show "prime_int 1206781"
    by (rule prime_p21)
  show "1 < (7240687::int)"
    by simp
  show "7240687 < 1206781 * (1206781::int)"
    by simp
  show "2 ^ nat 7240686 mod 7240687 = (1::int)"
    by (rule fermat_p23)
  show "7240686 = 7240687 - (1::int)"
    by simp
  show "7240686 = 1206781 * (6::int)"
    by simp
  show "2 ^ nat 6 mod 7240687 = (64::int)"
    by (rule side_p23_1)
  show "(- 1494110) * (64 - 1) + 13 * 7240687 = (1::int)"
    by simp
qed

lemma prime_p_239: "prime_int 239"
  by (rule prime_int_trial) (simp_all add: no_divisor_from.simps)

lemma prime_p_101: "prime_int 101"
  by (rule prime_int_trial) (simp_all add: no_divisor_from.simps)

lemma fermat_p17_1:
  "run_steps 96557
     131072
     34515 2
     (1, 0)
     [SqMul 0, Sq 0, SqMul 0, SqMul 0, SqMul 86, SqMul 148619, Sq 677, Sq 40886, SqMul 19549,
      Sq 83469, Sq 12249, SqMul 142593, Sq 4734, SqMul 44446, SqMul 96443, Sq 33225, Sq 96555]
   = Some (1, 96556)"
  by (simp only: run_steps.simps reduce_cert_def check_range_def option.case if_True if_False
      simp_thms arith_simps rel_simps power_numeral pow.simps sqr.simps option.inject prod.inject
      numeral_plus_one one_plus_numeral one_add_one mult_zero_right add_0_left power_one mult_1_left mult_1_right
      cong: option.case_cong_weak if_weak_cong)

lemma fermat_p17: "2 ^ nat 96556 mod 96557 = (1::int)"
proof -
  have N: "96557 = 131072 - (34515::int)"
    by simp
  have s0: "(1::int) = 2 ^ nat 0 mod 96557 \<and> (0::int) \<le> 0"
    by simp
  note s1 = run_steps_power [OF N fermat_p17_1 conjunct2 [OF s0] conjunct1 [OF s0]]
  from conjunct1 [OF s1] show ?thesis by (rule sym)
qed

lemma side_p17_1_1:
  "run_steps 96557
     131072
     34515 2
     (1, 0)
     [SqMul 0, SqMul 0, Sq 0, Sq 0, SqMul 347, Sq 25021, SqMul 86739, Sq 8273, Sq 91830]
   = Some (29586, 404)"
  by (simp only: run_steps.simps reduce_cert_def check_range_def option.case if_True if_False
      simp_thms arith_simps rel_simps power_numeral pow.simps sqr.simps option.inject prod.inject
      numeral_plus_one one_plus_numeral one_add_one mult_zero_right add_0_left power_one mult_1_left mult_1_right
      cong: option.case_cong_weak if_weak_cong)

lemma side_p17_1: "2 ^ nat 404 mod 96557 = (29586::int)"
proof -
  have N: "96557 = 131072 - (34515::int)"
    by simp
  have s0: "(1::int) = 2 ^ nat 0 mod 96557 \<and> (0::int) \<le> 0"
    by simp
  note s1 = run_steps_power [OF N side_p17_1_1 conjunct2 [OF s0] conjunct1 [OF s0]]
  from conjunct1 [OF s1] show ?thesis by (rule sym)
qed

lemma side_p17_2_1:
  "run_steps 96557
     131072
     34515 2
     (1, 0)
     [SqMul 0, SqMul 0, SqMul 0, Sq 0, SqMul 5560, SqMul 4055, SqMul 3771, SqMul 661, Sq 19529,
      Sq 49267]
   = Some (63065, 956)"
  by (simp only: run_steps.simps reduce_cert_def check_range_def option.case if_True if_False
      simp_thms arith_simps rel_simps power_numeral pow.simps sqr.simps option.inject prod.inject
      numeral_plus_one one_plus_numeral one_add_one mult_zero_right add_0_left power_one mult_1_left mult_1_right
      cong: option.case_cong_weak if_weak_cong)

lemma side_p17_2: "2 ^ nat 956 mod 96557 = (63065::int)"
proof -
  have N: "96557 = 131072 - (34515::int)"
    by simp
  have s0: "(1::int) = 2 ^ nat 0 mod 96557 \<and> (0::int) \<le> 0"
    by simp
  note s1 = run_steps_power [OF N side_p17_2_1 conjunct2 [OF s0] conjunct1 [OF s0]]
  from conjunct1 [OF s1] show ?thesis by (rule sym)
qed

lemma prime_p17: "prime_int 96557"
proof (rule pocklington_2
    [where N = "96557"
       and a = 2
       and E = "96556"
       and qaa = "239"
       and maa = "404"
       and baa = "29586"
       and uaa = "8329"
       and vaa = "- 2552"
       and qbb = "101"
       and mbb = "956"
       and bbb = "63065"
       and ubb = "- 46112"
       and vbb = "30117"])
  show "prime_int 239"
    by (rule prime_p_239)
  show "prime_int 101"
    by (rule prime_p_101)
  show "239 \<noteq> (101::int)"
    by simp
  show "1 < (96557::int)"
    by simp
  show "96557 < (239 * 101) * (239 * 101::int)"
    by simp
  show "2 ^ nat 96556 mod 96557 = (1::int)"
    by (rule fermat_p17)
  show "96556 = 96557 - (1::int)"
    by simp
  show "96556 = 239 * (404::int)"
    by simp
  show "2 ^ nat 404 mod 96557 = (29586::int)"
    by (rule side_p17_1)
  show "8329 * (29586 - 1) + (- 2552) * 96557 = (1::int)"
    by simp
  show "96556 = 101 * (956::int)"
    by simp
  show "2 ^ nat 956 mod 96557 = (63065::int)"
    by (rule side_p17_2)
  show "(- 46112) * (63065 - 1) + 30117 * 96557 = (1::int)"
    by simp
qed

lemma fermat_p128_1:
  "run_steps 255515944373312847190720520512484175977
     340282366920938463463374607431768211456
     84766422547625616272654086919284035479 2
     (1, 0)
     [SqMul 0, SqMul 0, Sq 0, Sq 0, Sq 0, Sq 0, Sq 0, Sq 24566379803742249345,
      Sq 14610306825015486936207942625559247229, Sq 36949249960270170451221735682029689424,
      SqMul 49171586989775343996, SqMul 369803504316841054482494949196845118,
      SqMul 534486239826169380294061690858728136, Sq 2693280521724855079127552412004393494,
      SqMul 278360443799407007454533584057575275003, Sq 409696260215894889297275876140432803,
      SqMul 484192449900011184547049660605036361211, Sq 631062652978987706908550617408150575,
      Sq 71093233522435237645872549396223918451, SqMul 362679039397116195769408904852854906026,
      Sq 182658270305190462036011640926073297641, SqMul 112606070980846944393607434971839387095,
      Sq 156916383439228507258315167603071460596, Sq 193826173722551988141431441894089304947,
      SqMul 5768011753317806135315871252417331691, Sq 25713994213331247004676466350723166380,
      SqMul 58552950560503539260581566335406501170, SqMul 201635055899334412881096631373054325795,
      Sq 332689154630972619752383429784532060, Sq 17326617149185966709812261176907147600,
      SqMul 285191041896579546496756958717330325505, Sq 215254844958142521227607225043665337055]
   = Some (2220328408243381431545589231776235194, 3225064626)"
  by (simp only: run_steps.simps reduce_cert_def check_range_def option.case if_True if_False
      simp_thms arith_simps rel_simps power_numeral pow.simps sqr.simps option.inject prod.inject
      numeral_plus_one one_plus_numeral one_add_one mult_zero_right add_0_left power_one mult_1_left mult_1_right
      cong: option.case_cong_weak if_weak_cong)

lemma fermat_p128_2:
  "run_steps 255515944373312847190720520512484175977
     340282366920938463463374607431768211456
     84766422547625616272654086919284035479 2
     (2220328408243381431545589231776235194, 3225064626)
     [SqMul 38587480343300900240520273495331620, SqMul 30440222885096263676224334163467811285,
      Sq 120229159385353803132218638050074302821, SqMul 13469649232239976834447087577892252904,
      Sq 12482511459773290283009316364721360673, Sq 36943523457650433689158398155817970119,
      SqMul 390376760864057899750300500463328763034, SqMul 231173895653517760966427532199091969348,
      SqMul 69878179979349474381354146752076648322, SqMul 11127432916201145457046303679567970444,
      SqMul 41674430746417594496144368395282331110, Sq 180443828704674929602587859124335524158,
      Sq 54896565852545077672966582959702395438, SqMul 183641955031273554333909575171856090473,
      SqMul 88799225885569232805559743280144608410, Sq 54415461963441692113198525082625049769,
      Sq 141607619020017962837147654757608536425, SqMul 780211431907129506198985530605724634,
      Sq 13126748001705909956530436615073356031, Sq 147260834454076757005048838346915139,
      Sq 828324179198374651238376291445812109, SqMul 32839687759882141094067699526779014775,
      Sq 208409615992736836714958370023112244519, Sq 13108820705891649125572483590541046829,
      Sq 16179210254874490583000704288299619170, Sq 1201109796873465525848258603747804698,
      Sq 156673645095843433774121489116348867817, SqMul 7654259562762504603072566291738740298,
      SqMul 6792274972167437061244185053043946458, Sq 376449639752616031171928224220933784,
      Sq 193382343350735385194077924046831050193, SqMul 310752386229253838284460585917566200343]
   = Some (35554065892266365598846251638312215987, 13851547099711554585)"
  by (simp only: run_steps.simps reduce_cert_def check_range_def option.case if_True if_False
      simp_thms arith_simps rel_simps power_numeral pow.simps sqr.simps option.inject prod.inject
      numeral_plus_one one_plus_numeral one_add_one mult_zero_right add_0_left power_one mult_1_left mult_1_right
      cong: option.case_cong_weak if_weak_cong)

lemma fermat_p128_3:
  "run_steps 255515944373312847190720520512484175977
     340282366920938463463374607431768211456
     84766422547625616272654086919284035479 2
     (35554065892266365598846251638312215987, 13851547099711554585)
     [SqMul 9894424432666797791948500548021763875, Sq 155858400940191754149037352775175915879,
      SqMul 244499917201381267223258051822795138108, Sq 97267586506047739752244781775265269044,
      Sq 91609559198368713579541640481488335349, Sq 5979202410340614293126886356779184233,
      Sq 34429868919289443940530168916459218738, Sq 32223071392100459148536850777397403494,
      Sq 74612242513437841465925080255621984748, SqMul 2141745954813298279338228032865911743,
      Sq 215539748669413048380415238106587746869, SqMul 10162492604278013025325864353129667268,
      SqMul 466313186849446176883843810512738864808, SqMul 27589649489907219276365778132128790556,
      Sq 237802953527380702955239696132617431345, Sq 17120951023211313858543903730852177181,
      SqMul 24823040520426330011329257099141237963, SqMul 872331028632125932537685266015848116,
      Sq 150242952391364413637711401702773389035, SqMul 43273259567891400997038308168409021706,
      SqMul 215056678030591255272682127027924679923, Sq 33601766556972791819205638352265337338,
      Sq 25690265886087465213074731156730180298, Sq 188318994630056294920325949651992897536,
      SqMul 328601822980470420869287820943356453845, SqMul 269605060813314325075505629961902843593,
      Sq 7083892592818767285713405357071148838, Sq 38037258182654992438174965723189499120,
      SqMul 51022747447544865993427413799905911641, SqMul 4578566021393794648021675070926028538,
      Sq 48679638927452581128035024802768146888, Sq 132956794685344399134158711212270308920]
   = Some (1875012408930021438539032991092025160, 59491941792264777978584291532)"
  by (simp only: run_steps.simps reduce_cert_def check_range_def option.case if_True if_False
      simp_thms arith_simps rel_simps power_numeral pow.simps sqr.simps option.inject prod.inject
      numeral_plus_one one_plus_numeral one_add_one mult_zero_right add_0_left power_one mult_1_left mult_1_right
      cong: option.case_cong_weak if_weak_cong)

lemma fermat_p128_4:
  "run_steps 255515944373312847190720520512484175977
     340282366920938463463374607431768211456
     84766422547625616272654086919284035479 2
     (1875012408930021438539032991092025160, 59491941792264777978584291532)
     [SqMul 27518216464058384316668972968997020, Sq 168847389403745882256642855617090921860,
      SqMul 490262334975940047941899617989333868563, SqMul 199365223307004174032382900764524126773,
      SqMul 237588735101743288842241510553820591, SqMul 336899150573394374030830434362339200255,
      SqMul 55599619096220651176491844452104291877, SqMul 327602074390019788624367321323080418637,
      SqMul 184652419687720585024544711369198910453, Sq 121311172122134333016416875070172917210,
      Sq 108269111452805675994124971452926951231, SqMul 20434552743452538941516067884633111716,
      SqMul 372127085557220297870074374481186074962, Sq 962864693348123604718005577862504656,
      Sq 71146477091755847188136502538936452962, Sq 34239851023091510423681352000681708236,
      Sq 24847860716651885851582936251411568941, SqMul 98117476921737008714641921509313943923,
      SqMul 237266318255609366732414002177303979326, SqMul 2649640489256399112878826288850152522,
      Sq 43028994497377127828332868946333652408, Sq 14837304689172726868984441174555406110,
      Sq 202603244497155552462308440796403832959, Sq 158727558002247209068094756800629715913,
      Sq 8047612181460457418689672835071569067, SqMul 131385910909025774464712237922360283065,
      SqMul 101859324599249900881520338407193208784, Sq 73383088134649900444115742467793992336,
      SqMul 216951078428335600241159280116238062367, Sq 124086544165663215338441986460605545025,
      Sq 255515944373312847190720520512484175975, Sq 0]
   = Some (1, 255515944373312847190720520512484175976)"
  by (simp only: run_steps.simps reduce_cert_def check_range_def option.case if_True if_False
      simp_thms arith_simps rel_simps power_numeral pow.simps sqr.simps option.inject prod.inject
      numeral_plus_one one_plus_numeral one_add_one mult_zero_right add_0_left power_one mult_1_left mult_1_right
      cong: option.case_cong_weak if_weak_cong)

lemma fermat_p128: "2 ^ nat 255515944373312847190720520512484175976 mod 255515944373312847190720520512484175977 = (1::int)"
proof -
  have N: "255515944373312847190720520512484175977 = 340282366920938463463374607431768211456 - (84766422547625616272654086919284035479::int)"
    by simp
  have s0: "(1::int) = 2 ^ nat 0 mod 255515944373312847190720520512484175977 \<and> (0::int) \<le> 0"
    by simp
  note s1 = run_steps_power [OF N fermat_p128_1 conjunct2 [OF s0] conjunct1 [OF s0]]
  note s2 = run_steps_power [OF N fermat_p128_2 conjunct2 [OF s1] conjunct1 [OF s1]]
  note s3 = run_steps_power [OF N fermat_p128_3 conjunct2 [OF s2] conjunct1 [OF s2]]
  note s4 = run_steps_power [OF N fermat_p128_4 conjunct2 [OF s3] conjunct1 [OF s3]]
  from conjunct1 [OF s4] show ?thesis by (rule sym)
qed

lemma side_p128_1_1:
  "run_steps 255515944373312847190720520512484175977
     340282366920938463463374607431768211456
     84766422547625616272654086919284035479 2
     (1, 0)
     [SqMul 0, SqMul 0, SqMul 0, Sq 0, SqMul 0, SqMul 0, SqMul 0,
      SqMul 3457410591561739775222724852590384, SqMul 134216128494755344654953506939717640594,
      SqMul 508296923887414579644556304431000246354, Sq 146345925063028580650480709592123234699,
      Sq 43300538450320718474859067922392793938, SqMul 344969178788518076880204320325182367895,
      SqMul 301146546172868939378099182991367843798, Sq 107051707546674325652964344852226551195,
      SqMul 353659014718370575243430198631936828163, SqMul 2808247511814114647898615241080413139,
      SqMul 155384697499862678964499644313165888981, Sq 214849390742979531510678320011475759822,
      SqMul 313139276788420294332936109563136768801, Sq 242021446384486415758359894033000487406,
      SqMul 184021989620262086622254536133347648598, Sq 81929298152514434571515035231742342392,
      SqMul 19324621718603258646420734398711533672, SqMul 3892311511998328507957280404807101359,
      Sq 198473670628428478930929079206596597775, SqMul 141190830674429719040216622296594455397,
      Sq 7777141421665799007481091944063901629, Sq 20885997987957383229902133412206854297,
      Sq 5778979548343018529665370084587144332, SqMul 218930557455750611814241070067606663747,
      Sq 174670868963371536518089320508336176837]
   = Some (91601385743369360928076050595882836612, 4023244194)"
  by (simp only: run_steps.simps reduce_cert_def check_range_def option.case if_True if_False
      simp_thms arith_simps rel_simps power_numeral pow.simps sqr.simps option.inject prod.inject
      numeral_plus_one one_plus_numeral one_add_one mult_zero_right add_0_left power_one mult_1_left mult_1_right
      cong: option.case_cong_weak if_weak_cong)

lemma side_p128_1_2:
  "run_steps 255515944373312847190720520512484175977
     340282366920938463463374607431768211456
     84766422547625616272654086919284035479 2
     (91601385743369360928076050595882836612, 4023244194)
     [Sq 32838709500830364879020472634183316713, Sq 94838818258366960769294301671544674908,
      Sq 71555480166795662573488823956374120551, SqMul 14346641697670785034417760935679627933,
      SqMul 1019377932046358533800550054046680283, Sq 30039008991409224798330930438997088023,
      Sq 87203101550382067646707978518880644342, Sq 156906394817301094179883521102050290980,
      Sq 22912272104086743920112147486307924314, SqMul 234459916849261754231849610871125736808,
      SqMul 67231927556059327738643637071170510591, SqMul 47650390790119733023251391651494132571,
      Sq 146190871565657765345569888088672296829, SqMul 32925288649628639902991467266683039035,
      SqMul 66235599883594900938960198850427012304, Sq 172008367120311649072115795418889483114,
      SqMul 453253927886208404725469102422884301081, SqMul 115591751459745237971168283375493153921,
      SqMul 346323358602330655394872794353343429630, SqMul 92311572641587355811043327508521060480,
      SqMul 161031051025219174457009570598699238867, Sq 99677507270527197037263805341110013894,
      SqMul 391307017112504646636872096344128908224, Sq 966564533459308500423060730412645740,
      Sq 84906493813802114072671900144630069710, Sq 12264861607235552297702249412733817572,
      SqMul 109850864576315003583847755802531046098, Sq 4451681379856021732307624982398625879,
      SqMul 11453219005260160180828685337429797617, SqMul 64877178737080417024507117999863367286,
      SqMul 121787245526594947237128425018911807825, SqMul 448944699898165130633855903939761976324]
   = Some (114358317824600722223001938711482832702, 17279702237462329903)"
  by (simp only: run_steps.simps reduce_cert_def check_range_def option.case if_True if_False
      simp_thms arith_simps rel_simps power_numeral pow.simps sqr.simps option.inject prod.inject
      numeral_plus_one one_plus_numeral one_add_one mult_zero_right add_0_left power_one mult_1_left mult_1_right
      cong: option.case_cong_weak if_weak_cong)

lemma side_p128_1_3:
  "run_steps 255515944373312847190720520512484175977
     340282366920938463463374607431768211456
     84766422547625616272654086919284035479 2
     (114358317824600722223001938711482832702, 17279702237462329903)
     [SqMul 102364060980597607900700208428992489137, SqMul 10921625592441003104479575037765080614,
      SqMul 487676450524692184398752277267487000149, SqMul 249904909246110847727034944534730941678,
      SqMul 10085887349012624351996789886808653422, Sq 80708381405238195587493003354432584713,
      Sq 2593322097003191108544365964928517129, SqMul 28897199869953151078289265819529866021,
      Sq 181479173387918313712659498192053933, Sq 52814302102655036075642694611192002854,
      Sq 96595677053044329535340661729165264513, Sq 17815639915313153224225463948862828157,
      Sq 67116930988245186977805196799698434607, SqMul 29446139722905103637608703428759609370,
      SqMul 144754799331870340370344593028501390924, Sq 100483679579594355676248457458403237642,
      SqMul 478527486690655176186009447736610915, SqMul 313106575177527398393635940209164303808,
      Sq 2971465033337081113535150597507718772, Sq 39215802319153663214824484283152762265,
      Sq 509186024943377597355254406219182551, SqMul 68785671208776466084320964716395750260,
      SqMul 70905444104784887162499005207746956908, Sq 63103802877313830957233371279421173079,
      Sq 172615077376056433431863688730941598500, Sq 245980098876732603564719672942090863292,
      Sq 98202624662931066776603717129432020921, SqMul 7500301171267252053529171584339512320,
      Sq 147737575047230162002010821334827114571, SqMul 1711910659770538538916988384054698942,
      SqMul 437611918927906623421671185764767447179, SqMul 86592685695882089084330883786458249811]
   = Some (71737481197059661278469485709796073095, 74215755994518732969525822999)"
  by (simp only: run_steps.simps reduce_cert_def check_range_def option.case if_True if_False
      simp_thms arith_simps rel_simps power_numeral pow.simps sqr.simps option.inject prod.inject
      numeral_plus_one one_plus_numeral one_add_one mult_zero_right add_0_left power_one mult_1_left mult_1_right
      cong: option.case_cong_weak if_weak_cong)

lemma side_p128_1_4:
  "run_steps 255515944373312847190720520512484175977
     340282366920938463463374607431768211456
     84766422547625616272654086919284035479 2
     (71737481197059661278469485709796073095, 74215755994518732969525822999)
     [Sq 20140685236376920191445325110661233822, SqMul 347879522232697113349420768646862667855,
      Sq 180502645652683664387257285635960295496, Sq 133528776566131692435872518920831666,
      Sq 1846846558831222692174286551892198178]
   = Some (82381214149343919061612748413412685903, 2374904191824599455024826335976)"
  by (simp only: run_steps.simps reduce_cert_def check_range_def option.case if_True if_False
      simp_thms arith_simps rel_simps power_numeral pow.simps sqr.simps option.inject prod.inject
      numeral_plus_one one_plus_numeral one_add_one mult_zero_right add_0_left power_one mult_1_left mult_1_right
      cong: option.case_cong_weak if_weak_cong)

lemma side_p128_1: "2 ^ nat 2374904191824599455024826335976 mod 255515944373312847190720520512484175977 = (82381214149343919061612748413412685903::int)"
proof -
  have N: "255515944373312847190720520512484175977 = 340282366920938463463374607431768211456 - (84766422547625616272654086919284035479::int)"
    by simp
  have s0: "(1::int) = 2 ^ nat 0 mod 255515944373312847190720520512484175977 \<and> (0::int) \<le> 0"
    by simp
  note s1 = run_steps_power [OF N side_p128_1_1 conjunct2 [OF s0] conjunct1 [OF s0]]
  note s2 = run_steps_power [OF N side_p128_1_2 conjunct2 [OF s1] conjunct1 [OF s1]]
  note s3 = run_steps_power [OF N side_p128_1_3 conjunct2 [OF s2] conjunct1 [OF s2]]
  note s4 = run_steps_power [OF N side_p128_1_4 conjunct2 [OF s3] conjunct1 [OF s3]]
  from conjunct1 [OF s4] show ?thesis by (rule sym)
qed

lemma side_p128_2_1:
  "run_steps 255515944373312847190720520512484175977
     340282366920938463463374607431768211456
     84766422547625616272654086919284035479 2
     (1, 0)
     [SqMul 0, SqMul 0, Sq 0, SqMul 0, SqMul 0, SqMul 0, SqMul 0, Sq 26377949459546964837819861241,
      SqMul 2993970839614740465755013028081141269, Sq 89011048671186438288527623117368502,
      SqMul 196698593217778780913656051193851340440, SqMul 76438938977086182354325803382128152860,
      Sq 134308865447403958509167781150357755949, SqMul 279668089091487494146501301653881604783,
      Sq 82174109908319696676410417375892211883, Sq 112021948254015322600551746081822841430,
      Sq 123027862010831328125096933960757918877, SqMul 16468117911361007775282663991823733874,
      Sq 2791934455280999720567926027909563646, Sq 246502492713968845027820667513688638724,
      SqMul 9673385049899451172031440601148970, SqMul 1851169233259847792020271576960222256,
      SqMul 149927194477368366772391596567418693879, Sq 63933182323559029928510928342073271473,
      SqMul 2019030206617813526728311505256213833, Sq 159666749264955551000942553428812551768,
      SqMul 176234358825048880520758039062297885718, Sq 3548062913180738233727732704980145080,
      SqMul 5012687956477254423529889215436112316, Sq 215740855812640275933884381123768286911,
      SqMul 298203059763350225959997357187623615906, Sq 6916597429682745464595505389632300992]
   = Some (218333321771862468716964903514986066752, 3736358570)"
  by (simp only: run_steps.simps reduce_cert_def check_range_def option.case if_True if_False
      simp_thms arith_simps rel_simps power_numeral pow.simps sqr.simps option.inject prod.inject
      numeral_plus_one one_plus_numeral one_add_one mult_zero_right add_0_left power_one mult_1_left mult_1_right
      cong: option.case_cong_weak if_weak_cong)

lemma side_p128_2_2:
  "run_steps 255515944373312847190720520512484175977
     340282366920938463463374607431768211456
     84766422547625616272654086919284035479 2
     (218333321771862468716964903514986066752, 3736358570)
     [SqMul 373123012051958893848844380778691381518, Sq 1372416980306610173217036508142338871,
      Sq 128925878449152371296806922496337103963, Sq 1158481910384006090861046903227177723,
      SqMul 47895591803469570364028767958522964137, SqMul 295506299012274417980575327482313369318,
      Sq 130253266723001894652175379604153932767, Sq 69325324708240955132701645573427374600,
      SqMul 469445863486542461263128876281736206248, SqMul 28675289070795196938200517706939487251,
      SqMul 14116752291644264270935952056959478748, SqMul 286875341617477648902102215001903714570,
      Sq 26379147541803809108492257277794779492, Sq 22404821947427985059349619945817549423,
      SqMul 51091594103732551640636779488780714167, Sq 21978549629430294324130621876748447977,
      Sq 45605845825829581792689990769920838121, SqMul 10314379441544525405838153742944248430,
      SqMul 64547415474927795217674963858574142658, SqMul 31069475716751586547077696293286792298,
      SqMul 7685046467894297757239781298849474005, Sq 17661372736795641792194885410048114742,
      Sq 26178063794700565152999344050094691768, Sq 2518586994153733646133557125087269664,
      SqMul 100023617573998514768645566882711130631, SqMul 99750852982808916319509724265470175657,
      SqMul 383543528847093397697313713342904898786, Sq 137246688518582416157875799535386802631,
      SqMul 126474349202252249563601609457060151433, SqMul 216134950805058282450535279063076289505,
      SqMul 194826843131680995132142827209619454125, Sq 61671047030276417818320581014616174254]
   = Some (173367555400981747367998309724460081931, 16047537866644027630)"
  by (simp only: run_steps.simps reduce_cert_def check_range_def option.case if_True if_False
      simp_thms arith_simps rel_simps power_numeral pow.simps sqr.simps option.inject prod.inject
      numeral_plus_one one_plus_numeral one_add_one mult_zero_right add_0_left power_one mult_1_left mult_1_right
      cong: option.case_cong_weak if_weak_cong)

lemma side_p128_2_3:
  "run_steps 255515944373312847190720520512484175977
     340282366920938463463374607431768211456
     84766422547625616272654086919284035479 2
     (173367555400981747367998309724460081931, 16047537866644027630)
     [Sq 117629877616559735758358567777075117816, Sq 217407418469566374538108836697640596676,
      SqMul 263186226035114594397654472945464699414, Sq 23420020587670763911148943926296263706,
      SqMul 152297207711338536049209929026475818, Sq 6583121287661600908898706992132666395,
      SqMul 418121364145511287509154585702469615342, SqMul 1216365266180426447287063782511889,
      SqMul 180830716295340923432110146342354440985, SqMul 100886952036517435366063702522663250529,
      Sq 98652364941549990268566532382831960948, SqMul 203654118594807308021851575219898013164,
      SqMul 2574080550267146677640455421170746047, SqMul 101622772818640720772084643840000226138,
      Sq 86782212751714340530234834437679854541, SqMul 57194839301794354167157135216186702114,
      Sq 148023930762742299135126468332689297628, Sq 147629105728661609917016358313417254578,
      Sq 104028977926901659417810937610694593588, SqMul 453991000001716126251547071267696964010,
      Sq 220376489610296459931981272194259017776, Sq 119262144961437407281230077293736317329,
      SqMul 84423284885364125445289573183514361108, SqMul 360339526814238330917418212374875868181,
      Sq 35057969069242520455870870310057025621, Sq 13875601463092388944047318062480722773,
      SqMul 395368234797992514637057064576951995863, Sq 128838915397496828814450233735568670187,
      Sq 16815190908622555235780372471461993671, SqMul 107964744452084251143016145905234492349,
      SqMul 27201515697359910454997732958097874292, SqMul 1121713958141136341222066958678944115]
   = Some (249878704772295840482575770280172488157, 68923650318557707945306297127)"
  by (simp only: run_steps.simps reduce_cert_def check_range_def option.case if_True if_False
      simp_thms arith_simps rel_simps power_numeral pow.simps sqr.simps option.inject prod.inject
      numeral_plus_one one_plus_numeral one_add_one mult_zero_right add_0_left power_one mult_1_left mult_1_right
      cong: option.case_cong_weak if_weak_cong)

lemma side_p128_2_4:
  "run_steps 255515944373312847190720520512484175977
     340282366920938463463374607431768211456
     84766422547625616272654086919284035479 2
     (249878704772295840482575770280172488157, 68923650318557707945306297127)
     [Sq 244365834984666469310153033339304246851, Sq 46862070213082735456700667475539066939,
      Sq 41635619715894099174621976943554700034, Sq 16683466714349391405320276113531860726,
      SqMul 263837461824276484273412551832906568178, SqMul 1606119856840131285377813887681822396,
      Sq 39662714718619212649784115972841809295, Sq 83615112516797612093998251114030380894,
      Sq 31887033962467208190229398548298203565]
   = Some (111233916942653821000329437866037388564, 35288908963101546467996824129048)"
  by (simp only: run_steps.simps reduce_cert_def check_range_def option.case if_True if_False
      simp_thms arith_simps rel_simps power_numeral pow.simps sqr.simps option.inject prod.inject
      numeral_plus_one one_plus_numeral one_add_one mult_zero_right add_0_left power_one mult_1_left mult_1_right
      cong: option.case_cong_weak if_weak_cong)

lemma side_p128_2: "2 ^ nat 35288908963101546467996824129048 mod 255515944373312847190720520512484175977 = (111233916942653821000329437866037388564::int)"
proof -
  have N: "255515944373312847190720520512484175977 = 340282366920938463463374607431768211456 - (84766422547625616272654086919284035479::int)"
    by simp
  have s0: "(1::int) = 2 ^ nat 0 mod 255515944373312847190720520512484175977 \<and> (0::int) \<le> 0"
    by simp
  note s1 = run_steps_power [OF N side_p128_2_1 conjunct2 [OF s0] conjunct1 [OF s0]]
  note s2 = run_steps_power [OF N side_p128_2_2 conjunct2 [OF s1] conjunct1 [OF s1]]
  note s3 = run_steps_power [OF N side_p128_2_3 conjunct2 [OF s2] conjunct1 [OF s2]]
  note s4 = run_steps_power [OF N side_p128_2_4 conjunct2 [OF s3] conjunct1 [OF s3]]
  from conjunct1 [OF s4] show ?thesis by (rule sym)
qed

lemma side_p128_3_1:
  "run_steps 255515944373312847190720520512484175977
     340282366920938463463374607431768211456
     84766422547625616272654086919284035479 2
     (1, 0)
     [SqMul 0, Sq 0, Sq 0, Sq 0, Sq 0, Sq 0, SqMul 0, Sq 5,
      Sq 27319469410168334320916585601006002305, SqMul 0, SqMul 698586,
      SqMul 48153665883001037474600009226591137278, SqMul 91316228765163429625300674955216556805,
      Sq 1794434275389905974774224119389840908, Sq 12025652785404342481496275331279503942,
      Sq 12592887627859861699541340799020582546, SqMul 451890233243736713154445556070459810403,
      Sq 1230130047572744258664468369734212258, SqMul 194015155745772416353646154916994271942,
      Sq 9445785126033261025835149142665501456, Sq 9058122114478036969722591540855763667,
      Sq 134060180815232995944987869849412960698, Sq 13166726113308300863596795599483974041,
      SqMul 72345015649081574435957129117624629644, Sq 11956808038707413796954363769745126908,
      SqMul 9816966714444028438371644995476422881, Sq 195652635107786420775168951099149716491,
      Sq 120933080558356802790052202110365818739, Sq 252219795710622679607924002363062084963,
      SqMul 309971996390531870401177427794334196765, Sq 97977312123974705420556580701706826961,
      Sq 4561626390465659835585182996097676887]
   = Some (132766931360716605957135669476444968785, 2188943684)"
  by (simp only: run_steps.simps reduce_cert_def check_range_def option.case if_True if_False
      simp_thms arith_simps rel_simps power_numeral pow.simps sqr.simps option.inject prod.inject
      numeral_plus_one one_plus_numeral one_add_one mult_zero_right add_0_left power_one mult_1_left mult_1_right
      cong: option.case_cong_weak if_weak_cong)

lemma side_p128_3_2:
  "run_steps 255515944373312847190720520512484175977
     340282366920938463463374607431768211456
     84766422547625616272654086919284035479 2
     (132766931360716605957135669476444968785, 2188943684)
     [SqMul 137972274929253128750640578445409868133, SqMul 26777569497243512578977602351030831258,
      SqMul 89865086777949483382959322701326522023, Sq 132671016822004742154993143162294116667,
      SqMul 491800938248790402537705886470724768497, Sq 6713296006650784302209328312043712363,
      Sq 34463904622958697487783775075439632994, Sq 652442833540574466887282486794046874,
      SqMul 304471126297111570601430550922559818355, SqMul 181202432120274299354805082502126047911,
      Sq 81837734931431198429292276988952403193, Sq 24470541035300165033448121221350613325,
      Sq 237314842957820125622949674591392692014, SqMul 76148219140743103612254957404729223751,
      Sq 114597329147077348690645481909493810583, Sq 16075778174482103277341256389720103134,
      Sq 141491848719602514052173457037763552413, SqMul 87462358858689575112224511877546965779,
      SqMul 112525614974872658022735990674316782249, SqMul 118717999303076226264273228806096096645,
      SqMul 1141136049974382296590551020365564731, Sq 6240714266759748374280123841237061143,
      SqMul 86072486339324898832646306639764005150, SqMul 294148150213772958355049410109424295470,
      Sq 120892038945770987015377639254285598889, SqMul 64567869599614514229734110148968613364,
      Sq 110033698673882626194222669184434506, Sq 2509694582392570392655190715594319,
      SqMul 279486577616754487040371787571482323966, Sq 228893940531288421474630954989181011400,
      Sq 84467572424874244376352750335325528966, SqMul 82730167947689873532923442745829664063]
   = Some (119849659880913085517887048207652160497, 9401441539470949193)"
  by (simp only: run_steps.simps reduce_cert_def check_range_def option.case if_True if_False
      simp_thms arith_simps rel_simps power_numeral pow.simps sqr.simps option.inject prod.inject
      numeral_plus_one one_plus_numeral one_add_one mult_zero_right add_0_left power_one mult_1_left mult_1_right
      cong: option.case_cong_weak if_weak_cong)

lemma side_p128_3_3:
  "run_steps 255515944373312847190720520512484175977
     340282366920938463463374607431768211456
     84766422547625616272654086919284035479 2
     (119849659880913085517887048207652160497, 9401441539470949193)
     [SqMul 112430877914879566330648011771359775630, SqMul 307835134751218643115852968739201754497,
      SqMul 446359025431423885436465954919463643244, SqMul 146373088476713470312392284840269810387,
      SqMul 162183123704859545777983718901133258019, SqMul 193577581624331976436488119120517062408,
      Sq 2340142646675007828274647135674191236, Sq 94449391718474105614283745089616902254,
      Sq 1006652914194948901113514258170959102, Sq 69687385562305159958875766022415566902,
      SqMul 62535436775035392678978707113078725692, Sq 12435768963696180930747075518878731025,
      SqMul 117959675879671130684250340469261015802, Sq 231338847509827558512289949161443503031,
      SqMul 180466336296747895073490540446621616095, SqMul 76033425279635168820183371747344342904,
      Sq 183253581595296619872625777544107715709, Sq 227731495060737575142220768690418431535,
      SqMul 234768561464668921475779480952013378558, Sq 116452689801887769080325321711972201447,
      Sq 13059614517735069531341623233211998655, Sq 74767277644908041608239120245326912068,
      SqMul 326205274317513549612373997885901510586, Sq 74202874981289945552824305286862541909,
      Sq 165572706060574415328894107434853739965, Sq 105631503322860764716964744122426611144,
      Sq 28558474019974299313739560271028524390, SqMul 92339981420126008754763574549063643175,
      SqMul 194376701956768217369671050742711975565, Sq 166074887051185244502713814638898730,
      Sq 138464971819245559477989784029642277090, SqMul 312078898914379770543922497714729]
   = Some (135112410783200240523152259603591634289, 40378883947283619930243277337)"
  by (simp only: run_steps.simps reduce_cert_def check_range_def option.case if_True if_False
      simp_thms arith_simps rel_simps power_numeral pow.simps sqr.simps option.inject prod.inject
      numeral_plus_one one_plus_numeral one_add_one mult_zero_right add_0_left power_one mult_1_left mult_1_right
      cong: option.case_cong_weak if_weak_cong)

lemma side_p128_3_4:
  "run_steps 255515944373312847190720520512484175977
     340282366920938463463374607431768211456
     84766422547625616272654086919284035479 2
     (135112410783200240523152259603591634289, 40378883947283619930243277337)
     [SqMul 142890210569222787608816063249542887154, Sq 112504029788196262918104943357011643387,
      SqMul 238627026561140186716188655686139245845, Sq 109804503818339641102471609560441279842,
      Sq 90387142173172622647181594689290144559, Sq 52471740730765244501434368747713101761,
      SqMul 391887741848659536531102354573138494594, SqMul 26714038385284333692903809606850259278,
      Sq 113058031546168797194928008600447839952, Sq 2763676988881205275078663490606704604,
      Sq 34884567204812597856830346847979683650, Sq 22810009665739189838834210196992549197,
      SqMul 284154338320785146542125106789996870584, Sq 5225856433502904380901396607022694668,
      Sq 63874196346288347099671787301728038811, Sq 86863305148040860860403045264993419965]
   = Some (47418180093458530687350227428022525796, 2646270538369179315748423423599368)"
  by (simp only: run_steps.simps reduce_cert_def check_range_def option.case if_True if_False
      simp_thms arith_simps rel_simps power_numeral pow.simps sqr.simps option.inject prod.inject
      numeral_plus_one one_plus_numeral one_add_one mult_zero_right add_0_left power_one mult_1_left mult_1_right
      cong: option.case_cong_weak if_weak_cong)

lemma side_p128_3: "2 ^ nat 2646270538369179315748423423599368 mod 255515944373312847190720520512484175977 = (47418180093458530687350227428022525796::int)"
proof -
  have N: "255515944373312847190720520512484175977 = 340282366920938463463374607431768211456 - (84766422547625616272654086919284035479::int)"
    by simp
  have s0: "(1::int) = 2 ^ nat 0 mod 255515944373312847190720520512484175977 \<and> (0::int) \<le> 0"
    by simp
  note s1 = run_steps_power [OF N side_p128_3_1 conjunct2 [OF s0] conjunct1 [OF s0]]
  note s2 = run_steps_power [OF N side_p128_3_2 conjunct2 [OF s1] conjunct1 [OF s1]]
  note s3 = run_steps_power [OF N side_p128_3_3 conjunct2 [OF s2] conjunct1 [OF s2]]
  note s4 = run_steps_power [OF N side_p128_3_4 conjunct2 [OF s3] conjunct1 [OF s3]]
  from conjunct1 [OF s4] show ?thesis by (rule sym)
qed

lemma prime_p128: "prime_int 255515944373312847190720520512484175977"
proof (rule pocklington_3
    [where N = "255515944373312847190720520512484175977"
       and a = 2
       and E = "255515944373312847190720520512484175976"
       and qaa = "107590001"
       and maa = "2374904191824599455024826335976"
       and baa = "82381214149343919061612748413412685903"
       and uaa = "- 20434581617977675058516805285726109250"
       and vaa = "6588338933023115121485257253925995413"
       and qbb = "7240687"
       and mbb = "35288908963101546467996824129048"
       and bbb = "111233916942653821000329437866037388564"
       and ubb = "- 79971550269287466041211257148389035036"
       and vbb = "34814065330626291403893160521781755597"
       and qcc = "96557"
       and mcc = "2646270538369179315748423423599368"
       and bcc = "47418180093458530687350227428022525796"
       and ucc = "52333299885033245219942804006191421971"
       and vcc = "- 9711917762783113719871713016506270872"])
  show "prime_int 107590001"
    by (rule prime_p27)
  show "prime_int 7240687"
    by (rule prime_p23)
  show "prime_int 96557"
    by (rule prime_p17)
  show "107590001 \<noteq> (7240687::int)"
    by simp
  show "107590001 \<noteq> (96557::int)"
    by simp
  show "7240687 \<noteq> (96557::int)"
    by simp
  show "1 < (255515944373312847190720520512484175977::int)"
    by simp
  show "255515944373312847190720520512484175977 < (107590001 * 7240687 * 96557) * (107590001 * 7240687 * 96557::int)"
    by simp
  show "2 ^ nat 255515944373312847190720520512484175976 mod 255515944373312847190720520512484175977 = (1::int)"
    by (rule fermat_p128)
  show "255515944373312847190720520512484175976 = 255515944373312847190720520512484175977 - (1::int)"
    by simp
  show "255515944373312847190720520512484175976 = 107590001 * (2374904191824599455024826335976::int)"
    by simp
  show "2 ^ nat 2374904191824599455024826335976 mod 255515944373312847190720520512484175977 = (82381214149343919061612748413412685903::int)"
    by (rule side_p128_1)
  show "(- 20434581617977675058516805285726109250) * (82381214149343919061612748413412685903 - 1) + 6588338933023115121485257253925995413 * 255515944373312847190720520512484175977 = (1::int)"
    by simp
  show "255515944373312847190720520512484175976 = 7240687 * (35288908963101546467996824129048::int)"
    by simp
  show "2 ^ nat 35288908963101546467996824129048 mod 255515944373312847190720520512484175977 = (111233916942653821000329437866037388564::int)"
    by (rule side_p128_2)
  show "(- 79971550269287466041211257148389035036) * (111233916942653821000329437866037388564 - 1) + 34814065330626291403893160521781755597 * 255515944373312847190720520512484175977 = (1::int)"
    by simp
  show "255515944373312847190720520512484175976 = 96557 * (2646270538369179315748423423599368::int)"
    by simp
  show "2 ^ nat 2646270538369179315748423423599368 mod 255515944373312847190720520512484175977 = (47418180093458530687350227428022525796::int)"
    by (rule side_p128_3)
  show "52333299885033245219942804006191421971 * (47418180093458530687350227428022525796 - 1) + (- 9711917762783113719871713016506270872) * 255515944373312847190720520512484175977 = (1::int)"
    by simp
qed

lemma fermat_p237_1:
  "run_steps 205115282021455665897114700593932402728804164701536103180137503955397371
     220855883097298041197912187592864814478435487109452369765200775161577472
     15740601075842375300797486998932411749631322407916266585063271206180101 2
     (1, 0)
     [SqMul 0, SqMul 0, SqMul 0, Sq 0, SqMul 0, SqMul 0, Sq 0, SqMul 1,
      SqMul 2415875792257088195237297408733545892084757330933010367521040549124831,
      SqMul 41098152576827694468395980780744946502274148075232659530961414139279862,
      Sq 35550820893513083319357632618014007560697337924119516414732938670256246,
      Sq 153801928288424932429004302207239922278790372939557213525951353341313833,
      Sq 106599407043613271137344244061538220835727348486686992572452894935157354,
      Sq 77764191842869196654283316579069886182340882023994734620420779054274563,
      Sq 122239961626743919853631709556371149272453072453767564328975925336865143,
      SqMul 1344610964768875324998400168975719405663443677962353282111528484832017]
   = Some (104180063949305408558315232112211812713745508867715706298054652612429095, 60865)"
  by (simp only: run_steps.simps reduce_cert_def check_range_def option.case if_True if_False
      simp_thms arith_simps rel_simps power_numeral pow.simps sqr.simps option.inject prod.inject
      numeral_plus_one one_plus_numeral one_add_one mult_zero_right add_0_left power_one mult_1_left mult_1_right
      cong: option.case_cong_weak if_weak_cong)

lemma fermat_p237_2:
  "run_steps 205115282021455665897114700593932402728804164701536103180137503955397371
     220855883097298041197912187592864814478435487109452369765200775161577472
     15740601075842375300797486998932411749631322407916266585063271206180101 2
     (104180063949305408558315232112211812713745508867715706298054652612429095, 60865)
     [Sq 52914076501360136073163226360808961266259598293920137990493577076837626,
      Sq 635671374168522578499281874985757892023391936900839117321431547574031,
      SqMul 212292007218164919311351546486814717932250321349678326931811430952260903,
      SqMul 29804496986447371830712638198689422644774869725638529752985374996327711,
      Sq 2602231845868414776769982008874139398907128888983332413595286653067515,
      Sq 104541560287381565774061573952646123043638552169750360828552586163415561,
      Sq 61214778210210278438653890139409598619278089694932808314446483397925259,
      Sq 156313425558901106431435660056037145521669800918338107116131747892261988,
      Sq 263291567540687092922040248910968432113551858450247460252450407438429,
      SqMul 303450211883794285544506452734467700731476121876542117587556749513060328,
      SqMul 123593479899813210667655586012967770178905927492012580559255633022201740,
      SqMul 38200305920761511652074479040212466871138707415638487060292918569559704,
      Sq 23640225574259813969248066083017097663331362858401388612326532668760099,
      Sq 78339991171244541547541835943906038472901177256613339720661431946835292,
      SqMul 331790919124396000379772142371942884918649967630862170532952175066472357,
      Sq 67578274477604135220773042794734118356285333969088841448118023787848139]
   = Some (83065139673704408779924620924617154793071500960192637636351829934935152, 3988861042)"
  by (simp only: run_steps.simps reduce_cert_def check_range_def option.case if_True if_False
      simp_thms arith_simps rel_simps power_numeral pow.simps sqr.simps option.inject prod.inject
      numeral_plus_one one_plus_numeral one_add_one mult_zero_right add_0_left power_one mult_1_left mult_1_right
      cong: option.case_cong_weak if_weak_cong)

lemma fermat_p237_3:
  "run_steps 205115282021455665897114700593932402728804164701536103180137503955397371
     220855883097298041197912187592864814478435487109452369765200775161577472
     15740601075842375300797486998932411749631322407916266585063271206180101 2
     (83065139673704408779924620924617154793071500960192637636351829934935152, 3988861042)
     [SqMul 67277458422530222191359994017197398657367856042338591221814694138760940,
      SqMul 170670878938092434838116619445678597751763641454351576099149866861354780,
      SqMul 209416113316240393066836295913212167335585286771247919044442015268689078,
      SqMul 178314979533451661856914697842505413748565367389731482217692526586839581,
      Sq 178638600893928430619276058540622917144961917604864093870251107462491829,
      Sq 144625969870549160734219381152577993838185111292401470287269948085107020,
      Sq 161849043470783878430892672097333375135312602587025496623704540401651424,
      SqMul 6030170093070767957495164767061975477233055681265258327026097140594814,
      SqMul 182199127035681889192730997860728845605546471302674880209102127727281,
      SqMul 243846924906634402833775958932594169319973326167918590388181188016237782,
      Sq 109880602717592283632219802003622727540751328029461136485032169941998067,
      SqMul 54190282345749837111580687046338647881923008248313642641623633027567056,
      SqMul 86549596196217424831597485516936111406783937254007404310925934402132796,
      Sq 74616474104034494287752749134261045479221394411870972003249443037412712,
      SqMul 27785285643319954823549099304833101586131308490022497936374335537031589,
      Sq 136784138928211359896549933493873952018857762324427140833264453473079803]
   = Some (8848718289461169980359522291588968519076020636785645299904593720262808, 261413997310426)"
  by (simp only: run_steps.simps reduce_cert_def check_range_def option.case if_True if_False
      simp_thms arith_simps rel_simps power_numeral pow.simps sqr.simps option.inject prod.inject
      numeral_plus_one one_plus_numeral one_add_one mult_zero_right add_0_left power_one mult_1_left mult_1_right
      cong: option.case_cong_weak if_weak_cong)

lemma fermat_p237_4:
  "run_steps 205115282021455665897114700593932402728804164701536103180137503955397371
     220855883097298041197912187592864814478435487109452369765200775161577472
     15740601075842375300797486998932411749631322407916266585063271206180101 2
     (8848718289461169980359522291588968519076020636785645299904593720262808, 261413997310426)
     [Sq 381735649311854888743245992683447945111616910780434885130024516346846,
      Sq 97460021016660843816860793998029516432820477475198227553590391709660,
      SqMul 349462817011596840339694618614505312867944395791675030178475467656013964,
      SqMul 90072150630588745404277013272716087100326851729927579600408513717067421,
      Sq 9312049606053250710553247367089434388885545470466594180994889905467446,
      Sq 142688537164908128876057664686329437151643800689331433009773933068821497,
      Sq 135134196767900701760058354535200356450404603041058185253391234893457674,
      Sq 190719075908720165586440593545887785116559221858117486032842910527056670,
      Sq 179687891075863828669675827693517432190833560052603699231919617191832340,
      SqMul 405155225060081987759597185958967835889291785437991842796162322382860000,
      Sq 10244447655252534720060087446177735457363033663713972573920721996251526,
      SqMul 117784896503314126188356799945825046931300712140522097095854168852995123,
      Sq 137931617492803464634968567448519465758537332169538581208081227602388566,
      Sq 129592952865862953177564100675061779516617803166992355821589955462922831,
      SqMul 377065996001982968586863198454300746052005844879137054217705845427025177,
      Sq 23570943423523653684178866808218596928983647113867366409615704402263795]
   = Some (79840933044636990597912305889026459255665724255058344552535777256630280, 17132027727736090706)"
  by (simp only: run_steps.simps reduce_cert_def check_range_def option.case if_True if_False
      simp_thms arith_simps rel_simps power_numeral pow.simps sqr.simps option.inject prod.inject
      numeral_plus_one one_plus_numeral one_add_one mult_zero_right add_0_left power_one mult_1_left mult_1_right
      cong: option.case_cong_weak if_weak_cong)

lemma fermat_p237_5:
  "run_steps 205115282021455665897114700593932402728804164701536103180137503955397371
     220855883097298041197912187592864814478435487109452369765200775161577472
     15740601075842375300797486998932411749631322407916266585063271206180101 2
     (79840933044636990597912305889026459255665724255058344552535777256630280, 17132027727736090706)
     [Sq 31078009042599797973736656377758491310648228716305917091396014463545468,
      Sq 47747065076932784939133169206244523582104474972849804195237803828952646,
      SqMul 7998760230155357792468002201218845820167882315008975019904792595828055,
      SqMul 90961696766365288298195522494675257706991032734379968239529704284435624,
      Sq 84213575092617589343314966192407256606033176403279527454161294019912261,
      SqMul 63653322260269540749713920597183729058612922398490107321167578043556535,
      Sq 192217759208040327904546341648706257056119100304893699188641310465027173,
      SqMul 157746890673902817435146460332823527584248336276808654610824009181283752,
      Sq 1933381957061895301469703113900055972756426325697295988391750890861594,
      Sq 5996776908720142948887928177128168878231705945279660372151302325715925,
      Sq 128347363441269616125514373716912323344610095932393169308866104861758712,
      Sq 73628579112335341175516070902954561335179778723508397582128502902198097,
      Sq 107131610223394808352223116238223033578597577172885283513733036968316824,
      Sq 61389509217632836918153453105214965191080605975062243876399373787735050,
      Sq 200547933386240573116404516548702184534686556226900587374918126995675784,
      Sq 193754018888963391981302977221273533168102292976152242558708518584793512]
   = Some (201514946455688000298743242939672076478771697158625920923423734726095832, 1122764569164912440521984)"
  by (simp only: run_steps.simps reduce_cert_def check_range_def option.case if_True if_False
      simp_thms arith_simps rel_simps power_numeral pow.simps sqr.simps option.inject prod.inject
      numeral_plus_one one_plus_numeral one_add_one mult_zero_right add_0_left power_one mult_1_left mult_1_right
      cong: option.case_cong_weak if_weak_cong)

lemma fermat_p237_6:
  "run_steps 205115282021455665897114700593932402728804164701536103180137503955397371
     220855883097298041197912187592864814478435487109452369765200775161577472
     15740601075842375300797486998932411749631322407916266585063271206180101 2
     (201514946455688000298743242939672076478771697158625920923423734726095832, 1122764569164912440521984)
     [Sq 197977806650169810746818923829700536949925627612385780306319806736752414,
      SqMul 57021517703710943127890805353893087363814871203820011990739587542501809,
      Sq 35563193451847905540223687970925212962693875947606623250999269498986789,
      Sq 102324205500075188504934297054020073907674006931897705720148444115520439,
      Sq 163323360205000350853678885539327411711932110808574591873900860236487217,
      SqMul 4655136397112336226605699355280324235150497323166514433408066671025997,
      Sq 142186356878291886752409604644992421383110179152992105883449549050021281,
      Sq 14141310389613458622057396652268778103212702090898713338723205204886168,
      Sq 25957208215712234879831733246990029597637480959615635688568746570497699,
      SqMul 115142523446603117301693098813640662700657490401711782715360361811431267,
      SqMul 139712973081111967429565569419692867244587725370327807855720292674221625,
      SqMul 13416251625878353428880437804155247592502204451251577064360576188591982,
      SqMul 180004398976092177096174125480047434486519171818338874153163083292240077,
      SqMul 100641585422978334878986437086867334122170766642791509577209316837849414,
      SqMul 36833250012880715025299507018890614415452811814706242672985022473646388,
      Sq 160076075762308174178825747850904653466850374651430807613559412832172739]
   = Some (191548246122124530120267825907625770802517790362275123808646398379767007, 73581498804791701702048760958)"
  by (simp only: run_steps.simps reduce_cert_def check_range_def option.case if_True if_False
      simp_thms arith_simps rel_simps power_numeral pow.simps sqr.simps option.inject prod.inject
      numeral_plus_one one_plus_numeral one_add_one mult_zero_right add_0_left power_one mult_1_left mult_1_right
      cong: option.case_cong_weak if_weak_cong)

lemma fermat_p237_7:
  "run_steps 205115282021455665897114700593932402728804164701536103180137503955397371
     220855883097298041197912187592864814478435487109452369765200775161577472
     15740601075842375300797486998932411749631322407916266585063271206180101 2
     (191548246122124530120267825907625770802517790362275123808646398379767007, 73581498804791701702048760958)
     [Sq 178878581014865757397503023213372666569626230301067563996141394750975438,
      SqMul 299702628980198348735705294679635360466798319950507812448803228052633760,
      SqMul 308033060551089149673829609207534239255409294329667556061305878249249,
      Sq 57141316789019222323819882688949455094317587637083251009757199329538766,
      Sq 22716466532017075359952547289375741207085804606363529886668155065232496,
      SqMul 25688057229465072054326444073443876142228726013671661889074718653985468,
      SqMul 339470432835390492567735152073689437284438308348082332016827372306400672,
      SqMul 138349327232752917070578520245699545560876787524770883213488989710039628,
      SqMul 313961764954443719208607885500651447569700563989125882868120655686480022,
      Sq 103990467914848236947950523611253160188693705401152794812263932900222217,
      SqMul 50364232187363959770905275939623370015399796436138045165858711360325015,
      SqMul 102424603329401540967181325497904327294689194340616665658137498535855768,
      Sq 166449293616412508086244042531846415494998429921087583647455163392722574,
      SqMul 28727121494992950708005875528745908554778065912096743407818533815716269,
      Sq 126843311920203221672855518743043953439938090349971219456564056464755318,
      SqMul 325330411276845163396588425772027369736793020528381815465118813763603520]
   = Some (172792486824288977081100105602852174095113882380213199778112149444790722, 4822237105670828962745467598170037)"
  by (simp only: run_steps.simps reduce_cert_def check_range_def option.case if_True if_False
      simp_thms arith_simps rel_simps power_numeral pow.simps sqr.simps option.inject prod.inject
      numeral_plus_one one_plus_numeral one_add_one mult_zero_right add_0_left power_one mult_1_left mult_1_right
      cong: option.case_cong_weak if_weak_cong)

lemma fermat_p237_8:
  "run_steps 205115282021455665897114700593932402728804164701536103180137503955397371
     220855883097298041197912187592864814478435487109452369765200775161577472
     15740601075842375300797486998932411749631322407916266585063271206180101 2
     (172792486824288977081100105602852174095113882380213199778112149444790722, 4822237105670828962745467598170037)
     [Sq 145563232581563199463406721993810469936945328341052046440854222217673526,
      Sq 89592898090969735659264247852055971544280600848298581487053359702171225,
      Sq 42631339458992362934248208191429479325127436415789634650715346056940563,
      SqMul 389054604692610313091385783932985340234405013985442144258597348365467030,
      SqMul 10159684941475256231480716449318247164197950242130667722394320214234230,
      SqMul 48303669428562692714694391265653578656970516685997432943095759971970465,
      Sq 146567035351998917354971481303361769644077353236796041126023513755754305,
      SqMul 1445666382671359066181514952502609601858169755839727631251938813176659,
      Sq 83129918212098261658691265477272521613963824064448920657969711225581928,
      Sq 77024722283745591147853861386310634990134077294396143315590209344565452,
      SqMul 30668532669133882621007876972714176904143887385458947120852480053313035,
      Sq 5247995458023905522634746230953189730169056878899639875566789070822169,
      SqMul 162019322367756039117346229638388063922275856455934290948481311695870537,
      SqMul 276467056030153411473652758711805378952396236632008120555634970890119409,
      Sq 99974751579764443165560550183260343480602274382542868628389914519299999,
      Sq 35306269091134799578153378209516610263047846810901123854497019376995394]
   = Some (83356645126668108761000041116406551363091080400677616034819374191679450, 316030130957243446902486964513671552300)"
  by (simp only: run_steps.simps reduce_cert_def check_range_def option.case if_True if_False
      simp_thms arith_simps rel_simps power_numeral pow.simps sqr.simps option.inject prod.inject
      numeral_plus_one one_plus_numeral one_add_one mult_zero_right add_0_left power_one mult_1_left mult_1_right
      cong: option.case_cong_weak if_weak_cong)

lemma fermat_p237_9:
  "run_steps 205115282021455665897114700593932402728804164701536103180137503955397371
     220855883097298041197912187592864814478435487109452369765200775161577472
     15740601075842375300797486998932411749631322407916266585063271206180101 2
     (83356645126668108761000041116406551363091080400677616034819374191679450, 316030130957243446902486964513671552300)
     [SqMul 67750488586671628318049902482442749356162152304023501862146550660101516,
      Sq 1050343559817366616903490688924220447013751737678545408880868941672347,
      Sq 116039261467373823068193837220251954155846233208748379459543570290515554,
      SqMul 164044540323634212425117695030708269644904117071569276237026992222983903,
      SqMul 137899771873400016020036682247788052484187270024039381717314050211766648,
      Sq 93709823108563167516336333190752067248870037491393720714887969807680733,
      SqMul 265830534579609499276715887608461781679825071344888438591909731373051397,
      SqMul 7569563344151205451896465381706432560691448355702096579920629566024160,
      Sq 3404604545867750995967684289984611146993472884055592027433540724375952,
      SqMul 909195614781009688267375854187509177425265309503930824311468946346811,
      SqMul 365990703897792037334661435329688194404929619443418222398869767183829633,
      Sq 73082432735739417358410912235553086223095473591728934207312854848030028,
      SqMul 13947457957771529673968427036301391582595110162412928279036864012609296,
      Sq 124086375172661656619327392739573164178839597759215790450191921108305936,
      SqMul 385138710209991176742016971376776111458828631834134558303167660153006167,
      SqMul 156339871140509822059981452516078511702211940681376261508736498446405393]
   = Some (68995138366971845694321867558302864988786195771857872928556345135206439, 20711350662413906536201385706367978851572587)"
  by (simp only: run_steps.simps reduce_cert_def check_range_def option.case if_True if_False
      simp_thms arith_simps rel_simps power_numeral pow.simps sqr.simps option.inject prod.inject
      numeral_plus_one one_plus_numeral one_add_one mult_zero_right add_0_left power_one mult_1_left mult_1_right
      cong: option.case_cong_weak if_weak_cong)

lemma fermat_p237_10:
  "run_steps 205115282021455665897114700593932402728804164701536103180137503955397371
     220855883097298041197912187592864814478435487109452369765200775161577472
     15740601075842375300797486998932411749631322407916266585063271206180101 2
     (68995138366971845694321867558302864988786195771857872928556345135206439, 20711350662413906536201385706367978851572587)
     [SqMul 46416133126342540230228383218223478156088009488173804771138981536575352,
      Sq 10020994397794878802247448954657597258610904054216827701178119779420538,
      SqMul 85694945287333855916898205302700666430234654872273960400717417160033168,
      Sq 49578748099326760101068478544671552905855808253426201963952036524166416,
      SqMul 254203126459444437630832712969444349718286076204744917392495271391341977,
      SqMul 94540780039821349206741885629596065300830443149018282031303173868988757,
      SqMul 13948307919229762611374586464244046873489853708986618726922392047809530,
      Sq 61523713044668717123677437883649982437695790665380538621604214295901414,
      SqMul 194723550325536961990577818922448409813137759099921163809873074995813311,
      SqMul 364821431960058120497358944083623018027287077483843290108424385264136292,
      Sq 138376430848216146864282207701602104399882633874323510056677757049772243,
      Sq 68942879937521186221881475207110324111380483575699615784498245953494039,
      Sq 14146138295966622635535483144737276479501243729814605638840309236150418,
      SqMul 342429154645904394305973050361368030380051094336786950849128198974251380,
      Sq 19565757537307321445517025044907629742874396598315648483964641051673617,
      Sq 61589039671684457983429353382783380500191946898857895189488993973357616]
   = Some (113163833478938146627148096890602549076347580846742650977171970489074633, 1357339077011957778756494013652531862016661106372)"
  by (simp only: run_steps.simps reduce_cert_def check_range_def option.case if_True if_False
      simp_thms arith_simps rel_simps power_numeral pow.simps sqr.simps option.inject prod.inject
      numeral_plus_one one_plus_numeral one_add_one mult_zero_right add_0_left power_one mult_1_left mult_1_right
      cong: option.case_cong_weak if_weak_cong)

lemma fermat_p237_11:
  "run_steps 205115282021455665897114700593932402728804164701536103180137503955397371
     220855883097298041197912187592864814478435487109452369765200775161577472
     15740601075842375300797486998932411749631322407916266585063271206180101 2
     (113163833478938146627148096890602549076347580846742650977171970489074633, 1357339077011957778756494013652531862016661106372)
     [SqMul 124866885406512919173152832527452223273516192096267748916389620131131054,
      SqMul 43746482582647986906965879904123054603782349396246488724644946386984882,
      Sq 114051557309006231173218333042215687802931640486106552171993255830525526,
      SqMul 22476316710472775708618647606753582571240996010216453714219203217897646,
      Sq 948820294552777781652680399131489530868880475451955043434159090557205,
      Sq 13295708768837823563345379687931493301280860975705600548982601643583769,
      SqMul 126134252723326264021036901547883511935277871823771955814948811635668960,
      SqMul 66379114098569666353977124631199033331785091519651487234971865726261886,
      SqMul 27338713717428400964040014625733070273418879083061915497172329193859301,
      Sq 728861105004295649636969930022413136675967213915759431087868626109589,
      SqMul 699479761355308284784085265361502916967536668311639714221600880345329,
      SqMul 76948091509888900763105875924482981684206645320256590232089462267708358,
      SqMul 8907833852750698515532180760508095536644903496427304438357836369025165,
      Sq 61287605249669415401074092725949589862208994067908322989489139250495016,
      SqMul 111066007316163112635477842154937710608061187854122185486205579144723064,
      SqMul 42982520462774296908630474593838133986395669197878706988243688082180727]
   = Some (131703323737037175467457666899914819845626241963953204384499459569248155, 88954573751055664988585591678732328109123902267249595)"
  by (simp only: run_steps.simps reduce_cert_def check_range_def option.case if_True if_False
      simp_thms arith_simps rel_simps power_numeral pow.simps sqr.simps option.inject prod.inject
      numeral_plus_one one_plus_numeral one_add_one mult_zero_right add_0_left power_one mult_1_left mult_1_right
      cong: option.case_cong_weak if_weak_cong)

lemma fermat_p237_12:
  "run_steps 205115282021455665897114700593932402728804164701536103180137503955397371
     220855883097298041197912187592864814478435487109452369765200775161577472
     15740601075842375300797486998932411749631322407916266585063271206180101 2
     (131703323737037175467457666899914819845626241963953204384499459569248155, 88954573751055664988585591678732328109123902267249595)
     [Sq 84565934397654493026545480411446994631130890872189178561885842786515836,
      SqMul 187665229697344379775970180826599950324044572969360065457699792621026224,
      SqMul 21181489942228590078276749093439881562783451473211558416891428919666594,
      Sq 111624221585991274008422312170441876052871150031088211509488434310381886,
      SqMul 207900613319872426606475264472970133893754877964634366009259160158458046,
      Sq 144327313183749924489506229381996713111350311342121565188084954531856688,
      SqMul 104379724791413566841777093331102620097729740477383010679737145809945524,
      Sq 78754317639111227342053486066399446936900428021575323320823924167040884,
      Sq 75799885535124424045420093347279597893326309505310389541286106307475521,
      SqMul 49258818110096070977462658890199177229600833688505931526453259503023646,
      SqMul 236511231287799340098579070240045940748551262383082944186438584429691303,
      Sq 90726141023892124006248396022384359077223416033276358937311475554222158,
      Sq 23054339929798964008936544335427288921090030652313062076049562323145670,
      Sq 4330085182882864129107812721215946471080565545450612648136381973913329,
      Sq 9617394204260010669585748843555907329060781227776518491127240587780409,
      Sq 88695803092797083722107431850757947250694434801760212012407905283611567]
   = Some (187923924929797142178484826922150576821499032368174968059279635664437868, 5829726945349184060691945336257401854959544058986469485152)"
  by (simp only: run_steps.simps reduce_cert_def check_range_def option.case if_True if_False
      simp_thms arith_simps rel_simps power_numeral pow.simps sqr.simps option.inject prod.inject
      numeral_plus_one one_plus_numeral one_add_one mult_zero_right add_0_left power_one mult_1_left mult_1_right
      cong: option.case_cong_weak if_weak_cong)

lemma fermat_p237_13:
  "run_steps 205115282021455665897114700593932402728804164701536103180137503955397371
     220855883097298041197912187592864814478435487109452369765200775161577472
     15740601075842375300797486998932411749631322407916266585063271206180101 2
     (187923924929797142178484826922150576821499032368174968059279635664437868, 5829726945349184060691945336257401854959544058986469485152)
     [Sq 172173429561069643986027124340142140543603547855286480439825403626049053,
      SqMul 18087114793341076070547714059696934968051991556307293917314388216923756,
      SqMul 43563985192359217275353203814764793453716090546817352911287745913948819,
      Sq 8740432453684526264527639765747818517310964293652792079379048748864398,
      SqMul 218548237855612772902868080697131544140195713571839714241657654502041385,
      SqMul 10043868799846194938643014064084890967850693187753323523807851818099393,
      Sq 138445689866764853648462555733630340126582093199434964046316365937239819,
      SqMul 386281805081332476252377435826260038415648376216697826011509556720186924,
      Sq 100109607136684464775925118939987704469519002445083793228479529694008482,
      Sq 91358235100190686063014293446976694142859349784574640025827718159036337,
      SqMul 258049372773396183994615495135992132147832646016958143418297214035549182,
      Sq 85380571603301881430390360922406126017161634657344391123377445974357186,
      Sq 85226066127294509920287332592927244678937083795890210891967204724460630,
      SqMul 220005613440163647051026277151456987865629675653139184104594931188134915,
      SqMul 157773034656339326255995561835008847278958728674179241126229549197541477,
      SqMul 168529895188974151275642763332117039807514483345756041363530842747895663]
   = Some (98518359889740547967188577895777783848704160797322899172503347391408605, 382056985090404126601507329556965087966628679449737264178949415)"
  by (simp only: run_steps.simps reduce_cert_def check_range_def option.case if_True if_False
      simp_thms arith_simps rel_simps power_numeral pow.simps sqr.simps option.inject prod.inject
      numeral_plus_one one_plus_numeral one_add_one mult_zero_right add_0_left power_one mult_1_left mult_1_right
      cong: option.case_cong_weak if_weak_cong)

lemma fermat_p237_14:
  "run_steps 205115282021455665897114700593932402728804164701536103180137503955397371
     220855883097298041197912187592864814478435487109452369765200775161577472
     15740601075842375300797486998932411749631322407916266585063271206180101 2
     (98518359889740547967188577895777783848704160797322899172503347391408605, 382056985090404126601507329556965087966628679449737264178949415)
     [SqMul 94638167763133092933506675603391276509875493933962132920228019135851662,
      Sq 34484869423804554978670977670715237069049026301745788200260240375786302,
      Sq 64343851850084779939080803908021460068298029431426984499987786299581010,
      SqMul 65585962495146000366784070509132427760932545392890701770176343805930465,
      SqMul 612363956366790047676658953888087181485455127453643855136207193137694,
      Sq 1060378688289966231787376606039776928966111103892123600187243243275674,
      Sq 53326297904300836032025559148331037938366297854997379515676997954246621,
      SqMul 15868145202996537409943304205388726741460526832216079743148413429531134,
      SqMul 265188369479928210724080333030888043982751852649266774232507080247233317,
      SqMul 99870949705270949848231354764864175920787109754964636402392701479001083,
      Sq 199899971188291853907040897795312075346595488757404441897746630282134626,
      Sq 3823370274982090527470969883027695366607179618545663336883543318172848,
      Sq 16859363956779654328793710226235505631066536716999918476769161078650561,
      SqMul 194433114033910272907444793370833784827657390425787338242475994207739969,
      Sq 241330265699424438058244544096556456225276986602614985495146403577699,
      SqMul 139150139540501701726665918641912172267597825222537538283947804226697123]
   = Some (93996917103253095826355365277868373486390352966762015726615368092412335, 25038486574884724840956384349845264004980977136417981345231628900805)"
  by (simp only: run_steps.simps reduce_cert_def check_range_def option.case if_True if_False
      simp_thms arith_simps rel_simps power_numeral pow.simps sqr.simps option.inject prod.inject
      numeral_plus_one one_plus_numeral one_add_one mult_zero_right add_0_left power_one mult_1_left mult_1_right
      cong: option.case_cong_weak if_weak_cong)

lemma fermat_p237_15:
  "run_steps 205115282021455665897114700593932402728804164701536103180137503955397371
     220855883097298041197912187592864814478435487109452369765200775161577472
     15740601075842375300797486998932411749631322407916266585063271206180101 2
     (93996917103253095826355365277868373486390352966762015726615368092412335, 25038486574884724840956384349845264004980977136417981345231628900805)
     [Sq 43075388327192623449141277252422243866107034652047997755317071445931485,
      SqMul 5133863539652852896789724618277322032484800181747303430843358093547645,
      Sq 49320865864343618184474531978707230410068789628959570964236279239943384,
      SqMul 90066008814225929233233211279367459941990661707144425296748222966372939,
      Sq 13689470369127379041250255800738036909224351142994186873124165225813994,
      SqMul 56403040108138754045633822463519488384861988432947422893881710351163606,
      SqMul 173144170724998438418240546904620693573232123600994446571569134597632223,
      SqMul 218090942817902925831606640870285054589739372513438224677142009554932283,
      SqMul 389302214390938484696656796753921498573680469353251041931579193908380525,
      SqMul 1404491935780237068219427452164570341266390150040047000103801884203253,
      Sq 162431485516642662366133555844879409721588314803083117728527499662631308,
      SqMul 40108334148742966409057146960428441437741064287525708068927572739976168,
      Sq 205115282021455665897114700593932402728804164701536103180137503955397369]
   = Some (1, 205115282021455665897114700593932402728804164701536103180137503955397370)"
  by (simp only: run_steps.simps reduce_cert_def check_range_def option.case if_True if_False
      simp_thms arith_simps rel_simps power_numeral pow.simps sqr.simps option.inject prod.inject
      numeral_plus_one one_plus_numeral one_add_one mult_zero_right add_0_left power_one mult_1_left mult_1_right
      cong: option.case_cong_weak if_weak_cong)

lemma fermat_p237: "2 ^ nat 205115282021455665897114700593932402728804164701536103180137503955397370 mod 205115282021455665897114700593932402728804164701536103180137503955397371 = (1::int)"
proof -
  have N: "205115282021455665897114700593932402728804164701536103180137503955397371 = 220855883097298041197912187592864814478435487109452369765200775161577472 - (15740601075842375300797486998932411749631322407916266585063271206180101::int)"
    by simp
  have s0: "(1::int) = 2 ^ nat 0 mod 205115282021455665897114700593932402728804164701536103180137503955397371 \<and> (0::int) \<le> 0"
    by simp
  note s1 = run_steps_power [OF N fermat_p237_1 conjunct2 [OF s0] conjunct1 [OF s0]]
  note s2 = run_steps_power [OF N fermat_p237_2 conjunct2 [OF s1] conjunct1 [OF s1]]
  note s3 = run_steps_power [OF N fermat_p237_3 conjunct2 [OF s2] conjunct1 [OF s2]]
  note s4 = run_steps_power [OF N fermat_p237_4 conjunct2 [OF s3] conjunct1 [OF s3]]
  note s5 = run_steps_power [OF N fermat_p237_5 conjunct2 [OF s4] conjunct1 [OF s4]]
  note s6 = run_steps_power [OF N fermat_p237_6 conjunct2 [OF s5] conjunct1 [OF s5]]
  note s7 = run_steps_power [OF N fermat_p237_7 conjunct2 [OF s6] conjunct1 [OF s6]]
  note s8 = run_steps_power [OF N fermat_p237_8 conjunct2 [OF s7] conjunct1 [OF s7]]
  note s9 = run_steps_power [OF N fermat_p237_9 conjunct2 [OF s8] conjunct1 [OF s8]]
  note s10 = run_steps_power [OF N fermat_p237_10 conjunct2 [OF s9] conjunct1 [OF s9]]
  note s11 = run_steps_power [OF N fermat_p237_11 conjunct2 [OF s10] conjunct1 [OF s10]]
  note s12 = run_steps_power [OF N fermat_p237_12 conjunct2 [OF s11] conjunct1 [OF s11]]
  note s13 = run_steps_power [OF N fermat_p237_13 conjunct2 [OF s12] conjunct1 [OF s12]]
  note s14 = run_steps_power [OF N fermat_p237_14 conjunct2 [OF s13] conjunct1 [OF s13]]
  note s15 = run_steps_power [OF N fermat_p237_15 conjunct2 [OF s14] conjunct1 [OF s14]]
  from conjunct1 [OF s15] show ?thesis by (rule sym)
qed

lemma side_p237_1_1:
  "run_steps 205115282021455665897114700593932402728804164701536103180137503955397371
     220855883097298041197912187592864814478435487109452369765200775161577472
     15740601075842375300797486998932411749631322407916266585063271206180101 2
     (1, 0)
     [SqMul 0, Sq 0, Sq 0, SqMul 0, SqMul 0, SqMul 0, SqMul 0, Sq 0, Sq 650849553623666468585472,
      SqMul 0, Sq 11724673907914626136410960774024984892889,
      SqMul 4395819299303199504890405264355360449696744728517192077812720581047649,
      Sq 117395472437909750473244446506820296382659955103356122103053670776397325,
      Sq 95622630508968592824108359790230654919223468107801429351277242615631981,
      Sq 2913674069087366804466864258947782257974030311788440168679713759622250,
      Sq 90201153309508291792943080569038534480376680380301804129349669207961444]
   = Some (144386211246652681031254034617800280820778354820967682499331669505161901, 40528)"
  by (simp only: run_steps.simps reduce_cert_def check_range_def option.case if_True if_False
      simp_thms arith_simps rel_simps power_numeral pow.simps sqr.simps option.inject prod.inject
      numeral_plus_one one_plus_numeral one_add_one mult_zero_right add_0_left power_one mult_1_left mult_1_right
      cong: option.case_cong_weak if_weak_cong)

lemma side_p237_1_2:
  "run_steps 205115282021455665897114700593932402728804164701536103180137503955397371
     220855883097298041197912187592864814478435487109452369765200775161577472
     15740601075842375300797486998932411749631322407916266585063271206180101 2
     (144386211246652681031254034617800280820778354820967682499331669505161901, 40528)
     [Sq 101637370910190473677705100837340023288221101566725510470953431204590597,
      SqMul 198222314635742054975565683987538643686021763364242553108535285005201203,
      SqMul 10718463720083561327532708068591588260431916173677927521625919297079718,
      SqMul 293363510215139712543260762461709097273287859657060304110348393663443741,
      SqMul 2498846153030856229439325376344436893194464631983849583815876507894732,
      SqMul 3682625169665079509037377618497481133811422828179257739896879725285117,
      Sq 38766256912608961969231982650068095531692571954042310384269627912533698,
      SqMul 391203950832896979158200470976549015162917407123602404898829370163452648,
      Sq 172394811465660924915881892556471541412744231174607337278478973174599781,
      SqMul 5516085108429149001974410170611910171170425204287297434515002121672271,
      Sq 50473194443283711237943250514676402951370918689456937556043125321185053,
      SqMul 21571666675949569493629080052831182099881207242863135802208336241901414,
      SqMul 199217377355387583020832434435510198997204287131547247070087692470649021,
      SqMul 263361420728701949840867171430840693813750617848999943952767414851855100,
      SqMul 948884881529526417493184165905475368189369544464797074377500235446951,
      SqMul 383457076367420488632976890625272166532663861613400526965389001283218169]
   = Some (141972790709600932738391354373154721927385227989410650173923182356617679, 2656075103)"
  by (simp only: run_steps.simps reduce_cert_def check_range_def option.case if_True if_False
      simp_thms arith_simps rel_simps power_numeral pow.simps sqr.simps option.inject prod.inject
      numeral_plus_one one_plus_numeral one_add_one mult_zero_right add_0_left power_one mult_1_left mult_1_right
      cong: option.case_cong_weak if_weak_cong)

lemma side_p237_1_3:
  "run_steps 205115282021455665897114700593932402728804164701536103180137503955397371
     220855883097298041197912187592864814478435487109452369765200775161577472
     15740601075842375300797486998932411749631322407916266585063271206180101 2
     (141972790709600932738391354373154721927385227989410650173923182356617679, 2656075103)
     [SqMul 196536046492759550147343774787841790210823944802575814738644304406491521,
      SqMul 97539077842962649588620010686335580923076964480934074329151024774162446,
      SqMul 51950587561198486183966436085536338684316970643981634969808893831884698,
      Sq 186377614661044959590429251918280356737506112515689179260562375002120159,
      SqMul 281335836389984422609467655095310190662384447876401139237154062843427817,
      SqMul 104230482037727425800376818109136617786067121307895812596541759886444621,
      Sq 71895245320360270871084316710183054516421858437349435699200100953843376,
      Sq 1167947894303311038033506192367460776766769073910142756734174353106788,
      SqMul 159270726507520273751265046229548044102536471286211918598183118952929167,
      SqMul 64852433273476671930505703973692136751305034364892460730664396119517616,
      SqMul 409292223140999405826362333720028682953975290398985414134755829759621,
      SqMul 821401448192853651946010926452438868662226386396655351245223148397375,
      Sq 2794031888115061145445207134997610334787210657251658925577531183046643,
      Sq 14168386097403404166973298546255055632106056876304816542355728298479629,
      Sq 124478370750750867740972434270815795417859472776557217121828297885321138,
      Sq 109772329335195408689875633345114883187182379914224375099831438603755058]
   = Some (171238567791998350548786087178400131660218018934813647457697574943768083, 174068538010864)"
  by (simp only: run_steps.simps reduce_cert_def check_range_def option.case if_True if_False
      simp_thms arith_simps rel_simps power_numeral pow.simps sqr.simps option.inject prod.inject
      numeral_plus_one one_plus_numeral one_add_one mult_zero_right add_0_left power_one mult_1_left mult_1_right
      cong: option.case_cong_weak if_weak_cong)

lemma side_p237_1_4:
  "run_steps 205115282021455665897114700593932402728804164701536103180137503955397371
     220855883097298041197912187592864814478435487109452369765200775161577472
     15740601075842375300797486998932411749631322407916266585063271206180101 2
     (171238567791998350548786087178400131660218018934813647457697574943768083, 174068538010864)
     [Sq 142956910916016385057254469032568287251274672368448733000993490793170805,
      Sq 148700469526878310673382872136954839445936568843008737501854591485488176,
      Sq 822750825908982021299491315251292090635409418716660458006543287898860,
      Sq 1001616318041528254637574716468661262001029268592602508199043278368942,
      SqMul 706293170654518025266838844237654272110847845200016587137671882088756,
      SqMul 208695035083942825737875488829390082698262927863961272565440884200624304,
      Sq 6597367298402096684253786905067611347820349711444335853513304350292170,
      SqMul 4212714957928705237681828534654956680477622216725368166813843347178195,
      SqMul 16328467777112269837962315984711193465642431374526335195116726037491386,
      SqMul 234884946385379515965199458932230976399732870023851336009778318497762158,
      Sq 34557932914729281553845980167690399242128718454687766987340050642545369,
      Sq 109474416153361149699700529062385012733143596403177956259448791293513097,
      Sq 91300834110528094306967936454361379074326425761670375711922199230068091,
      SqMul 66995513761320037904279532229519846800659925016201345871831206951073223,
      SqMul 1350123029130521527269754024716933691896148519104320248328532812983570,
      Sq 100214351539269664995834108957453169901146387594363396436413107169434207]
   = Some (102075263865239240524976884507030740644894861296312569587169084979247467, 11407755707079986630)"
  by (simp only: run_steps.simps reduce_cert_def check_range_def option.case if_True if_False
      simp_thms arith_simps rel_simps power_numeral pow.simps sqr.simps option.inject prod.inject
      numeral_plus_one one_plus_numeral one_add_one mult_zero_right add_0_left power_one mult_1_left mult_1_right
      cong: option.case_cong_weak if_weak_cong)

lemma side_p237_1_5:
  "run_steps 205115282021455665897114700593932402728804164701536103180137503955397371
     220855883097298041197912187592864814478435487109452369765200775161577472
     15740601075842375300797486998932411749631322407916266585063271206180101 2
     (102075263865239240524976884507030740644894861296312569587169084979247467, 11407755707079986630)
     [Sq 50797577783932842021681891204699923834003320973178290479864492567583248,
      Sq 105263501196256275503475429090422592679638423570838494067807091168278438,
      Sq 94318424427419507072699922948230059420390719378223354793132453588597477,
      Sq 149643603994094668061156220705810356165004362863011031171873467856844093,
      Sq 18230154528432462828374370873579076164805992689983678126085180123467852,
      SqMul 99480161852216051412166491243010077766824491518672231764018543974172799,
      SqMul 337381974202215079010763778796522788255152042959035697444536108523523887,
      SqMul 300519161035568425476428106246288454471783561918687020082663850039367036,
      SqMul 36628903559400274035683797100178565619896126816776383054833034598202274,
      SqMul 255224961901110977426773387289859991037570229846108450405166122578040880,
      SqMul 343108592690439963782878647430865427158613153308126574817021937429523069,
      SqMul 145688703960307535634662348127375811974744560896991648451429570146146028,
      Sq 74600771141634851727426710518673540448038778168913475352548675233648843,
      Sq 185162978220505819545027703772695346303396433907209018682175696002576422,
      Sq 35126203436293125686109964978775765193088199686441859840962041493731719,
      Sq 110867619543809302837997576739112689610344365405667677697867771331504968]
   = Some (20415445257630754023603829538957396360006712467992065784347419701850872, 747618678019194003785712)"
  by (simp only: run_steps.simps reduce_cert_def check_range_def option.case if_True if_False
      simp_thms arith_simps rel_simps power_numeral pow.simps sqr.simps option.inject prod.inject
      numeral_plus_one one_plus_numeral one_add_one mult_zero_right add_0_left power_one mult_1_left mult_1_right
      cong: option.case_cong_weak if_weak_cong)

lemma side_p237_1_6:
  "run_steps 205115282021455665897114700593932402728804164701536103180137503955397371
     220855883097298041197912187592864814478435487109452369765200775161577472
     15740601075842375300797486998932411749631322407916266585063271206180101 2
     (20415445257630754023603829538957396360006712467992065784347419701850872, 747618678019194003785712)
     [Sq 2031981239816741367606719232694158118306669437930110343344838915788845,
      Sq 13849474187521107123875271839873757088229311049150819289622625800713525,
      Sq 62413864524013509031891969267762665873792098392571845302022669399248365,
      SqMul 242216381809038846155767768579494232138287914010125670461290720083285015,
      SqMul 209489532368761288438951571497311236254255724678693339721285048544967150,
      SqMul 326492335137769417839457258137378272487902257701768651502143150107346822,
      SqMul 227811015278321367376061221693433688726224343037448983011875068841721311,
      SqMul 24376903439429392887106265208162752625740066394752492742534500287962411,
      SqMul 214428864670906967245564242347658477955374548232046493471564163932648221,
      SqMul 53295111254706910991512574059882963671376435249781884836734979089803062,
      Sq 105334770091505385723359442491527028145075929090883283929618815318848323,
      SqMul 141344994296816319888343461935865915397131440973190083498096691161595722,
      Sq 136178929471297247513641937295432640755592857448751859772350404745068101,
      SqMul 4898093592811023839746483631698180312330648295201685319544569072250540,
      Sq 22530988580686664776938064188486157980143306668274606837718656335479614,
      Sq 189512496376555959604704004135906322947510808525274985217452263808184596]
   = Some (46918586508776263133431909474253900356382052341747130018292921607120520, 48995937682665898232100429780)"
  by (simp only: run_steps.simps reduce_cert_def check_range_def option.case if_True if_False
      simp_thms arith_simps rel_simps power_numeral pow.simps sqr.simps option.inject prod.inject
      numeral_plus_one one_plus_numeral one_add_one mult_zero_right add_0_left power_one mult_1_left mult_1_right
      cong: option.case_cong_weak if_weak_cong)

lemma side_p237_1_7:
  "run_steps 205115282021455665897114700593932402728804164701536103180137503955397371
     220855883097298041197912187592864814478435487109452369765200775161577472
     15740601075842375300797486998932411749631322407916266585063271206180101 2
     (46918586508776263133431909474253900356382052341747130018292921607120520, 48995937682665898232100429780)
     [SqMul 21464551429680932793384552181551396316380648453435039240343561204647735,
      SqMul 49275950780836634556775569215096717156061515233542807236960248678260449,
      Sq 89013486875885873210789914836854876982689353226665142531485462468499106,
      Sq 1214681154002728390837959366536734856723864069936793590504068776490050,
      SqMul 33220621270113463487528977390021638905258108194834886639715664811654082,
      SqMul 145093182543214160567046162073740382303436842715512017113952504841415407,
      SqMul 66164397366800386619864222720164547532554992791637811586785388090161712,
      SqMul 408449578001389948062768849297795154416046951736455757952957499093127143,
      SqMul 527572897734746207819765079685641179040928707135630901185794968058090,
      Sq 90833774417036698285292508667431789064418589113208443052031416617243045,
      SqMul 57938191148729619242909931099335874734618350630046369586156314959950375,
      Sq 4617858437010567990626494472177231882011363744197370384498755238653270,
      SqMul 194957069703151040026703554485455373584779052456050373417724007555688885,
      Sq 202162151169181986889064343107211261706237136631525002461779801123942165]
   = Some (53072002638256206696760401718638995221936714922431175139555783581918754, 802749442992798076634733441528810)"
  by (simp only: run_steps.simps reduce_cert_def check_range_def option.case if_True if_False
      simp_thms arith_simps rel_simps power_numeral pow.simps sqr.simps option.inject prod.inject
      numeral_plus_one one_plus_numeral one_add_one mult_zero_right add_0_left power_one mult_1_left mult_1_right
      cong: option.case_cong_weak if_weak_cong)

lemma side_p237_1: "2 ^ nat 802749442992798076634733441528810 mod 205115282021455665897114700593932402728804164701536103180137503955397371 = (53072002638256206696760401718638995221936714922431175139555783581918754::int)"
proof -
  have N: "205115282021455665897114700593932402728804164701536103180137503955397371 = 220855883097298041197912187592864814478435487109452369765200775161577472 - (15740601075842375300797486998932411749631322407916266585063271206180101::int)"
    by simp
  have s0: "(1::int) = 2 ^ nat 0 mod 205115282021455665897114700593932402728804164701536103180137503955397371 \<and> (0::int) \<le> 0"
    by simp
  note s1 = run_steps_power [OF N side_p237_1_1 conjunct2 [OF s0] conjunct1 [OF s0]]
  note s2 = run_steps_power [OF N side_p237_1_2 conjunct2 [OF s1] conjunct1 [OF s1]]
  note s3 = run_steps_power [OF N side_p237_1_3 conjunct2 [OF s2] conjunct1 [OF s2]]
  note s4 = run_steps_power [OF N side_p237_1_4 conjunct2 [OF s3] conjunct1 [OF s3]]
  note s5 = run_steps_power [OF N side_p237_1_5 conjunct2 [OF s4] conjunct1 [OF s4]]
  note s6 = run_steps_power [OF N side_p237_1_6 conjunct2 [OF s5] conjunct1 [OF s5]]
  note s7 = run_steps_power [OF N side_p237_1_7 conjunct2 [OF s6] conjunct1 [OF s6]]
  from conjunct1 [OF s7] show ?thesis by (rule sym)
qed

lemma prime_p237: "prime_int 205115282021455665897114700593932402728804164701536103180137503955397371"
proof (rule pocklington_1
    [where N = "205115282021455665897114700593932402728804164701536103180137503955397371"
       and a = 2
       and E = "205115282021455665897114700593932402728804164701536103180137503955397370"
       and qaa = "255515944373312847190720520512484175977"
       and maa = "802749442992798076634733441528810"
       and baa = "53072002638256206696760401718638995221936714922431175139555783581918754"
       and uaa = "81475874003799270243122483189086420723726815346591292526890606927317739"
       and vaa = "- 21081256147611433302736580915228063873871010806801427666805511047392446"])
  show "prime_int 255515944373312847190720520512484175977"
    by (rule prime_p128)
  show "1 < (205115282021455665897114700593932402728804164701536103180137503955397371::int)"
    by simp
  show "205115282021455665897114700593932402728804164701536103180137503955397371 < 255515944373312847190720520512484175977 * (255515944373312847190720520512484175977::int)"
    by simp
  show "2 ^ nat 205115282021455665897114700593932402728804164701536103180137503955397370 mod 205115282021455665897114700593932402728804164701536103180137503955397371 = (1::int)"
    by (rule fermat_p237)
  show "205115282021455665897114700593932402728804164701536103180137503955397370 = 205115282021455665897114700593932402728804164701536103180137503955397371 - (1::int)"
    by simp
  show "205115282021455665897114700593932402728804164701536103180137503955397370 = 255515944373312847190720520512484175977 * (802749442992798076634733441528810::int)"
    by simp
  show "2 ^ nat 802749442992798076634733441528810 mod 205115282021455665897114700593932402728804164701536103180137503955397371 = (53072002638256206696760401718638995221936714922431175139555783581918754::int)"
    by (rule side_p237_1)
  show "81475874003799270243122483189086420723726815346591292526890606927317739 * (53072002638256206696760401718638995221936714922431175139555783581918754 - 1) + (- 21081256147611433302736580915228063873871010806801427666805511047392446) * 205115282021455665897114700593932402728804164701536103180137503955397371 = (1::int)"
    by simp
qed

lemma fermat_p256_1:
  "run_steps 115792089237316195423570985008687907853269984665640564039457584007908834671663
     115792089237316195423570985008687907853269984665640564039457584007913129639936
     4294968273 2
     (1, 0)
     [SqMul 0, SqMul 0, SqMul 0, SqMul 0, SqMul 0, SqMul 0, SqMul 0, SqMul 0,
      SqMul 57896044618658097711785492504343953926634992332820282019728792003958712304104,
      SqMul 57896044618658097711785492504343953926634992332820282019747238756420493938360,
      SqMul 57896044618658097711785492504343953926975275009364985236666263044929866531673,
      SqMul 191733925859282211156339137648074101236655683645100040048981223458,
      SqMul 3479299995325037294270714017582149554998020012666969101372256378455157049226,
      SqMul 2084115547771483966489872826676558115167201331547285681092539866741003263156,
      SqMul 2274024517442077631168907306112328304783790453564140698256195846062859907478,
      SqMul 4544090899741961069734631912806891468177832971808686646708126754797449936242]
   = Some (2936500183567408222125474156845761782659474244297202704644095361919068391386, 65535)"
  by (simp only: run_steps.simps reduce_cert_def check_range_def option.case if_True if_False
      simp_thms arith_simps rel_simps power_numeral pow.simps sqr.simps option.inject prod.inject
      numeral_plus_one one_plus_numeral one_add_one mult_zero_right add_0_left power_one mult_1_left mult_1_right
      cong: option.case_cong_weak if_weak_cong)

lemma fermat_p256_2:
  "run_steps 115792089237316195423570985008687907853269984665640564039457584007908834671663
     115792089237316195423570985008687907853269984665640564039457584007913129639936
     4294968273 2
     (2936500183567408222125474156845761782659474244297202704644095361919068391386, 65535)
     [SqMul 148939938555189075192646683418811891030559801033264870989773302449230566975,
      SqMul 21296076735462472869592917548577711775016209293050382675873384161851707045766,
      SqMul 142292048329728953930858444767088038140758114176067495323462857728669259147462,
      SqMul 497256285122008699688603163980846950527955688924451119774507495389960761076,
      SqMul 665115866344547317608107933788058695626054696652395261219089119228545989878,
      SqMul 196752545933732859348603738527453062496992783911947706771110197560933931307464,
      SqMul 50701744751391904636149688403521414081706576210556676199794508760536183089896,
      SqMul 26946049334872766458315236271673117257321082140843187871262369646879500093671,
      SqMul 26711826770554128360666826838312546833764966758945259846477460517656202153631,
      SqMul 56158775346112996347003397101467042914784980956959687199575248255747906984734,
      SqMul 221956888644241907510158087289661879466772039941502877244787509056733033273094,
      SqMul 40149506071553642911344371761258863082503552330018288745805307615655602963150,
      SqMul 195620155533545576947759960245741290009271600163754604040199874144588177750942,
      SqMul 242825041468182886756081794299992206332385683934550653280421674053459090,
      SqMul 24535978480079890689219684588565833447760419045219422541882926633616702594032,
      SqMul 128164409487559369067463830956488936613096414482255414012066305463137516028151]
   = Some (38667115647482625339401615010752795509557025790990286015371812895560879695655, 4294967295)"
  by (simp only: run_steps.simps reduce_cert_def check_range_def option.case if_True if_False
      simp_thms arith_simps rel_simps power_numeral pow.simps sqr.simps option.inject prod.inject
      numeral_plus_one one_plus_numeral one_add_one mult_zero_right add_0_left power_one mult_1_left mult_1_right
      cong: option.case_cong_weak if_weak_cong)

lemma fermat_p256_3:
  "run_steps 115792089237316195423570985008687907853269984665640564039457584007908834671663
     115792089237316195423570985008687907853269984665640564039457584007913129639936
     4294968273 2
     (38667115647482625339401615010752795509557025790990286015371812895560879695655, 4294967295)
     [SqMul 25824662847761392760973070190966405615698725256986303512456496951328548354406,
      SqMul 84750119381591989992523820284898543558504324779696446786584934391331794715968,
      SqMul 12752085803378793769331030224321062285934803628788097516334739266735266631209,
      SqMul 5904282986561024932868112453227566460360145860897858113871721540254209635955,
      SqMul 198830727365389659673913456748259600917520049365398782482683008734023370809986,
      SqMul 138308561341498886837200824436282385237182954885466183386360722878059675245959,
      SqMul 24158570869824504776483251549382325930724574239082722107361951882728120691086,
      SqMul 127332796429168121529541662017575196282796946953054019337145779902860145193348,
      SqMul 88770105212657964006606315905208912732643255683824257585441497971144477728862,
      SqMul 36223974772028939653623036063696542748051540306512803526969606480874675285250,
      SqMul 186760115348689734103375150905923378610233612453977459872588628667027833758838,
      SqMul 134437500688803067764433190330534774753192375509720011515706683447275239395549,
      SqMul 208754645330824799158357252308625651050843864832895137405135336645848301024380,
      SqMul 126259573662177952168455493342563169818509065491242370508967275686730416648315,
      SqMul 18790467566127820868130386956063323499902468348958712025700356095000191851830,
      SqMul 67000445099457295684477041152565599827289373009351759523406212589893342181442]
   = Some (27269766629439958184047212264844381427940266507323045095006346235951556397154, 281474976710655)"
  by (simp only: run_steps.simps reduce_cert_def check_range_def option.case if_True if_False
      simp_thms arith_simps rel_simps power_numeral pow.simps sqr.simps option.inject prod.inject
      numeral_plus_one one_plus_numeral one_add_one mult_zero_right add_0_left power_one mult_1_left mult_1_right
      cong: option.case_cong_weak if_weak_cong)

lemma fermat_p256_4:
  "run_steps 115792089237316195423570985008687907853269984665640564039457584007908834671663
     115792089237316195423570985008687907853269984665640564039457584007913129639936
     4294968273 2
     (27269766629439958184047212264844381427940266507323045095006346235951556397154, 281474976710655)
     [SqMul 12844403739879407886594601300259240228275888964288993652428073543502687126210,
      SqMul 106716595006983448872780477438543486398358722224770443081346262370622979302462,
      SqMul 158697548787151684126552424123218415355629814273678286203300808757111173249117,
      SqMul 475702822683530960857467179478342500129740588949651398002096674658877831623,
      SqMul 89223766126649988248740889321218088129395693645578555170834979703004356056275,
      SqMul 1244453775595976963198045151804057241531443128680142010678599706026558562412,
      SqMul 102183937858418619803252862046695077560910018383778350190036032473524614968470,
      SqMul 68585079403120499639703096322306079167607040959015593794597224683597450590560,
      SqMul 183897538911529925332490997348189103040489349427863033536783475473661866194769,
      SqMul 153318284079096262767117149535729349143325755010881205431493516097823950304206,
      SqMul 6550074268016026410664747481931215912311104507145116043811659645940009802875,
      SqMul 132557270972724974250451922775206596642381716408724561299207418273230950873833,
      SqMul 11524642529669343050612860413370625791272406524867007132696275191352991493623,
      SqMul 121447378155077022445803394325305341946087946171826361614882873455618796623038,
      SqMul 25576718707291031193532252605647539587554132391112938316708037540729262652696,
      SqMul 175869280171756655827617273201926200768572169150699893581391528547162971641895]
   = Some (18507222965232774561062459167856143197961899988306088005718110816602142204247, 18446744073709551615)"
  by (simp only: run_steps.simps reduce_cert_def check_range_def option.case if_True if_False
      simp_thms arith_simps rel_simps power_numeral pow.simps sqr.simps option.inject prod.inject
      numeral_plus_one one_plus_numeral one_add_one mult_zero_right add_0_left power_one mult_1_left mult_1_right
      cong: option.case_cong_weak if_weak_cong)

lemma fermat_p256_5:
  "run_steps 115792089237316195423570985008687907853269984665640564039457584007908834671663
     115792089237316195423570985008687907853269984665640564039457584007913129639936
     4294968273 2
     (18507222965232774561062459167856143197961899988306088005718110816602142204247, 18446744073709551615)
     [SqMul 5916074304227282569678759223208418775558584515171320223862861417555565191813,
      SqMul 129534386358869482717662803928220253405694890037060532991816022221049357500319,
      SqMul 79606326451976618321674319009135867066633774184807762979413611715539276500480,
      SqMul 183014616762894104002875019076431443365498510490067187614237325010248734799638,
      SqMul 18808864777210487408373877212176070976198505582173311742385344060148081598170,
      SqMul 73685443897448020202054586757812595259213170222326090841417852174828569000432,
      SqMul 111846335095498532896161362326731801636288209387718495049216237755255810950222,
      SqMul 192075075490582476622188733509823976226063879773001039563071518872058683367804,
      SqMul 56221244582652160646440740600480224305071410340600847917458621856627145633285,
      SqMul 188945459610444754433865839241467342055439900035654591636241694063227138609488,
      SqMul 70401589488989436154041985798236487442442284122706798766057696261136297083482,
      SqMul 37051928148926863927839823605257279434988633487141815176561285873873698501752,
      SqMul 19217622503522588834871586781448628123761476362659251167024142778125132720979,
      SqMul 12741152831189208856423149863980541849665841165796506291273384296383650742969,
      SqMul 211080957576990775885272352658574478155318605765835294418680065004502664006209,
      SqMul 166454336127713080652026463415213660530702978960103428951903101188191854828024]
   = Some (26526060942607810645553652460289269746240658556566167549466962781744767281290, 1208925819614629174706175)"
  by (simp only: run_steps.simps reduce_cert_def check_range_def option.case if_True if_False
      simp_thms arith_simps rel_simps power_numeral pow.simps sqr.simps option.inject prod.inject
      numeral_plus_one one_plus_numeral one_add_one mult_zero_right add_0_left power_one mult_1_left mult_1_right
      cong: option.case_cong_weak if_weak_cong)

lemma fermat_p256_6:
  "run_steps 115792089237316195423570985008687907853269984665640564039457584007908834671663
     115792089237316195423570985008687907853269984665640564039457584007913129639936
     4294968273 2
     (26526060942607810645553652460289269746240658556566167549466962781744767281290, 1208925819614629174706175)
     [SqMul 12153367535995453008906063951932759233438343563640607879992319867096240772401,
      SqMul 15654828887358745802387019242100327616404330500643627541806396358199592452324,
      SqMul 154174680638190732388604613172569281764982124280357018675329282664810127966102,
      SqMul 2602961469823843348094386638171654308514711139503270756353742483275859451922,
      SqMul 60433030184736316981417506259577036464530995756218447044124099499465784536426,
      SqMul 5697738181087428833836185000368508187615461801560534467614055037490335032865,
      SqMul 47197921395611741057640694065364932339968211254070422620806130177405877547835,
      SqMul 195693241786310998168653286892998000396024347509215362965221429023446372663754,
      SqMul 24480532649709731913434181017309309403346979186940485549653590326630270989681,
      SqMul 181823381744305353606698492480426188444726091509338768516769915985515442463039,
      SqMul 13428820403250900978522626779740519571064038623514684197068628586685647608796,
      SqMul 145696117687748800971019418166023143006342426411968260939019801088197579961686,
      SqMul 221668259314743256403252055930279519495373361739129036666813405663482429507402,
      SqMul 146571692326440510343714656023028411068154350815914286087576800139090062748430,
      SqMul 39094081803869540105620028452792885907236470831558905962680451831127311737062,
      SqMul 22694652017452329483326609851328510188565163976708222137293897912289227065616]
   = Some (114381444107112283422456762154614765621302132902559126913601013370933708063640, 79228162514264337593543950335)"
  by (simp only: run_steps.simps reduce_cert_def check_range_def option.case if_True if_False
      simp_thms arith_simps rel_simps power_numeral pow.simps sqr.simps option.inject prod.inject
      numeral_plus_one one_plus_numeral one_add_one mult_zero_right add_0_left power_one mult_1_left mult_1_right
      cong: option.case_cong_weak if_weak_cong)

lemma fermat_p256_7:
  "run_steps 115792089237316195423570985008687907853269984665640564039457584007908834671663
     115792089237316195423570985008687907853269984665640564039457584007913129639936
     4294968273 2
     (114381444107112283422456762154614765621302132902559126913601013370933708063640, 79228162514264337593543950335)
     [SqMul 225975968517410075477860447883470537337343777134336855093141403521512194775955,
      SqMul 185362236043989592381214465792412601846100301895680120937525425540323515474449,
      SqMul 28723604082316823000471575147529066054776609188685355257091675748455247650803,
      SqMul 40408988083622155767841550877887790604515603119010180188503758200175479575676,
      SqMul 4475727347812893795726522469932978588361076616215057751365607153083732827050,
      SqMul 180694336198879822648398854669784266659833753064078847640685397495415305707430,
      SqMul 85513513737236760680914458138280749140007244015175962224304590351379028898666,
      SqMul 78783275310139173698169517747727393324128960873897415839991070976564757924814,
      SqMul 11580153272532667169586380725149973190418915138804568451104986829990620984899,
      SqMul 80141106914182300574188457450506116635261088776672649521141951132346135705965,
      SqMul 8057491524550262529986879753021480838430581525042631957428477743315708206914,
      SqMul 7838747130272471891172658965067115123551434324073513657453601038062641183818,
      SqMul 11809315186459658278641770493878103183151699898694396215409932129818075035718,
      SqMul 219676806217117030710938915818757631454411294485628663136880617042430244565,
      SqMul 162119366892515058756722166370608378531927160327385039516852932507167793052665,
      SqMul 3864259732953321893786128540044034504136831110266389704313533538531936440663]
   = Some (25911035428061070252871307859416733759501917055652892630082147974415529347769, 5192296858534827628530496329220095)"
  by (simp only: run_steps.simps reduce_cert_def check_range_def option.case if_True if_False
      simp_thms arith_simps rel_simps power_numeral pow.simps sqr.simps option.inject prod.inject
      numeral_plus_one one_plus_numeral one_add_one mult_zero_right add_0_left power_one mult_1_left mult_1_right
      cong: option.case_cong_weak if_weak_cong)

lemma fermat_p256_8:
  "run_steps 115792089237316195423570985008687907853269984665640564039457584007908834671663
     115792089237316195423570985008687907853269984665640564039457584007913129639936
     4294968273 2
     (25911035428061070252871307859416733759501917055652892630082147974415529347769, 5192296858534827628530496329220095)
     [SqMul 11596332035744466625173662521737104627640210062870994521251705465994659654707,
      SqMul 126786456498337720868105502688562412829196655002871365218957630954122596095115,
      SqMul 118036626674138181610932852242996443239383149368309735705172068141919754673680,
      SqMul 152462025100443820563271210277446381027609380643165789083731734727699436526547,
      SqMul 5105195988550390891816652763437911576132773086642064134113479934534867968461,
      SqMul 1889540651774748623446605114037010289797071070685587096526244480243788758801,
      SqMul 9811732269816898811430309902796387325727104291201252671138438586544791464336,
      SqMul 82468267622992750282906071345638686905182127985806095216811017760914029167452,
      SqMul 66273505888596073971483316407804158381602584199695385398655984525300746928902,
      SqMul 180301277789745331339325520429870265269872634727440778080234598789383440856196,
      SqMul 154790785472396220997952396241126973061724511536334940430004591108713941282634,
      SqMul 208020965794274933218650575647291681273897984639413625313815304160413175220649,
      SqMul 33836884409151883115162999834388551532214789563135460267315428560179156762467,
      SqMul 41402176182900016277211674459344478278243358971584213350270716939372132621837,
      SqMul 3904010231816515890676075210649730439020154514564740769709968007382997604527,
      SqMul 14379285232809244029005033685852583660704069099936522476856175441143271806232]
   = Some (111319014054304592461709486433804117476826412392513378989166737838522867515162, 340282366920938463463374607431768211455)"
  by (simp only: run_steps.simps reduce_cert_def check_range_def option.case if_True if_False
      simp_thms arith_simps rel_simps power_numeral pow.simps sqr.simps option.inject prod.inject
      numeral_plus_one one_plus_numeral one_add_one mult_zero_right add_0_left power_one mult_1_left mult_1_right
      cong: option.case_cong_weak if_weak_cong)

lemma fermat_p256_9:
  "run_steps 115792089237316195423570985008687907853269984665640564039457584007908834671663
     115792089237316195423570985008687907853269984665640564039457584007913129639936
     4294968273 2
     (111319014054304592461709486433804117476826412392513378989166737838522867515162, 340282366920938463463374607431768211455)
     [SqMul 214037469599934144001760807075545246514862174819651939357535132004007841979223,
      SqMul 3735271771496356480960222837622687492095566001905268144269510315299065599602,
      SqMul 13562618273989116738283873040628973736413408678154634389328874642724527634756,
      SqMul 127790482238147625978981508514426996401427134331056103607781011152886149698698,
      SqMul 46633464254000339457229504128391840558459842816334759013030810294477877677552,
      SqMul 28957251966809495790910905324450868564239194254933405781681658634256673866023,
      SqMul 85022176984684110719457190044557441010282474397853153122037434663190581683944,
      SqMul 6213954028082938749538416580860697521385676718302499938039383299763632095609,
      SqMul 142001222003013567620086451818973008800577759013167260096685092526407098354742,
      SqMul 195598163351822685953343153890617973665134743536442077136379387466067039255454,
      SqMul 177671129867564005753461355116958284955362191159301757878617839974205709886452,
      SqMul 12806911293281004091557141835873691985631108014131603738019141516961931899947,
      SqMul 25005159485846483299214818947064997069868505503631098075596717197074017953,
      SqMul 13306107607300926343535525441990958819015831418359080741433007445256402614557,
      SqMul 20972961398742364698087405931960716684042561828125399547888788140982142112704,
      SqMul 180946552171224104969178945552562439701042045970744138334197962825748840400698]
   = Some (113766369464852146840759803767888550419584760124894365113508394279777507904098, 22300745198530623141535718272648361505980415)"
  by (simp only: run_steps.simps reduce_cert_def check_range_def option.case if_True if_False
      simp_thms arith_simps rel_simps power_numeral pow.simps sqr.simps option.inject prod.inject
      numeral_plus_one one_plus_numeral one_add_one mult_zero_right add_0_left power_one mult_1_left mult_1_right
      cong: option.case_cong_weak if_weak_cong)

lemma fermat_p256_10:
  "run_steps 115792089237316195423570985008687907853269984665640564039457584007908834671663
     115792089237316195423570985008687907853269984665640564039457584007913129639936
     4294968273 2
     (113766369464852146840759803767888550419584760124894365113508394279777507904098, 22300745198530623141535718272648361505980415)
     [SqMul 223552177121305184767871986498457471802692184756851083232706416041613329233656,
      SqMul 15287569632851144737143037135902024975764912439426967223997190680589362767877,
      SqMul 1194085440653973510618906985576082431307532032202253069685084461515319399669,
      SqMul 98944839214115938670967121110631020633783119329353389754060836565208358830068,
      SqMul 125154584350784768002198193623776225985645778752950574583160377322891785363841,
      SqMul 217923267256269851115975293303928810753862507666651258335137719185947824075840,
      SqMul 161405965147184921919228004664205027388562380029022376466243303360808625447623,
      SqMul 61737081355141706672462335097861169225454665838149914485156625000017880784742,
      SqMul 91001864840745765537269580144940686894355409667656392527363989118095902329903,
      SqMul 13250066346487966614555495735280569593707661617010357076991296390860275660177,
      SqMul 38644850449204428923812475190899030529567554147295708948587802276970736080189,
      SqMul 150793000331474353299245836892370447624960655641201476665087499578816504933885,
      SqMul 11347367313100869485485021261938105368579748217060120707100638271011331292490,
      SqMul 133000103186031816444504058475696761234027817685340376541541440024643006773766,
      SqMul 28857271933527853785932621990576557487411311866524681323962565022081378149212,
      SqMul 6024948755245439552288182646207368465949228621812458629543931312306700201469]
   = Some (36198160868093001790758214775592171040958086667692252892282212973911810404525, 1461501637330902918203684832716283019655932542975)"
  by (simp only: run_steps.simps reduce_cert_def check_range_def option.case if_True if_False
      simp_thms arith_simps rel_simps power_numeral pow.simps sqr.simps option.inject prod.inject
      numeral_plus_one one_plus_numeral one_add_one mult_zero_right add_0_left power_one mult_1_left mult_1_right
      cong: option.case_cong_weak if_weak_cong)

lemma fermat_p256_11:
  "run_steps 115792089237316195423570985008687907853269984665640564039457584007908834671663
     115792089237316195423570985008687907853269984665640564039457584007913129639936
     4294968273 2
     (36198160868093001790758214775592171040958086667692252892282212973911810404525, 1461501637330902918203684832716283019655932542975)
     [SqMul 22632061635002752564287119326650411197279080374228230846930900228698107970497,
      SqMul 35369468090285779309575410951999233098569976243342476941258871054597522910133,
      SqMul 33030052563617033788607923359502971558994553465724110633760658547547036758187,
      SqMul 60937834083791991108212688434773036855543824171108944557533729448543166093465,
      SqMul 86832153111810430545498372549844210294062274163704319072204900559705643434313,
      SqMul 6821436518102679946469627629407267286067070091713968890411528063726603196097,
      SqMul 216445143739082155902525623299421293726949754157948709135023147708140726396915,
      SqMul 30009435456466707295318702725508404385947862131308122394631986378738796351874,
      SqMul 44123393425809957895686210506958686024006595057315171349198704230353947421447,
      SqMul 63487263211510727555205852195238272285457788512375306202282479354976617029948,
      SqMul 83730515345180438866507259786708768121084576999910265179961858370601892759,
      SqMul 3887008478282312829522044889005925930134625252385095069487592809574664580464,
      SqMul 97677970204806160582819779770938792390079899639020870056802699732757769200489,
      SqMul 221691725445551825608035049600656022000898168287289453711043098371463954446503,
      SqMul 231581856941694453976285178043790348342831825879878141234536884578881694004259,
      SqMul 47924174670289133015264905454268622058322637863159166359468781953201796731343]
   = Some (48280437862413394384351668935292926109435972115935387492424171402955671686641, 95780971304118053647396689196894323976171195136475135)"
  by (simp only: run_steps.simps reduce_cert_def check_range_def option.case if_True if_False
      simp_thms arith_simps rel_simps power_numeral pow.simps sqr.simps option.inject prod.inject
      numeral_plus_one one_plus_numeral one_add_one mult_zero_right add_0_left power_one mult_1_left mult_1_right
      cong: option.case_cong_weak if_weak_cong)

lemma fermat_p256_12:
  "run_steps 115792089237316195423570985008687907853269984665640564039457584007908834671663
     115792089237316195423570985008687907853269984665640564039457584007913129639936
     4294968273 2
     (48280437862413394384351668935292926109435972115935387492424171402955671686641, 95780971304118053647396689196894323976171195136475135)
     [SqMul 40261829552258423280530315911674913464951763130366429955271447224941345926082,
      SqMul 36186271376255571019276071042220755030862948675449796352462876829507929431688,
      SqMul 39174502976800949093837664833573937305174874423189979806130688893129895850890,
      SqMul 2123505759259437910897095500572221804287353302500725139355224698526993851162,
      SqMul 27986780070724366271598956583517818695519923141287513353039456422127072619648,
      SqMul 16682589602809264478663208446166033321142146396914274184501346241376618765,
      SqMul 159346894259155179996090089198393673886996784954934435543189779718139088860734,
      SqMul 11299618203149780644854616922426080437086255063370836061484318729939233652828,
      SqMul 76259830703205676439443935356593370050355445159801353310155048350429966107818,
      SqMul 174668368363490884410197608430733545726674233624696798094076460986942167240448,
      SqMul 101389712267371952263608343540199519716048854305874334651209316790900118514316,
      SqMul 13517211950803314707662797367221208782359189098023193814681465196521132053233,
      SqMul 54567026618689198875570923698540738984119662076254468709131434782205958665234,
      SqMul 2261538972530181736019634167763535275190091286418328140889784533033033131085,
      SqMul 18897670570033619267212707653251801780204645599989283566283439483746604419023,
      SqMul 218742628639764614264543104927386205118485374800315084733249279260053054329997]
   = Some (29738528903288335497137486039524440777578372181943345756214162002207537796191, 6277101735386680763835789423207666416102355444464034512895)"
  by (simp only: run_steps.simps reduce_cert_def check_range_def option.case if_True if_False
      simp_thms arith_simps rel_simps power_numeral pow.simps sqr.simps option.inject prod.inject
      numeral_plus_one one_plus_numeral one_add_one mult_zero_right add_0_left power_one mult_1_left mult_1_right
      cong: option.case_cong_weak if_weak_cong)

lemma fermat_p256_13:
  "run_steps 115792089237316195423570985008687907853269984665640564039457584007908834671663
     115792089237316195423570985008687907853269984665640564039457584007913129639936
     4294968273 2
     (29738528903288335497137486039524440777578372181943345756214162002207537796191, 6277101735386680763835789423207666416102355444464034512895)
     [SqMul 15275311243744403925585833088582153157238118162777608597144332190565345666698,
      SqMul 27537067493928954944858825922439365270676552328383588943965648519056996683338,
      SqMul 8564606620068465498812649652034691733061548758817667402003696380179080045315,
      SqMul 61279753052690265722900977789865477331462156099576232414780720368664847689717,
      SqMul 4331973139023814591322145795197234915784756273246118260358730998072207785446,
      SqMul 6956682256397994278352028955104601110437510252954846065774281873288380256887,
      SqMul 59656514056887626374434630484870205141838770100789771271416805900731269092073,
      SqMul 120133330620468531050611300152177527902412603465711075298151709234080009842762,
      SqMul 107366679387629680097979896293649582206493477085232038446785894450809062757038,
      SqMul 92005940616411218492496154745961240154303006793982014291690924314406075923422,
      SqMul 726844032135183240900902475469819443753987725040440829193896933061267770310,
      SqMul 16058496558410532000754009499984357247544338972368796672903859580552141367850,
      SqMul 14069304386941661769941457689326752130403891488948614120030300598922294281069,
      SqMul 29993584634069765238076252632428037902349556187068607604334056295133287798034,
      SqMul 127950166905460040206369904026022106532033435575496475726463339336518211474512,
      SqMul 214775551381196165115074028060902686343630071763784709529826735349878279897021]
   = Some (54449037838773018637439903580484399476534019839436711774363995814441589187149, 411376139330301510538742295639337626245683966408394965837152255)"
  by (simp only: run_steps.simps reduce_cert_def check_range_def option.case if_True if_False
      simp_thms arith_simps rel_simps power_numeral pow.simps sqr.simps option.inject prod.inject
      numeral_plus_one one_plus_numeral one_add_one mult_zero_right add_0_left power_one mult_1_left mult_1_right
      cong: option.case_cong_weak if_weak_cong)

lemma fermat_p256_14:
  "run_steps 115792089237316195423570985008687907853269984665640564039457584007908834671663
     115792089237316195423570985008687907853269984665640564039457584007913129639936
     4294968273 2
     (54449037838773018637439903580484399476534019839436711774363995814441589187149, 411376139330301510538742295639337626245683966408394965837152255)
     [SqMul 51207258476733761603326043503059064383736345636235522271030139038838851528039,
      SqMul 122447809365846724285687945587826961602544223839365685548751652520021477304255,
      SqMul 54829202966907888007735273437956914067078728323552051141556345819507361469232,
      SqMul 197828485971118332641591700716302981975172640254146551081437331679066987093360,
      SqMul 49869407432405359852589199263380681283059989450087905939315954462604152374772,
      SqMul 230573876905944253581740143276147277757039306536687051753647391296343841912026,
      SqMul 79993635316702207246794226444269016554094308533034664851271101758041639224014,
      SqMul 931158980053965070098380691182273276696404415226889605405988430134623235871,
      SqMul 115608877259861409166776895746937886443490127582381803018465643530640242115638,
      SqMul 50355021559872207072157763626262567218887856491556721937832413635318824973042,
      SqMul 32682877836888326112490901683413680780231584179311197989837647677145898321068,
      SqMul 62663036377244200875529856911221756081903923931478646495745384183924994957310,
      SqMul 31886453258633954857222254307756075059988274574074901289360734303996905252783,
      SqMul 140640551256823380825819790772299535727429441623789781634603348175119264937877,
      SqMul 24952219340242554848733290950881932438056796735863183075166458695760246084437,
      Sq 33782492104521368107716044977476394725625721248224687800227102854624022976674]
   = Some (82768325391086116246389221303387479985499889384464959230534842140569223185139, 26959946667150639794667015087019630673637144422540572481103610249214)"
  by (simp only: run_steps.simps reduce_cert_def check_range_def option.case if_True if_False
      simp_thms arith_simps rel_simps power_numeral pow.simps sqr.simps option.inject prod.inject
      numeral_plus_one one_plus_numeral one_add_one mult_zero_right add_0_left power_one mult_1_left mult_1_right
      cong: option.case_cong_weak if_weak_cong)

lemma fermat_p256_15:
  "run_steps 115792089237316195423570985008687907853269984665640564039457584007908834671663
     115792089237316195423570985008687907853269984665640564039457584007913129639936
     4294968273 2
     (82768325391086116246389221303387479985499889384464959230534842140569223185139, 26959946667150639794667015087019630673637144422540572481103610249214)
     [SqMul 118325798129514643813175232468002237302173359193256011599056519329408745718309,
      SqMul 40492906827035800393208768111148292792839850265603686379793074735049791326015,
      SqMul 185831085273117502755469345314950961000489929117019960400295727787501462443505,
      SqMul 1173698455405489032344363980428190071978672073019199064641776851943514189414,
      SqMul 2988742422371399863482662921509397811719596271011892107799672491230140331094,
      SqMul 84181707494226078824927925748746612958219228812974838513335581378876589814988,
      SqMul 198585853060903544767572585460687860118578709963310719157262916531150564236115,
      SqMul 355540147947193588053186787622379599201092171518626879785330317778846163840,
      SqMul 216951917038901136952809682048689381305578699029046054477635614882173840490846,
      SqMul 30435048629922496468064941479261701884196025294849766693831244559145742255971,
      SqMul 44680375268365851278880111989496708122808920997389967731525276939568505611898,
      SqMul 13517011430396724707692701202374244677012938177905505173459678977714639711160,
      SqMul 2718978315472873307070075470983710191455533863196743766845830809967697006595,
      SqMul 114892769170852500932147455361314897965994813489091514598480175845805843739797,
      SqMul 32486107205331475659531503704782479614053088651446738070168390164658919653372,
      SqMul 144110666348020230743111329331761997843123592075196821461461055759684576658484]
   = Some (98749609049907824139029176440162802771768091660003364093829125866996493764476, 1766847064778384329583297500742918515827483896875618958121606201292554239)"
  by (simp only: run_steps.simps reduce_cert_def check_range_def option.case if_True if_False
      simp_thms arith_simps rel_simps power_numeral pow.simps sqr.simps option.inject prod.inject
      numeral_plus_one one_plus_numeral one_add_one mult_zero_right add_0_left power_one mult_1_left mult_1_right
      cong: option.case_cong_weak if_weak_cong)

lemma fermat_p256_16:
  "run_steps 115792089237316195423570985008687907853269984665640564039457584007908834671663
     115792089237316195423570985008687907853269984665640564039457584007913129639936
     4294968273 2
     (98749609049907824139029176440162802771768091660003364093829125866996493764476, 1766847064778384329583297500742918515827483896875618958121606201292554239)
     [SqMul 168430941210913677568041517622722077108807499532039457208418620069971151218799,
      SqMul 57177816944822469547435605443635446335640469658959287705949590005006393845314,
      SqMul 4769333396579453629460512263385784178692518916660148392185183316541628514894,
      SqMul 19752910327321013645662116772965228678422040242985883247477074458943547343816,
      SqMul 29194123139390130515686473447381414116982875501555005790925649771061601407277,
      SqMul 116126820724395885299929494672627548632489912490226266027515416415106733138871,
      Sq 99210550218491313733540592924348827676119429807073337914277538651984428701677,
      Sq 402521172972215221790773084671023862548303858878328703629215885779035279441,
      Sq 9908028405210091701196683365924175232348377183541219998694055989579921944465,
      Sq 18598966827239302454374379029021240980085656337376846012114640683249989966583,
      SqMul 189441303219054949471057724795583340376405565577387368883306055552356153039420,
      Sq 16546885424113875933544317219353049524099174711347093869468422397600714504801,
      SqMul 135185955730794314005313568313446752228901389008426761961643443706925622733618,
      SqMul 224071035630201721444458009425375975494265889765621366112028905583799873341571,
      SqMul 73809297130346833852866391322610647691648224775990211554258346765949831303423, Sq 0]
   = Some (1, 115792089237316195423570985008687907853269984665640564039457584007908834671662)"
  by (simp only: run_steps.simps reduce_cert_def check_range_def option.case if_True if_False
      simp_thms arith_simps rel_simps power_numeral pow.simps sqr.simps option.inject prod.inject
      numeral_plus_one one_plus_numeral one_add_one mult_zero_right add_0_left power_one mult_1_left mult_1_right
      cong: option.case_cong_weak if_weak_cong)

lemma fermat_p256: "2 ^ nat 115792089237316195423570985008687907853269984665640564039457584007908834671662 mod 115792089237316195423570985008687907853269984665640564039457584007908834671663 = (1::int)"
proof -
  have N: "115792089237316195423570985008687907853269984665640564039457584007908834671663 = 115792089237316195423570985008687907853269984665640564039457584007913129639936 - (4294968273::int)"
    by simp
  have s0: "(1::int) = 2 ^ nat 0 mod 115792089237316195423570985008687907853269984665640564039457584007908834671663 \<and> (0::int) \<le> 0"
    by simp
  note s1 = run_steps_power [OF N fermat_p256_1 conjunct2 [OF s0] conjunct1 [OF s0]]
  note s2 = run_steps_power [OF N fermat_p256_2 conjunct2 [OF s1] conjunct1 [OF s1]]
  note s3 = run_steps_power [OF N fermat_p256_3 conjunct2 [OF s2] conjunct1 [OF s2]]
  note s4 = run_steps_power [OF N fermat_p256_4 conjunct2 [OF s3] conjunct1 [OF s3]]
  note s5 = run_steps_power [OF N fermat_p256_5 conjunct2 [OF s4] conjunct1 [OF s4]]
  note s6 = run_steps_power [OF N fermat_p256_6 conjunct2 [OF s5] conjunct1 [OF s5]]
  note s7 = run_steps_power [OF N fermat_p256_7 conjunct2 [OF s6] conjunct1 [OF s6]]
  note s8 = run_steps_power [OF N fermat_p256_8 conjunct2 [OF s7] conjunct1 [OF s7]]
  note s9 = run_steps_power [OF N fermat_p256_9 conjunct2 [OF s8] conjunct1 [OF s8]]
  note s10 = run_steps_power [OF N fermat_p256_10 conjunct2 [OF s9] conjunct1 [OF s9]]
  note s11 = run_steps_power [OF N fermat_p256_11 conjunct2 [OF s10] conjunct1 [OF s10]]
  note s12 = run_steps_power [OF N fermat_p256_12 conjunct2 [OF s11] conjunct1 [OF s11]]
  note s13 = run_steps_power [OF N fermat_p256_13 conjunct2 [OF s12] conjunct1 [OF s12]]
  note s14 = run_steps_power [OF N fermat_p256_14 conjunct2 [OF s13] conjunct1 [OF s13]]
  note s15 = run_steps_power [OF N fermat_p256_15 conjunct2 [OF s14] conjunct1 [OF s14]]
  note s16 = run_steps_power [OF N fermat_p256_16 conjunct2 [OF s15] conjunct1 [OF s15]]
  from conjunct1 [OF s16] show ?thesis by (rule sym)
qed

lemma side_p256_1_1:
  "run_steps 115792089237316195423570985008687907853269984665640564039457584007908834671663
     115792089237316195423570985008687907853269984665640564039457584007913129639936
     4294968273 2
     (1, 0)
     [SqMul 0, Sq 0, Sq 0, Sq 0, SqMul 0, Sq 0, Sq 0, SqMul 0, SqMul 524288, SqMul 0, Sq 0,
      SqMul 182688037122500036178338250748691612996167603899,
      Sq 74674419781550446515383349898116450519865848479614672217550059922380635294746,
      Sq 115427913087193657726105552836911613169781942902559006794696555332514814213525,
      SqMul 159100229011232436113792329002084839369661327631278245839350777496668518396173,
      Sq 12952968683930235282050249031635751058312099753835029153843181154087031930953]
   = Some (16107066586898463587146003280380922661014007063717802271896887586269309272050, 35282)"
  by (simp only: run_steps.simps reduce_cert_def check_range_def option.case if_True if_False
      simp_thms arith_simps rel_simps power_numeral pow.simps sqr.simps option.inject prod.inject
      numeral_plus_one one_plus_numeral one_add_one mult_zero_right add_0_left power_one mult_1_left mult_1_right
      cong: option.case_cong_weak if_weak_cong)

lemma side_p256_1_2:
  "run_steps 115792089237316195423570985008687907853269984665640564039457584007908834671663
     115792089237316195423570985008687907853269984665640564039457584007913129639936
     4294968273 2
     (16107066586898463587146003280380922661014007063717802271896887586269309272050, 35282)
     [SqMul 4481093583225066106016043012510019839169269054936365452464505059403782200199,
      Sq 19555290813972346060461496320810833008241925042775741612844417871596092292478,
      SqMul 166174418488242487781012314481681267009913319288638976822631400923580132163166,
      Sq 1232093041507727189940228482212970523878674031206717103614127063491821272336]
   = Some (30133174243114333125352536507925183895021889065932097717961225114769139489296, 564522)"
  by (simp only: run_steps.simps reduce_cert_def check_range_def option.case if_True if_False
      simp_thms arith_simps rel_simps power_numeral pow.simps sqr.simps option.inject prod.inject
      numeral_plus_one one_plus_numeral one_add_one mult_zero_right add_0_left power_one mult_1_left mult_1_right
      cong: option.case_cong_weak if_weak_cong)

lemma side_p256_1: "2 ^ nat 564522 mod 115792089237316195423570985008687907853269984665640564039457584007908834671663 = (30133174243114333125352536507925183895021889065932097717961225114769139489296::int)"
proof -
  have N: "115792089237316195423570985008687907853269984665640564039457584007908834671663 = 115792089237316195423570985008687907853269984665640564039457584007913129639936 - (4294968273::int)"
    by simp
  have s0: "(1::int) = 2 ^ nat 0 mod 115792089237316195423570985008687907853269984665640564039457584007908834671663 \<and> (0::int) \<le> 0"
    by simp
  note s1 = run_steps_power [OF N side_p256_1_1 conjunct2 [OF s0] conjunct1 [OF s0]]
  note s2 = run_steps_power [OF N side_p256_1_2 conjunct2 [OF s1] conjunct1 [OF s1]]
  from conjunct1 [OF s2] show ?thesis by (rule sym)
qed

lemma prime_p256: "prime_int 115792089237316195423570985008687907853269984665640564039457584007908834671663"
proof (rule pocklington_1
    [where N = "115792089237316195423570985008687907853269984665640564039457584007908834671663"
       and a = 2
       and E = "115792089237316195423570985008687907853269984665640564039457584007908834671662"
       and qaa = "205115282021455665897114700593932402728804164701536103180137503955397371"
       and maa = "564522"
       and baa = "30133174243114333125352536507925183895021889065932097717961225114769139489296"
       and uaa = "38738227534097492269493948901333532538630784921480042032654553727346127695815"
       and vaa = "- 10081049300025779439656074993348321903608605725784878135637996734732791756248"])
  show "prime_int 205115282021455665897114700593932402728804164701536103180137503955397371"
    by (rule prime_p237)
  show "1 < (115792089237316195423570985008687907853269984665640564039457584007908834671663::int)"
    by simp
  show "115792089237316195423570985008687907853269984665640564039457584007908834671663 < 205115282021455665897114700593932402728804164701536103180137503955397371 * (205115282021455665897114700593932402728804164701536103180137503955397371::int)"
    by simp
  show "2 ^ nat 115792089237316195423570985008687907853269984665640564039457584007908834671662 mod 115792089237316195423570985008687907853269984665640564039457584007908834671663 = (1::int)"
    by (rule fermat_p256)
  show "115792089237316195423570985008687907853269984665640564039457584007908834671662 = 115792089237316195423570985008687907853269984665640564039457584007908834671663 - (1::int)"
    by simp
  show "115792089237316195423570985008687907853269984665640564039457584007908834671662 = 205115282021455665897114700593932402728804164701536103180137503955397371 * (564522::int)"
    by simp
  show "2 ^ nat 564522 mod 115792089237316195423570985008687907853269984665640564039457584007908834671663 = (30133174243114333125352536507925183895021889065932097717961225114769139489296::int)"
    by (rule side_p256_1)
  show "38738227534097492269493948901333532538630784921480042032654553727346127695815 * (30133174243114333125352536507925183895021889065932097717961225114769139489296 - 1) + (- 10081049300025779439656074993348321903608605725784878135637996734732791756248) * 115792089237316195423570985008687907853269984665640564039457584007908834671663 = (1::int)"
    by simp
qed

section \<open>The inverse of every nonzero field element\<close>

lemma prime_CURVE_P: "prime_int CURVE_P"
proof -
  have e: "CURVE_P = 115792089237316195423570985008687907853269984665640564039457584007908834671663"
    by (simp add: CURVE_P_def)
  show ?thesis by (subst e) (rule prime_p256)
qed

lemma invert_field:
  assumes "0 < a" "a < CURVE_P"
  shows "\<exists>x. invert a CURVE_P = Inr x \<and> 0 \<le> x \<and> x < CURVE_P \<and> (a * x) mod CURVE_P = 1"
proof -
  have "coprime a CURVE_P"
    using prime_CURVE_P assms by (simp add: prime_int_def)
  moreover have "a mod CURVE_P = a" using assms by simp
  ultimately have "gcd (a mod CURVE_P) CURVE_P = 1"
    by (simp add: coprime_iff_gcd_eq_1)
  then obtain x where x: "invert a CURVE_P = Inr x"
    using assms CURVE_P_pos by (simp add: invert_unfold)
  have "1 mod CURVE_P = 1" by (simp add: CURVE_P_def)
  then show ?thesis
    using invert_Inr [OF x] x by simp
qed

text \<open>
  Claim C7. For every \<open>a\<close> in \<open>[1, P - 1]\<close>, \<open>invert(a, P)\<close> returns and
  \<open>(a * invert(a, P)) mod P = 1\<close>; and \<open>egcd(a, b)\<close> returns \<open>(gcd, x, y)\<close> with
  \<open>a * x + b * y = gcd\<close>, where \<open>gcd\<close> is the greatest common divisor up to sign.
\<close>

theorem invert_correct:
  "(0 < a \<and> a < CURVE_P \<longrightarrow> (\<exists>i. invert a CURVE_P = Inr i \<and> (a * i) mod CURVE_P = 1))
   \<and> (egcd b c = (g, x, y) \<longrightarrow> b * x + c * y = g \<and> \<bar>g\<bar> = gcd b c)"
proof (intro conjI impI)
  assume "0 < a \<and> a < CURVE_P"
  then show "\<exists>i. invert a CURVE_P = Inr i \<and> (a * i) mod CURVE_P = 1"
    using invert_field [of a] by blast
next
  assume e: "egcd b c = (g, x, y)"
  then show "b * x + c * y = g" by (rule egcd_bezout)
  from e show "\<bar>g\<bar> = gcd b c"
    using egcd_loop_gcd [of b c 0 1 1 0 g x y] by (simp add: egcd_def)
qed

theorem invert_correct_witness:
  "(0::int) < 2 \<and> 2 < CURVE_P
   \<and> (\<exists>i. invert 2 CURVE_P = Inr i \<and> (2 * i) mod CURVE_P = 1)
   \<and> egcd 2 5 = (1, - 2, 1) \<and> (2::int) * (- 2) + 5 * 1 = 1 \<and> \<bar>1::int\<bar> = gcd 2 5"
proof -
  have e: "egcd 2 5 = (1, - 2, 1)"
    by (simp add: egcd_def egcd_loop.simps signed_divide_int_def signed_modulo_int_def)
  have p: "(0::int) < 2 \<and> 2 < CURVE_P"
    by (simp add: CURVE_P_def)
  show ?thesis
    using invert_correct [of 2 2 5 1 "- 2" 1] e p by simp
qed

end
